theory Spec2Isabelle
  imports Complex_Main "HOL-Library.Word"
begin

section \<open>Machine types, pointers and errors\<close>

text \<open>
  The two learners of the repository are embedded side by side:
  \<^item> \<open>BoostLearner\<close> of \<^verbatim>\<open>src/learner/learner-inl.hpp\<close> (the current generation);
  \<^item> \<open>RegRankBoostLearner\<close> of \<^verbatim>\<open>xgboost_regrank.h\<close> (the legacy generation); its names
    carry the suffix \<open>_rr\<close> where they would clash with the current ones.
  The trailing underscore of the C++ member names (\<^verbatim>\<open>cache_\<close>, \<^verbatim>\<open>obj_\<close>, ...) is dropped.

  Fixed-width integers are words: \<^verbatim>\<open>size_t\<close> and \<^verbatim>\<open>int64_t\<close> have 64 bits,
  \<^verbatim>\<open>unsigned\<close> and \<^verbatim>\<open>int\<close> have 32 bits; a signed value is read with \<open>sint\<close>.
  A \<^verbatim>\<open>float\<close> is the type parameter \<open>'f\<close>: the learners copy floats and hand them to their
  plug-ins; where a learner computes with floats itself (the sum in a prediction, the base
  score in \<open>AdjustBase\<close>), the single-precision operations are parameters as well.
\<close>

type_synonym byte = "8 word"
type_synonym size_t = "64 word"
type_synonym int64_t = "64 word"
type_synonym unsigned = "32 word"
type_synonym cint = "32 word"
type_synonym stream = "byte list"

text \<open>An address; \<open>0\<close> is the null pointer.\<close>
type_synonym addr = nat

text \<open>
  \<^verbatim>\<open>utils::Assert\<close> and \<^verbatim>\<open>utils::Check\<close> print their message and end the process.
  \<open>NullPointer\<close>, \<open>UseAfterFree\<close> and \<open>OutOfBounds\<close> are the undefined behaviours the code
  can run into; \<open>PluginFailed\<close> is a plug-in that does not deliver (a factory without an
  object of that name, a booster that cannot read its state).
\<close>
datatype error =
    AssertFailed string
  | CheckFailed string
  | NullPointer
  | UseAfterFree
  | OutOfBounds
  | PluginFailed string

text \<open>An owning pointer member (\<^verbatim>\<open>obj_\<close>, \<^verbatim>\<open>gbm_\<close>): null, live, or deleted but not reset.\<close>
datatype 'a ptr = NULL | Obj 'a | Freed

definition deref :: "'a ptr \<Rightarrow> error + 'a" where
  "deref p = (case p of NULL \<Rightarrow> Inl NullPointer | Freed \<Rightarrow> Inl UseAfterFree | Obj x \<Rightarrow> Inr x)"

text \<open>\<^verbatim>\<open>if (p != NULL) delete p;\<close> The pointer keeps its (now dangling) value.\<close>
definition delete_if_set :: "'a ptr \<Rightarrow> 'a ptr" where
  "delete_if_set p = (case p of NULL \<Rightarrow> NULL | _ \<Rightarrow> Freed)"

text \<open>Sequencing of fallible steps: the first error ends the run.\<close>
definition thenE :: "error + 'a \<Rightarrow> ('a \<Rightarrow> error + 'b) \<Rightarrow> error + 'b" where
  "thenE r f = (case r of Inl e \<Rightarrow> Inl e | Inr x \<Rightarrow> f x)"

definition Assert :: "bool \<Rightarrow> string \<Rightarrow> error + unit" where
  "Assert c msg = (if c then Inr () else Inl (AssertFailed msg))"

definition Check :: "bool \<Rightarrow> string \<Rightarrow> error + unit" where
  "Check c msg = (if c then Inr () else Inl (CheckFailed msg))"

subsection \<open>The C library: \<^verbatim>\<open>atoi\<close> and \<^verbatim>\<open>printf("%u")\<close>\<close>

definition isspace :: "char \<Rightarrow> bool" where
  "isspace c = ((of_char c :: nat) = 32 \<or> (9 \<le> (of_char c :: nat) \<and> (of_char c :: nat) \<le> 13))"

definition isdigit :: "char \<Rightarrow> bool" where
  "isdigit c = (48 \<le> (of_char c :: nat) \<and> (of_char c :: nat) \<le> 57)"

fun atoi_digits :: "int \<Rightarrow> string \<Rightarrow> int" where
  "atoi_digits acc [] = acc"
| "atoi_digits acc (c # cs) =
     (if isdigit c then atoi_digits (10 * acc + int (of_char c - 48)) cs else acc)"

text \<open>What \<^verbatim>\<open>strtol\<close> makes of a value out of the range of \<^verbatim>\<open>long\<close> (64 bits): the nearest bound.\<close>
definition strtol_range :: "int \<Rightarrow> int" where
  "strtol_range v = max (- (2 ^ 63)) (min (2 ^ 63 - 1) v)"

text \<open>
  \<^verbatim>\<open>atoi\<close>: leading white space, an optional sign, then digits. A value out of the range of
  \<^verbatim>\<open>int\<close> is undefined in C; the C library computes \<^verbatim>\<open>(int) strtol(s, NULL, 10)\<close>: the value is
  kept within the range of \<^verbatim>\<open>long\<close>, and the conversion to \<^verbatim>\<open>int\<close> keeps its low 32 bits.
\<close>
definition atoi :: "string \<Rightarrow> cint" where
  "atoi s =
     (case dropWhile isspace s of
        [] \<Rightarrow> 0
      | c # cs \<Rightarrow>
          if c = CHR ''-'' then of_int (strtol_range (- atoi_digits 0 cs))
          else if c = CHR ''+'' then of_int (strtol_range (atoi_digits 0 cs))
          else of_int (strtol_range (atoi_digits 0 (c # cs))))"

fun dec_digits :: "nat \<Rightarrow> string" where
  "dec_digits n =
     (if n < 10 then [char_of (48 + n)] else dec_digits (n div 10) @ [char_of (48 + n mod 10)])"

declare dec_digits.simps [simp del]

text \<open>\<^verbatim>\<open>"%u"\<close> and \<^verbatim>\<open>"%lu"\<close> of an unsigned value, \<^verbatim>\<open>"%d"\<close> of an \<^verbatim>\<open>int\<close>.\<close>
definition fmt_u :: "'a::len word \<Rightarrow> string" where
  "fmt_u w = dec_digits (unat w)"

definition fmt_d :: "cint \<Rightarrow> string" where
  "fmt_d w = (if sint w < 0 then CHR ''-'' # dec_digits (nat (- sint w)) else dec_digits (nat (sint w)))"

section \<open>Data model\<close>

text \<open>
  \<open>DMatrix\<close> is declared outside the files at hand; the learners use its feature matrix
  (\<^verbatim>\<open>fmat\<close>, legacy \<^verbatim>\<open>data\<close>), its meta information \<^verbatim>\<open>info\<close>, its row count
  (\<^verbatim>\<open>info.num_row\<close>, \<^verbatim>\<open>num_row\<close>, legacy \<^verbatim>\<open>Size()\<close>), its column count
  (\<^verbatim>\<open>info.num_col\<close>, legacy \<^verbatim>\<open>data.NumCol()\<close>) and the back pointer
  \<^verbatim>\<open>cache_learner_ptr_\<close>. Matrices live in a store and are named by their address.
\<close>
record ('d, 'i) DMatrix =
  fmat :: 'd
  info :: 'i
  num_row :: size_t
  num_col :: size_t
  cache_learner_ptr :: addr

type_synonym ('d, 'i) store = "addr \<Rightarrow> ('d, 'i) DMatrix"

record 'f ModelParam =
  base_score :: 'f
  num_feature :: unsigned
  num_class :: cint
  reserved :: "cint list"

record CacheEntry =
  mat :: addr
  buffer_offset :: size_t
  num_row_c :: size_t

text \<open>
  The plug-ins of the current learner, none of them under \<^verbatim>\<open>src/\<close>: the booster
  (\<^verbatim>\<open>gbm::IGradBooster\<close>), the objective (\<^verbatim>\<open>IObjFunction\<close>), the evaluator factory and
  \<^verbatim>\<open>atof\<close>. They are parameters of the model. A factory that does not deliver an object
  yields \<open>None\<close>; a booster that cannot read its state yields \<open>None\<close>.
\<close>
record ('g, 'o, 'd, 'i, 'f, 'p) env =
  CreateGradBooster :: "string \<Rightarrow> 'g option"
  gbm_SetParam :: "'g \<Rightarrow> string \<Rightarrow> string \<Rightarrow> 'g"
  gbm_InitModel :: "'g \<Rightarrow> 'g"
  gbm_LoadModel :: "'g \<Rightarrow> stream \<Rightarrow> ('g \<times> stream) option"
  gbm_SaveModel :: "'g \<Rightarrow> stream"
  gbm_DoBoost :: "'g \<Rightarrow> 'p list \<Rightarrow> 'd \<Rightarrow> 'i \<Rightarrow> 'g"
  gbm_Predict :: "'g \<Rightarrow> 'd \<Rightarrow> int64_t \<Rightarrow> 'i \<Rightarrow> 'f list"
  CreateObjFunction :: "string \<Rightarrow> 'o option"
  obj_SetParam :: "'o \<Rightarrow> string \<Rightarrow> string \<Rightarrow> 'o"
  obj_GetGradient :: "'o \<Rightarrow> 'f list \<Rightarrow> 'i \<Rightarrow> cint \<Rightarrow> 'p list"
  obj_PredTransform :: "'o \<Rightarrow> 'f list \<Rightarrow> 'f list"
  obj_EvalTransform :: "'o \<Rightarrow> 'f list \<Rightarrow> 'f list"
  obj_ProbToMargin :: "'o \<Rightarrow> 'f \<Rightarrow> 'f"
  obj_DefaultEvalMetric :: "'o \<Rightarrow> string"
  CreateEvaluator :: "string \<Rightarrow> ('f list \<Rightarrow> 'i \<Rightarrow> 'f) option"
  atof :: "string \<Rightarrow> 'f"

text \<open>
  The evaluation set records the metric names handed to \<^verbatim>\<open>AddEval\<close>. Printing to
  \<^verbatim>\<open>stdout\<close> is not modelled.
\<close>
record ('g, 'o, 'f, 'p) BoostLearner =
  silent :: cint
  evaluator :: "string list"
  mparam :: "'f ModelParam"
  gbm :: "'g ptr"
  name_gbm :: string
  obj :: "'o ptr"
  name_obj :: string
  cfg :: "(string \<times> string) list"
  preds :: "'f list"
  gpair :: "'p list"
  cache :: "CacheEntry list"

section \<open>The current learner: parameters and the prediction buffer cache\<close>

definition ModelParam_SetParam ::
  "(string \<Rightarrow> 'f) \<Rightarrow> 'f ModelParam \<Rightarrow> string \<Rightarrow> string \<Rightarrow> 'f ModelParam" where
  "ModelParam_SetParam atof_f p name val =
     (let p1 = (if name = ''base_score'' then p\<lparr>base_score := atof_f val\<rparr> else p);
          p2 = (if name = ''num_class'' then p1\<lparr>num_class := atoi val\<rparr> else p1)
      in if name = ''bst:num_feature'' then p2\<lparr>num_feature := atoi val\<rparr> else p2)"

definition SetParam ::
  "('g, 'o, 'd, 'i, 'f, 'p) env \<Rightarrow> ('g, 'o, 'f, 'p) BoostLearner \<Rightarrow> string \<Rightarrow> string
     \<Rightarrow> ('g, 'o, 'f, 'p) BoostLearner" where
  "SetParam E L name val =
     (let L1 = (if name = ''silent'' then L\<lparr>silent := atoi val\<rparr> else L);
          L2 = (if name = ''eval_metric'' then L1\<lparr>evaluator := evaluator L1 @ [val]\<rparr> else L1);
          L3 = (if gbm L2 = NULL
                then (let L2a = (if name = ''objective'' then L2\<lparr>name_obj := val\<rparr> else L2);
                          L2b = (if name = ''booster'' then L2a\<lparr>name_gbm := val\<rparr> else L2a)
                      in L2b\<lparr>mparam := ModelParam_SetParam (atof E) (mparam L2b) name val\<rparr>)
                else L2)
      in L3\<lparr>cfg := cfg L3 @ [(name, val)]\<rparr>)"

text \<open>The inner loop over \<open>j < i\<close>: \<open>prev\<close> holds \<^verbatim>\<open>mats[0..i)\<close>.\<close>
fun dupilicate :: "addr \<Rightarrow> addr list \<Rightarrow> bool \<Rightarrow> bool" where
  "dupilicate m [] d = d"
| "dupilicate m (x # xs) d = dupilicate m xs (if m = x then True else d)"

text \<open>
  The outer loop of \<open>SetCacheData\<close> over \<open>mats\<close>; its state is the store of matrices, the
  cache, \<^verbatim>\<open>buffer_size\<close> and \<^verbatim>\<open>num_feature\<close>.
\<close>
fun SetCacheData_loop ::
  "addr \<Rightarrow> addr list \<Rightarrow> addr list
     \<Rightarrow> ('d, 'i) store \<times> CacheEntry list \<times> size_t \<times> unsigned
     \<Rightarrow> ('d, 'i) store \<times> CacheEntry list \<times> size_t \<times> unsigned" where
  "SetCacheData_loop this prev [] st = st"
| "SetCacheData_loop this prev (m # rest) (S, c, buffer_size, nfeat) =
     (if dupilicate m prev False then SetCacheData_loop this (prev @ [m]) rest (S, c, buffer_size, nfeat)
      else SetCacheData_loop this (prev @ [m]) rest
             (S(m := (S m)\<lparr>cache_learner_ptr := this\<rparr>),
              c @ [\<lparr>mat = m, buffer_offset = buffer_size, num_row_c = num_row (S m)\<rparr>],
              buffer_size + num_row (S m),
              max nfeat (ucast (num_col (S m)))))"

definition SetCacheData ::
  "('g, 'o, 'd, 'i, 'f, 'p) env \<Rightarrow> addr \<Rightarrow> ('d, 'i) store \<Rightarrow> ('g, 'o, 'f, 'p) BoostLearner
     \<Rightarrow> addr list \<Rightarrow> error + (('g, 'o, 'f, 'p) BoostLearner \<times> ('d, 'i) store)" where
  "SetCacheData E this S L mats =
     thenE (Assert (length (cache L) = 0) ''can only call cache data once'') (\<lambda>_.
       case SetCacheData_loop this [] mats (S, cache L, 0, 0) of
         (S', c, buffer_size, nfeat) \<Rightarrow>
           (let L1 = L\<lparr>cache := c\<rparr>;
                L2 = (if nfeat > num_feature (mparam L1)
                      then SetParam E L1 ''bst:num_feature'' (fmt_u nfeat) else L1);
                L3 = SetParam E L2 ''num_pbuffer'' (fmt_u buffer_size)
            in Inr (L3, S')))"

fun FindBufferOffset_loop ::
  "addr \<Rightarrow> ('d, 'i) store \<Rightarrow> CacheEntry list \<Rightarrow> addr \<Rightarrow> int64_t" where
  "FindBufferOffset_loop this S [] m = - 1"
| "FindBufferOffset_loop this S (e # es) m =
     (if mat e = m \<and> cache_learner_ptr (S m) = this
      then (if num_row_c e = num_row (S m) then buffer_offset e
            else FindBufferOffset_loop this S es m)
      else FindBufferOffset_loop this S es m)"

definition FindBufferOffset ::
  "addr \<Rightarrow> ('d, 'i) store \<Rightarrow> ('g, 'o, 'f, 'p) BoostLearner \<Rightarrow> addr \<Rightarrow> int64_t" where
  "FindBufferOffset this S L m = FindBufferOffset_loop this S (cache L) m"

section \<open>The legacy learner: data model\<close>

record 'f ModelParam_rr =
  base_score_rr :: 'f
  loss_type :: cint
  num_feature_rr :: cint
  num_class_rr :: cint
  clear_period :: cint
  reserved_rr :: "cint list"

record CacheEntry_rr =
  mat_rr :: addr
  buffer_offset_rr :: cint
  num_row_rr :: size_t

text \<open>
  The plug-ins of the legacy learner, none of them under \<^verbatim>\<open>src/\<close>: the booster
  \<^verbatim>\<open>booster::GBMPP\<close>, the objective, \<^verbatim>\<open>EvalSet::Create\<close>, the accessors of the meta
  information, and \<^verbatim>\<open>atof\<close>. A prediction of the booster is read as a function of the
  booster's state; the prediction buffer it keeps is part of that state.

  The arithmetic of \<^verbatim>\<open>float\<close> is a parameter too: \<open>fzero\<close> and \<open>fone\<close> are \<^verbatim>\<open>0.0f\<close> and \<^verbatim>\<open>1.0f\<close>,
  \<open>fless a b\<close> is \<^verbatim>\<open>a < b\<close>, \<open>fadd\<close>, \<open>fsub\<close> and \<open>fdiv\<close> are \<^verbatim>\<open>+\<close>, \<^verbatim>\<open>-\<close> and \<^verbatim>\<open>/\<close> in single
  precision, \<open>fneg\<close> is the unary minus and \<open>logf\<close> the function of that name of the C
  library.
\<close>
record ('g, 'o, 'd, 'i, 'f) env_rr =
  gbm_SetParam_rr :: "'g \<Rightarrow> string \<Rightarrow> string \<Rightarrow> 'g"
  gbm_InitTrainer_rr :: "'g \<Rightarrow> 'g"
  gbm_InitModel_rr :: "'g \<Rightarrow> 'g"
  gbm_LoadModel_rr :: "'g \<Rightarrow> stream \<Rightarrow> ('g \<times> stream) option"
  gbm_SaveModel_rr :: "'g \<Rightarrow> stream"
  gbm_NumBoosters :: "'g \<Rightarrow> cint"
  gbm_NumBoosterGroup :: "'g \<Rightarrow> cint"
  gbm_DoBoost_rr :: "'g \<Rightarrow> 'f list \<Rightarrow> 'f list \<Rightarrow> 'd \<Rightarrow> unsigned list \<Rightarrow> cint \<Rightarrow> cint \<Rightarrow> 'g"
  gbm_Predict_rr :: "'g \<Rightarrow> 'd \<Rightarrow> unsigned \<Rightarrow> cint \<Rightarrow> unsigned \<Rightarrow> cint \<Rightarrow> 'f"
  gbm_InteractPredict :: "'g \<Rightarrow> 'd \<Rightarrow> unsigned \<Rightarrow> cint \<Rightarrow> 'f"
  gbm_InteractRePredict :: "'g \<Rightarrow> 'd \<Rightarrow> unsigned \<Rightarrow> cint \<Rightarrow> 'g"
  gbm_ClearBuffer :: "'g \<Rightarrow> cint \<Rightarrow> 'g"
  gbm_DelteBooster :: "'g \<Rightarrow> 'g"
  CreateObjFunction_rr :: "string \<Rightarrow> 'o option"
  obj_SetParam_rr :: "'o \<Rightarrow> string \<Rightarrow> string \<Rightarrow> 'o"
  obj_GetGradient_rr :: "'o \<Rightarrow> 'f list \<Rightarrow> 'i \<Rightarrow> cint \<Rightarrow> 'f list \<times> 'f list"
  obj_PredTransform_rr :: "'o \<Rightarrow> 'f list \<Rightarrow> 'f list"
  obj_EvalTransform_rr :: "'o \<Rightarrow> 'f list \<Rightarrow> 'f list"
  obj_DefaultEvalMetric_rr :: "'o \<Rightarrow> string"
  EvalSet_Create :: "string \<Rightarrow> ('f list \<Rightarrow> 'i \<Rightarrow> 'f) option"
  root_index :: "'i \<Rightarrow> unsigned list"
  GetRoot :: "'i \<Rightarrow> unsigned \<Rightarrow> unsigned"
  fadd :: "'f \<Rightarrow> 'f \<Rightarrow> 'f"
  fzero :: 'f
  atof_rr :: "string \<Rightarrow> 'f"
  fone :: 'f
  fless :: "'f \<Rightarrow> 'f \<Rightarrow> bool"
  fsub :: "'f \<Rightarrow> 'f \<Rightarrow> 'f"
  fdiv :: "'f \<Rightarrow> 'f \<Rightarrow> 'f"
  fneg :: "'f \<Rightarrow> 'f"
  logf :: "'f \<Rightarrow> 'f"

record ('g, 'o, 'f) RegRankBoostLearner =
  silent_rr :: cint
  evaluator_rr :: "string list"
  base_gbm :: 'g
  mparam_rr :: "'f ModelParam_rr"
  obj_rr :: "'o ptr"
  name_obj_rr :: string
  cfg_rr :: "(string \<times> string) list"
  grad :: "'f list"
  hess :: "'f list"
  preds_rr :: "'f list"
  cache_rr :: "CacheEntry_rr list"

section \<open>The legacy learner: the prediction buffer cache\<close>

text \<open>\<^verbatim>\<open>std::max\<close> on two \<^verbatim>\<open>int\<close>s.\<close>
definition max_int :: "cint \<Rightarrow> cint \<Rightarrow> cint" where
  "max_int a b = (if sint a < sint b then b else a)"

text \<open>
  \<^verbatim>\<open>buffer_size\<close> is an \<^verbatim>\<open>unsigned\<close>; the entry's \<^verbatim>\<open>buffer_offset_\<close> is an \<^verbatim>\<open>int\<close> of the
  same 32 bits; the row count is cut to 32 bits when it is added.
\<close>
fun SetCacheData_loop_rr ::
  "addr \<Rightarrow> addr list \<Rightarrow> addr list
     \<Rightarrow> ('d, 'i) store \<times> CacheEntry_rr list \<times> unsigned \<times> cint
     \<Rightarrow> ('d, 'i) store \<times> CacheEntry_rr list \<times> unsigned \<times> cint" where
  "SetCacheData_loop_rr this prev [] st = st"
| "SetCacheData_loop_rr this prev (m # rest) (S, c, buffer_size, nfeat) =
     (if dupilicate m prev False
      then SetCacheData_loop_rr this (prev @ [m]) rest (S, c, buffer_size, nfeat)
      else SetCacheData_loop_rr this (prev @ [m]) rest
             (S(m := (S m)\<lparr>cache_learner_ptr := this\<rparr>),
              c @ [\<lparr>mat_rr = m, buffer_offset_rr = buffer_size, num_row_rr = num_row (S m)\<rparr>],
              buffer_size + ucast (num_row (S m)),
              max_int nfeat (ucast (num_col (S m)))))"

definition SetCacheData_rr ::
  "('g, 'o, 'd, 'i, 'f) env_rr \<Rightarrow> addr \<Rightarrow> ('d, 'i) store \<Rightarrow> ('g, 'o, 'f) RegRankBoostLearner
     \<Rightarrow> addr list \<Rightarrow> error + (('g, 'o, 'f) RegRankBoostLearner \<times> ('d, 'i) store)" where
  "SetCacheData_rr E this S L mats =
     thenE (Assert (length (cache_rr L) = 0) ''can only call cache data once'') (\<lambda>_.
       case SetCacheData_loop_rr this [] mats (S, cache_rr L, 0, 0) of
         (S', c, buffer_size, nfeat) \<Rightarrow>
           (let L1 = L\<lparr>cache_rr := c\<rparr>;
                L2 = (if sint nfeat > sint (num_feature_rr (mparam_rr L1))
                      then L1\<lparr>mparam_rr := (mparam_rr L1)\<lparr>num_feature_rr := nfeat\<rparr>,
                              base_gbm := gbm_SetParam_rr E (base_gbm L1) ''bst:num_feature'' (fmt_d nfeat)\<rparr>
                      else L1);
                L3 = L2\<lparr>base_gbm := gbm_SetParam_rr E (base_gbm L2) ''num_pbuffer'' (fmt_u buffer_size)\<rparr>
            in Inr (L3, S')))"

definition stale_warning :: string where
  "stale_warning =
     ''warning: number of rows in input matrix changed as remembered in cachelist, ignore cached results''"

text \<open>
  The legacy lookup writes a warning to \<^verbatim>\<open>stderr\<close> for an entry of the matrix whose row
  count has changed, and goes on; \<open>err\<close> collects what was written.
\<close>
fun FindBufferOffset_loop_rr ::
  "addr \<Rightarrow> ('d, 'i) store \<Rightarrow> CacheEntry_rr list \<Rightarrow> addr \<Rightarrow> string list \<Rightarrow> string list \<times> cint" where
  "FindBufferOffset_loop_rr this S [] m err = (err, - 1)"
| "FindBufferOffset_loop_rr this S (e # es) m err =
     (if mat_rr e = m \<and> cache_learner_ptr (S m) = this
      then (if num_row_rr e = num_row (S m) then (err, buffer_offset_rr e)
            else FindBufferOffset_loop_rr this S es m (err @ [stale_warning]))
      else FindBufferOffset_loop_rr this S es m err)"

text \<open>The lines written to \<^verbatim>\<open>stderr\<close> and the value returned.\<close>
definition FindBufferOffset_rr ::
  "addr \<Rightarrow> ('d, 'i) store \<Rightarrow> ('g, 'o, 'f) RegRankBoostLearner \<Rightarrow> addr \<Rightarrow> string list \<times> cint" where
  "FindBufferOffset_rr this S L m = FindBufferOffset_loop_rr this S (cache_rr L) m []"

section \<open>Streams and the binary layout\<close>

text \<open>
  \<^verbatim>\<open>utils::IStream\<close> is not under \<^verbatim>\<open>src/\<close>. A stream is the list of the bytes still to be
  read; \<^verbatim>\<open>Write\<close> appends bytes; \<^verbatim>\<open>Read(ptr, size)\<close> delivers \<open>size\<close> bytes, or returns 0
  (\<open>None\<close>) when the stream is shorter.
\<close>
definition stream_Read :: "nat \<Rightarrow> stream \<Rightarrow> (byte list \<times> stream) option" where
  "stream_Read n fi = (if length fi < n then None else Some (take n fi, drop n fi))"

text \<open>The object representation of an integer: its bytes, lowest first.\<close>
fun le_bytes :: "nat \<Rightarrow> nat \<Rightarrow> byte list" where
  "le_bytes 0 v = []"
| "le_bytes (Suc k) v = of_nat v # le_bytes k (v div 256)"

fun le_nat :: "byte list \<Rightarrow> nat" where
  "le_nat [] = 0"
| "le_nat (b # bs) = unat b + 256 * le_nat bs"

definition word_bytes :: "'a::len word \<Rightarrow> byte list" where
  "word_bytes w = le_bytes (LENGTH('a) div 8) (unat w)"

definition bytes_word :: "byte list \<Rightarrow> 'a::len word" where
  "bytes_word bs = of_nat (le_nat bs)"

definition byte_of_char :: "char \<Rightarrow> byte" where
  "byte_of_char c = of_nat (of_char c)"

definition char_of_byte :: "byte \<Rightarrow> char" where
  "char_of_byte b = char_of (unat b)"

text \<open>
  \<^verbatim>\<open>fo.Write(&mparam, sizeof(ModelParam))\<close> copies the struct: a \<^verbatim>\<open>float\<close> (here its 32 bits),
  an \<^verbatim>\<open>unsigned\<close>, an \<^verbatim>\<open>int\<close> and \<^verbatim>\<open>int reserved[32]\<close>, 140 bytes without padding.
\<close>
definition sizeof_ModelParam :: nat where
  "sizeof_ModelParam = 140"

definition ModelParam_bytes :: "32 word ModelParam \<Rightarrow> byte list" where
  "ModelParam_bytes p =
     word_bytes (base_score p) @ word_bytes (num_feature p) @ word_bytes (num_class p)
       @ concat (map word_bytes (reserved p))"

definition ModelParam_of_bytes :: "byte list \<Rightarrow> 32 word ModelParam" where
  "ModelParam_of_bytes bs =
     \<lparr>base_score = bytes_word (take 4 bs),
      num_feature = bytes_word (take 4 (drop 4 bs)),
      num_class = bytes_word (take 4 (drop 8 bs)),
      reserved = map (\<lambda>k. bytes_word (take 4 (drop (12 + 4 * k) bs))) [0..<32]\<rparr>"

text \<open>
  The legacy struct: \<^verbatim>\<open>float base_score; int loss_type, num_feature, num_class,
  clear_period; int reserved[14]\<close>, 76 bytes.
\<close>
definition sizeof_ModelParam_rr :: nat where
  "sizeof_ModelParam_rr = 76"

definition ModelParam_bytes_rr :: "32 word ModelParam_rr \<Rightarrow> byte list" where
  "ModelParam_bytes_rr p =
     word_bytes (base_score_rr p) @ word_bytes (loss_type p) @ word_bytes (num_feature_rr p)
       @ word_bytes (num_class_rr p) @ word_bytes (clear_period p)
       @ concat (map word_bytes (reserved_rr p))"

definition ModelParam_of_bytes_rr :: "byte list \<Rightarrow> 32 word ModelParam_rr" where
  "ModelParam_of_bytes_rr bs =
     \<lparr>base_score_rr = bytes_word (take 4 bs),
      loss_type = bytes_word (take 4 (drop 4 bs)),
      num_feature_rr = bytes_word (take 4 (drop 8 bs)),
      num_class_rr = bytes_word (take 4 (drop 12 bs)),
      clear_period = bytes_word (take 4 (drop 16 bs)),
      reserved_rr = map (\<lambda>k. bytes_word (take 4 (drop (20 + 4 * k) bs))) [0..<14]\<rparr>"

text \<open>
  Modelled from the spec: the string overloads \<^verbatim>\<open>fo.Write(&name)\<close> and \<^verbatim>\<open>fi.Read(&name)\<close> of
  \<^verbatim>\<open>utils::IStream\<close> are not under \<^verbatim>\<open>src/\<close>; the spec calls the names "length-prefixed".
  The length is written as 64 bits, as the legacy learner does by hand.
\<close>
definition Write_string :: "string \<Rightarrow> byte list" where
  "Write_string s = word_bytes (of_nat (length s) :: 64 word) @ map byte_of_char s"

definition Read_string :: "stream \<Rightarrow> (string \<times> stream) option" where
  "Read_string fi =
     (case stream_Read 8 fi of
        None \<Rightarrow> None
      | Some (lb, fi1) \<Rightarrow>
          (let sz = unat (bytes_word lb :: 64 word) in
           if sz = 0 then Some ([], fi1)
           else (case stream_Read sz fi1 of
                   None \<Rightarrow> None
                 | Some (cs, fi2) \<Rightarrow> Some (map char_of_byte cs, fi2))))"

section \<open>The current learner: life cycle\<close>

text \<open>
  The constructors. \<open>half\<close> is \<^verbatim>\<open>0.5f\<close>; \<^verbatim>\<open>BoostLearner(void)\<close> leaves \<^verbatim>\<open>silent\<close> as it
  finds it (\<open>silent0\<close>).
\<close>
definition ModelParam_init :: "'f \<Rightarrow> 'f ModelParam" where
  "ModelParam_init half = \<lparr>base_score = half, num_feature = 0, num_class = 0, reserved = replicate 32 0\<rparr>"

definition BoostLearner_init :: "cint \<Rightarrow> 'f \<Rightarrow> ('g, 'o, 'f, 'p) BoostLearner" where
  "BoostLearner_init silent0 half =
     \<lparr>silent = silent0, evaluator = [], mparam = ModelParam_init half, gbm = NULL,
      name_gbm = ''gbtree'', obj = NULL, name_obj = ''reg:linear'', cfg = [], preds = [],
      gpair = [], cache = []\<rparr>"

definition InitObjGBM ::
  "('g, 'o, 'd, 'i, 'f, 'p) env \<Rightarrow> ('g, 'o, 'f, 'p) BoostLearner
     \<Rightarrow> error + ('g, 'o, 'f, 'p) BoostLearner" where
  "InitObjGBM E L =
     (if obj L \<noteq> NULL then Inr L
      else thenE (Assert (gbm L = NULL) ''GBM and obj should be NULL'') (\<lambda>_.
        case CreateObjFunction E (name_obj L) of
          None \<Rightarrow> Inl (PluginFailed (name_obj L))
        | Some o0 \<Rightarrow>
            (case CreateGradBooster E (name_gbm L) of
               None \<Rightarrow> Inl (PluginFailed (name_gbm L))
             | Some g0 \<Rightarrow>
                 (let o1 = foldl (\<lambda>ob (k, v). obj_SetParam E ob k v) o0 (cfg L);
                      g1 = foldl (\<lambda>gb (k, v). gbm_SetParam E gb k v) g0 (cfg L)
                  in Inr (L\<lparr>obj := Obj o1, gbm := Obj g1,
                            evaluator := evaluator L @ [obj_DefaultEvalMetric E o1]\<rparr>)))))"

definition InitModel ::
  "('g, 'o, 'd, 'i, 'f, 'p) env \<Rightarrow> ('g, 'o, 'f, 'p) BoostLearner
     \<Rightarrow> error + ('g, 'o, 'f, 'p) BoostLearner" where
  "InitModel E L =
     thenE (InitObjGBM E L) (\<lambda>L1.
     thenE (deref (obj L1)) (\<lambda>ob.
       let L2 = L1\<lparr>mparam := (mparam L1)\<lparr>base_score := obj_ProbToMargin E ob (base_score (mparam L1))\<rparr>\<rparr>
       in thenE (deref (gbm L2)) (\<lambda>gb. Inr (L2\<lparr>gbm := Obj (gbm_InitModel E gb)\<rparr>))))"

definition LoadModel ::
  "('g, 'o, 'd, 'i, 32 word, 'p) env \<Rightarrow> ('g, 'o, 32 word, 'p) BoostLearner \<Rightarrow> stream
     \<Rightarrow> error + (('g, 'o, 32 word, 'p) BoostLearner \<times> stream)" where
  "LoadModel E L fi =
     (case stream_Read sizeof_ModelParam fi of
        None \<Rightarrow> Inl (CheckFailed ''BoostLearner: wrong model format'')
      | Some (bs, fi1) \<Rightarrow>
     (case Read_string fi1 of
        None \<Rightarrow> Inl (CheckFailed ''BoostLearner: wrong model format'')
      | Some (nobj, fi2) \<Rightarrow>
     (case Read_string fi2 of
        None \<Rightarrow> Inl (CheckFailed ''BoostLearner: wrong model format'')
      | Some (ngbm, fi3) \<Rightarrow>
          (let L1 = L\<lparr>mparam := ModelParam_of_bytes bs, name_obj := nobj, name_gbm := ngbm,
                      obj := delete_if_set (obj L), gbm := delete_if_set (gbm L)\<rparr>
           in thenE (InitObjGBM E L1) (\<lambda>L2.
              thenE (deref (gbm L2)) (\<lambda>gb.
                case gbm_LoadModel E gb fi3 of
                  None \<Rightarrow> Inl (PluginFailed ''gbm LoadModel'')
                | Some (gb', fi4) \<Rightarrow> Inr (L2\<lparr>gbm := Obj gb'\<rparr>, fi4)))))))"

definition SaveModel ::
  "('g, 'o, 'd, 'i, 32 word, 'p) env \<Rightarrow> ('g, 'o, 32 word, 'p) BoostLearner \<Rightarrow> stream
     \<Rightarrow> error + stream" where
  "SaveModel E L fo =
     thenE (deref (gbm L)) (\<lambda>gb.
       Inr (fo @ ModelParam_bytes (mparam L) @ Write_string (name_obj L) @ Write_string (name_gbm L)
              @ gbm_SaveModel E gb))"

text \<open>\<open>PredictRaw\<close> yields what it stores through \<^verbatim>\<open>out_preds\<close>.\<close>
definition PredictRaw ::
  "('g, 'o, 'd, 'i, 'f, 'p) env \<Rightarrow> addr \<Rightarrow> ('d, 'i) store \<Rightarrow> ('g, 'o, 'f, 'p) BoostLearner
     \<Rightarrow> addr \<Rightarrow> error + 'f list" where
  "PredictRaw E this S L data =
     thenE (deref (gbm L)) (\<lambda>gb.
       Inr (gbm_Predict E gb (fmat (S data)) (FindBufferOffset this S L data) (info (S data))))"

text \<open>The root index handed to \<^verbatim>\<open>DoBoost\<close> is a part of \<open>info\<close>.\<close>
definition UpdateOneIter ::
  "('g, 'o, 'd, 'i, 'f, 'p) env \<Rightarrow> addr \<Rightarrow> ('d, 'i) store \<Rightarrow> ('g, 'o, 'f, 'p) BoostLearner
     \<Rightarrow> cint \<Rightarrow> addr \<Rightarrow> error + ('g, 'o, 'f, 'p) BoostLearner" where
  "UpdateOneIter E this S L iter p_train =
     thenE (PredictRaw E this S L p_train) (\<lambda>ps.
     thenE (deref (obj L)) (\<lambda>ob.
       let gp = obj_GetGradient E ob ps (info (S p_train)) iter in
       thenE (deref (gbm L)) (\<lambda>gb.
         Inr (L\<lparr>preds := ps, gpair := gp,
                gbm := Obj (gbm_DoBoost E gb gp (fmat (S p_train)) (info (S p_train)))\<rparr>))))"

text \<open>
  \<open>Evaluate\<close> has no check of the evaluator it is given: without one (\<open>None\<close>),
  \<^verbatim>\<open>ev->Eval\<close> is a call through a null pointer.
\<close>
definition Evaluate ::
  "('g, 'o, 'd, 'i, 'f, 'p) env \<Rightarrow> addr \<Rightarrow> ('d, 'i) store \<Rightarrow> ('g, 'o, 'f, 'p) BoostLearner
     \<Rightarrow> addr \<Rightarrow> string \<Rightarrow> error + ((string \<times> 'f) \<times> ('g, 'o, 'f, 'p) BoostLearner)" where
  "Evaluate E this S L data metric =
     thenE (if metric = ''auto''
            then thenE (deref (obj L)) (\<lambda>ob. Inr (obj_DefaultEvalMetric E ob))
            else Inr metric) (\<lambda>metric1.
       let ev = CreateEvaluator E metric1 in
       thenE (PredictRaw E this S L data) (\<lambda>ps.
       thenE (deref (obj L)) (\<lambda>ob.
         let ps1 = obj_EvalTransform E ob ps in
         case ev of
           None \<Rightarrow> Inl NullPointer
         | Some eval \<Rightarrow> Inr ((metric1, eval ps1 (info (S data))), L\<lparr>preds := ps1\<rparr>))))"

definition Predict ::
  "('g, 'o, 'd, 'i, 'f, 'p) env \<Rightarrow> addr \<Rightarrow> ('d, 'i) store \<Rightarrow> ('g, 'o, 'f, 'p) BoostLearner
     \<Rightarrow> addr \<Rightarrow> error + 'f list" where
  "Predict E this S L data =
     thenE (PredictRaw E this S L data) (\<lambda>ps.
     thenE (deref (obj L)) (\<lambda>ob. Inr (obj_PredTransform E ob ps)))"

section \<open>The legacy learner: life cycle\<close>

definition ModelParam_init_rr :: "'f \<Rightarrow> 'f ModelParam_rr" where
  "ModelParam_init_rr half =
     \<lparr>base_score_rr = half, loss_type = - 1, num_feature_rr = 0, num_class_rr = 0,
      clear_period = 0, reserved_rr = replicate 14 0\<rparr>"

text \<open>\<open>gbm0\<close> is the default-constructed \<^verbatim>\<open>booster::GBMPP\<close>.\<close>
definition RegRankBoostLearner_init :: "'g \<Rightarrow> 'f \<Rightarrow> ('g, 'o, 'f) RegRankBoostLearner" where
  "RegRankBoostLearner_init gbm0 half =
     \<lparr>silent_rr = 0, evaluator_rr = [], base_gbm = gbm0, mparam_rr = ModelParam_init_rr half,
      obj_rr = NULL, name_obj_rr = ''reg:linear'', cfg_rr = [], grad = [], hess = [],
      preds_rr = [], cache_rr = []\<rparr>"

definition ModelParam_SetParam_rr ::
  "(string \<Rightarrow> 'f) \<Rightarrow> 'f ModelParam_rr \<Rightarrow> string \<Rightarrow> string \<Rightarrow> 'f ModelParam_rr" where
  "ModelParam_SetParam_rr atof_f p name val =
     (let p1 = (if name = ''base_score'' then p\<lparr>base_score_rr := atof_f val\<rparr> else p);
          p2 = (if name = ''num_class'' then p1\<lparr>num_class_rr := atoi val\<rparr> else p1);
          p3 = (if name = ''loss_type'' then p2\<lparr>loss_type := atoi val\<rparr> else p2);
          p4 = (if name = ''clear_period'' then p3\<lparr>clear_period := atoi val\<rparr> else p3)
      in if name = ''bst:num_feature'' then p4\<lparr>num_feature_rr := atoi val\<rparr> else p4)"

text \<open>
  \<open>AdjustBase\<close> computes \<^verbatim>\<open>-logf(1.0f / base_score - 1.0f)\<close> in single precision, after the
  comparisons \<^verbatim>\<open>base_score > 0.0f\<close> and \<^verbatim>\<open>base_score < 1.0f\<close>: the operations are those of \<open>E\<close>.
\<close>
definition AdjustBase ::
  "('g, 'o, 'd, 'i, 'f) env_rr \<Rightarrow> string \<Rightarrow> 'f ModelParam_rr \<Rightarrow> error + 'f ModelParam_rr" where
  "AdjustBase E objname p =
     (let p1 = (if loss_type p = - 1
                then (let p0 = p\<lparr>loss_type := 1\<rparr>
                      in if objname = ''reg:linear'' then p0\<lparr>loss_type := 0\<rparr> else p0)
                else p)
      in if loss_type p1 = 1 \<or> loss_type p1 = 2 \<or> loss_type p1 = 3
         then thenE (Assert (fless E (fzero E) (base_score_rr p1) \<and> fless E (base_score_rr p1) (fone E))
                       ''sigmoid range constrain'')
                (\<lambda>_. Inr (p1\<lparr>base_score_rr :=
                              fneg E (logf E (fsub E (fdiv E (fone E) (base_score_rr p1)) (fone E)))\<rparr>))
         else Inr p1)"

definition SetParam_rr ::
  "('g, 'o, 'd, 'i, 'f) env_rr \<Rightarrow> ('g, 'o, 'f) RegRankBoostLearner \<Rightarrow> string \<Rightarrow> string
     \<Rightarrow> ('g, 'o, 'f) RegRankBoostLearner" where
  "SetParam_rr E L name val =
     (let L1 = (if name = ''silent'' then L\<lparr>silent_rr := atoi val\<rparr> else L);
          L2 = (if name = ''eval_metric'' then L1\<lparr>evaluator_rr := evaluator_rr L1 @ [val]\<rparr> else L1);
          L3 = (if name = ''objective'' then L2\<lparr>name_obj_rr := val\<rparr> else L2);
          L4 = (if name = ''num_class''
                then L3\<lparr>base_gbm := gbm_SetParam_rr E (base_gbm L3) ''num_booster_group'' val\<rparr>
                else L3);
          L5 = L4\<lparr>mparam_rr := ModelParam_SetParam_rr (atof_rr E) (mparam_rr L4) name val\<rparr>;
          L6 = L5\<lparr>base_gbm := gbm_SetParam_rr E (base_gbm L5) name val\<rparr>
      in L6\<lparr>cfg_rr := cfg_rr L6 @ [(name, val)]\<rparr>)"

text \<open>The notice that \<open>InitTrainer\<close> prints when it replaces the objective's name is not modelled.\<close>
definition InitTrainer ::
  "('g, 'o, 'd, 'i, 'f) env_rr \<Rightarrow> ('g, 'o, 'f) RegRankBoostLearner
     \<Rightarrow> error + ('g, 'o, 'f) RegRankBoostLearner" where
  "InitTrainer E L =
     (let L1 = (if num_class_rr (mparam_rr L) \<noteq> 0
                then (if name_obj_rr L \<noteq> ''multi:softmax'' \<and> name_obj_rr L \<noteq> ''multi:softprob''
                      then L\<lparr>name_obj_rr := ''multi:softmax''\<rparr> else L)
                else L);
          L2 = L1\<lparr>base_gbm := gbm_InitTrainer_rr E (base_gbm L1)\<rparr>
      in case CreateObjFunction_rr E (name_obj_rr L2) of
           None \<Rightarrow> Inl (PluginFailed (name_obj_rr L2))
         | Some o0 \<Rightarrow>
             (let o1 = foldl (\<lambda>ob (k, v). obj_SetParam_rr E ob k v) o0 (cfg_rr L2)
              in Inr (L2\<lparr>obj_rr := Obj o1,
                        evaluator_rr := evaluator_rr L2 @ [obj_DefaultEvalMetric_rr E o1]\<rparr>)))"

definition InitModel_rr ::
  "('g, 'o, 'd, 'i, 'f) env_rr \<Rightarrow> ('g, 'o, 'f) RegRankBoostLearner
     \<Rightarrow> error + ('g, 'o, 'f) RegRankBoostLearner" where
  "InitModel_rr E L =
     (let L1 = L\<lparr>base_gbm := gbm_InitModel_rr E (base_gbm L)\<rparr>
      in thenE (AdjustBase E (name_obj_rr L1) (mparam_rr L1)) (\<lambda>p. Inr (L1\<lparr>mparam_rr := p\<rparr>)))"

text \<open>\<^verbatim>\<open>std::string::resize\<close> and \<^verbatim>\<open>std::vector::resize\<close>: cut, or fill up with \<open>z\<close>.\<close>
definition resize :: "'a \<Rightarrow> nat \<Rightarrow> 'a list \<Rightarrow> 'a list" where
  "resize z n xs = take n xs @ replicate (n - length xs) z"

definition LoadModel_rr ::
  "('g, 'o, 'd, 'i, 32 word) env_rr \<Rightarrow> ('g, 'o, 32 word) RegRankBoostLearner \<Rightarrow> stream
     \<Rightarrow> error + (('g, 'o, 32 word) RegRankBoostLearner \<times> stream)" where
  "LoadModel_rr E L fi =
     (case gbm_LoadModel_rr E (base_gbm L) fi of
        None \<Rightarrow> Inl (PluginFailed ''gbm LoadModel'')
      | Some (gb, fi1) \<Rightarrow>
     (case stream_Read sizeof_ModelParam_rr fi1 of
        None \<Rightarrow> Inl (AssertFailed [])
      | Some (bs, fi2) \<Rightarrow>
          (let L1 = L\<lparr>base_gbm := gb, mparam_rr := ModelParam_of_bytes_rr bs\<rparr>
           in case stream_Read 8 fi2 of
                None \<Rightarrow> Inr (L1, fi2)
              | Some (lb, fi3) \<Rightarrow>
                  (let len = unat (bytes_word lb :: size_t);
                       L2 = L1\<lparr>name_obj_rr := resize (CHR 0x00) len (name_obj_rr L1)\<rparr>
                   in if len \<noteq> 0
                      then (case stream_Read len fi3 of
                              None \<Rightarrow> Inl (AssertFailed [])
                            | Some (cs, fi4) \<Rightarrow> Inr (L2\<lparr>name_obj_rr := map char_of_byte cs\<rparr>, fi4))
                      else Inr (L2, fi3)))))"

definition SaveModel_rr ::
  "('g, 'o, 'd, 'i, 32 word) env_rr \<Rightarrow> ('g, 'o, 32 word) RegRankBoostLearner \<Rightarrow> stream \<Rightarrow> stream" where
  "SaveModel_rr E L fo =
     fo @ gbm_SaveModel_rr E (base_gbm L) @ ModelParam_bytes_rr (mparam_rr L)
        @ word_bytes (of_nat (length (name_obj_rr L)) :: size_t) @ map byte_of_char (name_obj_rr L)"

section \<open>The legacy learner: prediction\<close>

text \<open>The rows \<open>j = 0, ..., ndata - 1\<close> with \<^verbatim>\<open>ndata = static_cast<unsigned>(data.Size())\<close>.\<close>
definition rows_of :: "size_t \<Rightarrow> unsigned list" where
  "rows_of n = map of_nat [0..<unat (ucast n :: unsigned)]"

text \<open>The groups \<open>g = 0, ..., ngroup - 1\<close> of \<^verbatim>\<open>for (int g = 0; g < ngroup; ++g)\<close>.\<close>
definition groups_of :: "cint \<Rightarrow> cint list" where
  "groups_of ngroup = map of_nat [0..<nat (sint ngroup)]"

text \<open>Writing \<open>ys\<close> into a vector from index \<open>off\<close> on; beyond its end the behaviour is undefined.\<close>
definition write_at :: "nat \<Rightarrow> 'a list \<Rightarrow> 'a list \<Rightarrow> error + 'a list" where
  "write_at off ys xs =
     (if off + length ys \<le> length xs then Inr (take off xs @ ys @ drop (off + length ys) xs)
      else Inl OutOfBounds)"

text \<open>\<^verbatim>\<open>memcpy\<close> of \<open>n\<close> elements out of a vector from index \<open>off\<close> on.\<close>
definition slice :: "'a list \<Rightarrow> nat \<Rightarrow> nat \<Rightarrow> error + 'a list" where
  "slice xs off n = (if off + n \<le> length xs then Inr (take n (drop off xs)) else Inl OutOfBounds)"

text \<open>The values \<open>PredictBuffer\<close> stores at \<^verbatim>\<open>preds[0..ndata)\<close>.\<close>
definition PredictBuffer ::
  "('g, 'o, 'd, 'i, 'f) env_rr \<Rightarrow> ('d, 'i) store \<Rightarrow> ('g, 'o, 'f) RegRankBoostLearner
     \<Rightarrow> addr \<Rightarrow> cint \<Rightarrow> cint \<Rightarrow> 'f list" where
  "PredictBuffer E S L data bo bst_group =
     (if 0 \<le> sint bo
      then map (\<lambda>j. fadd E (base_score_rr (mparam_rr L))
                   (gbm_Predict_rr E (base_gbm L) (fmat (S data)) j (bo + j)
                      (GetRoot E (info (S data)) j) bst_group))
             (rows_of (num_row (S data)))
      else map (\<lambda>j. fadd E (base_score_rr (mparam_rr L))
                   (gbm_Predict_rr E (base_gbm L) (fmat (S data)) j (- 1)
                      (GetRoot E (info (S data)) j) bst_group))
             (rows_of (num_row (S data))))"

fun PredictRaw_loop ::
  "('g, 'o, 'd, 'i, 'f) env_rr \<Rightarrow> ('d, 'i) store \<Rightarrow> ('g, 'o, 'f) RegRankBoostLearner
     \<Rightarrow> addr \<Rightarrow> cint \<Rightarrow> cint list \<Rightarrow> 'f list \<Rightarrow> error + 'f list" where
  "PredictRaw_loop E S L data bo [] ps = Inr ps"
| "PredictRaw_loop E S L data bo (g # gs) ps =
     thenE (write_at (unat (num_row (S data) * scast g)) (PredictBuffer E S L data bo g) ps)
       (PredictRaw_loop E S L data bo gs)"

text \<open>\<open>PredictRaw\<close> on the vector \<open>ps\<close>; it yields the vector's new contents.\<close>
definition PredictRaw_rr ::
  "('g, 'o, 'd, 'i, 'f) env_rr \<Rightarrow> addr \<Rightarrow> ('d, 'i) store \<Rightarrow> ('g, 'o, 'f) RegRankBoostLearner
     \<Rightarrow> 'f list \<Rightarrow> addr \<Rightarrow> cint \<Rightarrow> error + 'f list" where
  "PredictRaw_rr E this S L ps data bst_group =
     (let bo = snd (FindBufferOffset_rr this S L data)
      in if sint bst_group < 0
         then (let ngroup = gbm_NumBoosterGroup E (base_gbm L)
               in PredictRaw_loop E S L data bo (groups_of ngroup)
                    (resize (fzero E) (unat (num_row (S data) * scast ngroup)) ps))
         else write_at 0 (PredictBuffer E S L data bo bst_group)
                (resize (fzero E) (unat (num_row (S data))) ps))"

definition Predict_rr ::
  "('g, 'o, 'd, 'i, 'f) env_rr \<Rightarrow> addr \<Rightarrow> ('d, 'i) store \<Rightarrow> ('g, 'o, 'f) RegRankBoostLearner
     \<Rightarrow> 'f list \<Rightarrow> addr \<Rightarrow> cint \<Rightarrow> error + 'f list" where
  "Predict_rr E this S L ps data bst_group =
     thenE (PredictRaw_rr E this S L ps data bst_group) (\<lambda>ps1.
     thenE (deref (obj_rr L)) (\<lambda>ob. Inr (obj_PredTransform_rr E ob ps1)))"

definition Evaluate_rr ::
  "('g, 'o, 'd, 'i, 'f) env_rr \<Rightarrow> addr \<Rightarrow> ('d, 'i) store \<Rightarrow> ('g, 'o, 'f) RegRankBoostLearner
     \<Rightarrow> addr \<Rightarrow> string \<Rightarrow> error + (string \<times> 'f)" where
  "Evaluate_rr E this S L data metric =
     thenE (if metric = ''auto''
            then thenE (deref (obj_rr L)) (\<lambda>ob. Inr (obj_DefaultEvalMetric_rr E ob))
            else Inr metric) (\<lambda>metric1.
       case EvalSet_Create E metric1 of
         None \<Rightarrow> Inr ([], fzero E)
       | Some eval \<Rightarrow>
           thenE (Predict_rr E this S L [] data (- 1)) (\<lambda>ps.
             Inr (metric1, eval ps (info (S data)))))"

section \<open>The legacy learner: training\<close>

definition ClearBuffer ::
  "('g, 'o, 'd, 'i, 'f) env_rr \<Rightarrow> addr \<Rightarrow> ('d, 'i) store \<Rightarrow> ('g, 'o, 'f) RegRankBoostLearner
     \<Rightarrow> addr \<Rightarrow> error + ('g, 'o, 'f) RegRankBoostLearner" where
  "ClearBuffer E this S L data =
     (let bo = snd (FindBufferOffset_rr this S L data)
      in thenE (Assert (0 \<le> sint bo) ''need buffer offset bigger than 0'') (\<lambda>_.
           Inr (L\<lparr>base_gbm := foldl (\<lambda>gb j. gbm_ClearBuffer E gb (bo + j)) (base_gbm L)
                                  (rows_of (num_row (S data)))\<rparr>)))"

text \<open>
  The loop over the groups in \<open>UpdateOneIter\<close>; \<open>n\<close> is \<^verbatim>\<open>tgrad.size()\<close>, the matrix's row
  count. The two \<^verbatim>\<open>memcpy\<close> read \<^verbatim>\<open>grad_\<close> and \<^verbatim>\<open>hess_\<close> from index \<^verbatim>\<open>g * tgrad.size()\<close> on.
\<close>
fun UpdateOneIter_loop ::
  "('g, 'o, 'd, 'i, 'f) env_rr \<Rightarrow> addr \<Rightarrow> ('d, 'i) store \<Rightarrow> addr \<Rightarrow> size_t \<Rightarrow> cint list
     \<Rightarrow> ('g, 'o, 'f) RegRankBoostLearner \<Rightarrow> error + ('g, 'o, 'f) RegRankBoostLearner" where
  "UpdateOneIter_loop E this S train n [] L = Inr L"
| "UpdateOneIter_loop E this S train n (g # gs) L =
     thenE (slice (grad L) (unat (scast g * n)) (unat n)) (\<lambda>tgrad.
     thenE (slice (hess L) (unat (scast g * n)) (unat n)) (\<lambda>thess.
       UpdateOneIter_loop E this S train n gs
         (L\<lparr>base_gbm := gbm_DoBoost_rr E (base_gbm L) tgrad thess (fmat (S train))
                          (root_index E (info (S train))) g
                          (snd (FindBufferOffset_rr this S L train))\<rparr>)))"

text \<open>The remainder \<^verbatim>\<open>a % b\<close> of C, which truncates the quotient towards zero.\<close>
definition c_rem :: "int \<Rightarrow> int \<Rightarrow> int" where
  "c_rem a b = a - b * (sgn a * sgn b * (\<bar>a\<bar> div \<bar>b\<bar>))"

definition UpdateOneIter_rr ::
  "('g, 'o, 'd, 'i, 'f) env_rr \<Rightarrow> addr \<Rightarrow> ('d, 'i) store \<Rightarrow> ('g, 'o, 'f) RegRankBoostLearner
     \<Rightarrow> cint \<Rightarrow> addr \<Rightarrow> error + ('g, 'o, 'f) RegRankBoostLearner" where
  "UpdateOneIter_rr E this S L iter train =
     thenE (PredictRaw_rr E this S L (preds_rr L) train (- 1)) (\<lambda>ps.
     thenE (deref (obj_rr L)) (\<lambda>ob.
       case obj_GetGradient_rr E ob ps (info (S train)) (gbm_NumBoosters E (base_gbm L)) of
         (gr, he) \<Rightarrow>
           (let L1 = L\<lparr>preds_rr := ps, grad := gr, hess := he\<rparr>
            in thenE
                 (if (of_nat (length (grad L1)) :: size_t) = num_row (S train)
                  then Inr (L1\<lparr>base_gbm := gbm_DoBoost_rr E (base_gbm L1) (grad L1) (hess L1)
                                  (fmat (S train)) (root_index E (info (S train))) 0
                                  (snd (FindBufferOffset_rr this S L1 train))\<rparr>)
                  else (let ngroup = gbm_NumBoosterGroup E (base_gbm L1)
                        in thenE (Assert ((of_nat (length (grad L1)) :: size_t)
                                            = num_row (S train) * scast ngroup)
                                    ''BUG: UpdateOneIter: mclass'') (\<lambda>_.
                             UpdateOneIter_loop E this S train (num_row (S train))
                               (groups_of ngroup) L1)))
                 (\<lambda>L2. if clear_period (mparam_rr L2) \<noteq> 0
                          \<and> c_rem (sint (iter + 1)) (sint (clear_period (mparam_rr L2))) = 0
                       then ClearBuffer E this S L2 train
                       else Inr L2))))"

section \<open>The legacy learner: interactive update\<close>

text \<open>\<open>InteractPredict\<close> on the vector \<open>ps\<close>; it yields the vector's new contents.\<close>
definition InteractPredict ::
  "('g, 'o, 'd, 'i, 'f) env_rr \<Rightarrow> addr \<Rightarrow> ('d, 'i) store \<Rightarrow> ('g, 'o, 'f) RegRankBoostLearner
     \<Rightarrow> 'f list \<Rightarrow> addr \<Rightarrow> error + 'f list" where
  "InteractPredict E this S L ps data =
     (let bo = snd (FindBufferOffset_rr this S L data)
      in thenE (Assert (0 \<le> sint bo) ''interact mode must cache training data'') (\<lambda>_.
         thenE (write_at 0
                  (map (\<lambda>j. fadd E (base_score_rr (mparam_rr L))
                         (gbm_InteractPredict E (base_gbm L) (fmat (S data)) j (bo + j)))
                     (rows_of (num_row (S data))))
                  (resize (fzero E) (unat (num_row (S data))) ps)) (\<lambda>ps1.
         thenE (deref (obj_rr L)) (\<lambda>ob. Inr (obj_PredTransform_rr E ob ps1)))))"

definition InteractRePredict ::
  "('g, 'o, 'd, 'i, 'f) env_rr \<Rightarrow> addr \<Rightarrow> ('d, 'i) store \<Rightarrow> ('g, 'o, 'f) RegRankBoostLearner
     \<Rightarrow> addr \<Rightarrow> error + ('g, 'o, 'f) RegRankBoostLearner" where
  "InteractRePredict E this S L data =
     (let bo = snd (FindBufferOffset_rr this S L data)
      in thenE (Assert (0 \<le> sint bo) ''interact mode must cache training data'') (\<lambda>_.
           Inr (L\<lparr>base_gbm := foldl (\<lambda>gb j. gbm_InteractRePredict E gb (fmat (S data)) j (bo + j))
                                  (base_gbm L) (rows_of (num_row (S data)))\<rparr>)))"

text \<open>The two loops of \<open>UpdateInteract\<close> over the cache entries.\<close>
fun InteractPredict_loop ::
  "('g, 'o, 'd, 'i, 'f) env_rr \<Rightarrow> addr \<Rightarrow> ('d, 'i) store \<Rightarrow> CacheEntry_rr list
     \<Rightarrow> ('g, 'o, 'f) RegRankBoostLearner \<Rightarrow> error + ('g, 'o, 'f) RegRankBoostLearner" where
  "InteractPredict_loop E this S [] L = Inr L"
| "InteractPredict_loop E this S (e # es) L =
     thenE (InteractPredict E this S L (preds_rr L) (mat_rr e)) (\<lambda>ps.
       InteractPredict_loop E this S es (L\<lparr>preds_rr := ps\<rparr>))"

fun InteractRePredict_loop ::
  "('g, 'o, 'd, 'i, 'f) env_rr \<Rightarrow> addr \<Rightarrow> ('d, 'i) store \<Rightarrow> CacheEntry_rr list
     \<Rightarrow> ('g, 'o, 'f) RegRankBoostLearner \<Rightarrow> error + ('g, 'o, 'f) RegRankBoostLearner" where
  "InteractRePredict_loop E this S [] L = Inr L"
| "InteractRePredict_loop E this S (e # es) L =
     thenE (InteractRePredict E this S L (mat_rr e)) (InteractRePredict_loop E this S es)"

definition UpdateInteract ::
  "('g, 'o, 'd, 'i, 'f) env_rr \<Rightarrow> addr \<Rightarrow> ('d, 'i) store \<Rightarrow> ('g, 'o, 'f) RegRankBoostLearner
     \<Rightarrow> string \<Rightarrow> addr \<Rightarrow> error + ('g, 'o, 'f) RegRankBoostLearner" where
  "UpdateInteract E this S L action train =
     thenE (InteractPredict_loop E this S (cache_rr L) L) (\<lambda>L1.
       if action = ''remove'' then Inr (L1\<lparr>base_gbm := gbm_DelteBooster E (base_gbm L1)\<rparr>)
       else
         thenE (deref (obj_rr L1)) (\<lambda>ob.
           case obj_GetGradient_rr E ob (preds_rr L1) (info (S train)) (gbm_NumBoosters E (base_gbm L1)) of
             (gr, he) \<Rightarrow>
               (let L2 = L1\<lparr>grad := gr, hess := he\<rparr>;
                    L3 = L2\<lparr>base_gbm := gbm_DoBoost_rr E (base_gbm L2) (grad L2) (hess L2)
                                (fmat (S train)) [] 0 (snd (FindBufferOffset_rr this S L2 train))\<rparr>
                in InteractRePredict_loop E this S (cache_rr L3) L3)))"

section \<open>The cache as the specification words it\<close>

text \<open>
  Registration order: the matrices of the list, each at its first occurrence.
\<close>
definition registration_order :: "'a list \<Rightarrow> 'a list" where
  "registration_order xs = rev (remdups (rev xs))"

text \<open>
  The ranges \<open>(offset, size)\<close>, in their order, tile \<open>[lo, hi)\<close>: each starts where the one
  before it ends, the first at \<open>lo\<close>, and the last ends at \<open>hi\<close>.
\<close>
fun partitions :: "int \<Rightarrow> (int \<times> int) list \<Rightarrow> int \<Rightarrow> bool" where
  "partitions lo [] hi = (lo = hi)"
| "partitions lo ((off, n) # rs) hi = (off = lo \<and> 0 \<le> n \<and> partitions (lo + n) rs hi)"

text \<open>The rows of the distinct matrices, counted without a bound.\<close>
definition total_rows :: "('d, 'i) store \<Rightarrow> addr list \<Rightarrow> int" where
  "total_rows S mats = sum_list (map (\<lambda>m. uint (num_row (S m))) (registration_order mats))"

text \<open>The range of an entry: its offset (a \<^verbatim>\<open>size_t\<close>, in the legacy learner an \<^verbatim>\<open>int\<close>) and its row count.\<close>
definition cache_ranges :: "CacheEntry list \<Rightarrow> (int \<times> int) list" where
  "cache_ranges c = map (\<lambda>e. (uint (buffer_offset e), uint (num_row_c e))) c"

definition cache_ranges_rr :: "CacheEntry_rr list \<Rightarrow> (int \<times> int) list" where
  "cache_ranges_rr c = map (\<lambda>e. (sint (buffer_offset_rr e), uint (num_row_rr e))) c"

text \<open>The matrices of \<open>rest\<close> that are new after \<open>prev\<close>, and the entries the loops append for them.\<close>
fun fresh_of :: "'a list \<Rightarrow> 'a list \<Rightarrow> 'a list" where
  "fresh_of prev [] = []"
| "fresh_of prev (m # rest) =
     (if m \<in> set prev then fresh_of (prev @ [m]) rest else m # fresh_of (prev @ [m]) rest)"

fun entries_from :: "(addr \<Rightarrow> size_t) \<Rightarrow> size_t \<Rightarrow> addr list \<Rightarrow> CacheEntry list" where
  "entries_from r b [] = []"
| "entries_from r b (m # ms) =
     \<lparr>mat = m, buffer_offset = b, num_row_c = r m\<rparr> # entries_from r (b + r m) ms"

fun entries_from_rr :: "(addr \<Rightarrow> size_t) \<Rightarrow> unsigned \<Rightarrow> addr list \<Rightarrow> CacheEntry_rr list" where
  "entries_from_rr r b [] = []"
| "entries_from_rr r b (m # ms) =
     \<lparr>mat_rr = m, buffer_offset_rr = b, num_row_rr = r m\<rparr> # entries_from_rr r (b + ucast (r m)) ms"

section \<open>Small plug-ins for concrete runs\<close>

text \<open>
  A booster that is one byte, the number of its members modulo 256; a feature matrix that
  is its number of rows; floats that are 32-bit integers with the integers' arithmetic; an
  objective whose margin is the probability plus one.
\<close>
definition toy_env :: "(byte, unit, nat, unit, 32 word, 32 word) env" where
  "toy_env =
     \<lparr>CreateGradBooster = (\<lambda>n. if n = ''gbtree'' then Some 0 else None),
      gbm_SetParam = (\<lambda>g k v. g),
      gbm_InitModel = (\<lambda>g. g),
      gbm_LoadModel = (\<lambda>g fi. case fi of [] \<Rightarrow> None | b # rest \<Rightarrow> Some (b, rest)),
      gbm_SaveModel = (\<lambda>g. [g]),
      gbm_DoBoost = (\<lambda>g gp d i. g + 1),
      gbm_Predict = (\<lambda>g d bo i. replicate d (ucast g)),
      CreateObjFunction = (\<lambda>n. if n = ''reg:linear'' then Some () else None),
      obj_SetParam = (\<lambda>ob k v. ob),
      obj_GetGradient = (\<lambda>ob ps i it. ps),
      obj_PredTransform = (\<lambda>ob ps. ps),
      obj_EvalTransform = (\<lambda>ob ps. ps),
      obj_ProbToMargin = (\<lambda>ob x. x + 1),
      obj_DefaultEvalMetric = (\<lambda>ob. ''rmse''),
      CreateEvaluator = (\<lambda>n. if n = ''rmse'' then Some (\<lambda>ps i. sum_list ps) else None),
      atof = (\<lambda>s. 0)\<rparr>"

definition toy_env_rr :: "(byte, unit, nat, unit, 32 word) env_rr" where
  "toy_env_rr =
     \<lparr>gbm_SetParam_rr = (\<lambda>g k v. g),
      gbm_InitTrainer_rr = (\<lambda>g. g),
      gbm_InitModel_rr = (\<lambda>g. g),
      gbm_LoadModel_rr = (\<lambda>g fi. case fi of [] \<Rightarrow> None | b # rest \<Rightarrow> Some (b, rest)),
      gbm_SaveModel_rr = (\<lambda>g. [g]),
      gbm_NumBoosters = (\<lambda>g. ucast g),
      gbm_NumBoosterGroup = (\<lambda>g. 1),
      gbm_DoBoost_rr = (\<lambda>g gr he d root grp bo. g + 1),
      gbm_Predict_rr = (\<lambda>g d j bo root grp. ucast g),
      gbm_InteractPredict = (\<lambda>g d j bo. ucast g),
      gbm_InteractRePredict = (\<lambda>g d j bo. g),
      gbm_ClearBuffer = (\<lambda>g bo. g),
      gbm_DelteBooster = (\<lambda>g. g - 1),
      CreateObjFunction_rr =
        (\<lambda>n. if n = ''reg:linear'' \<or> n = ''multi:softmax'' \<or> n = ''multi:softprob'' then Some () else None),
      obj_SetParam_rr = (\<lambda>ob k v. ob),
      obj_GetGradient_rr = (\<lambda>ob ps i n. (ps, ps)),
      obj_PredTransform_rr = (\<lambda>ob ps. ps),
      obj_EvalTransform_rr = (\<lambda>ob ps. ps),
      obj_DefaultEvalMetric_rr = (\<lambda>ob. ''rmse''),
      EvalSet_Create = (\<lambda>n. if n = ''rmse'' then Some (\<lambda>ps i. sum_list ps) else None),
      root_index = (\<lambda>i. []),
      GetRoot = (\<lambda>i j. 0),
      fadd = (\<lambda>a b. a + b),
      fzero = 0,
      atof_rr = (\<lambda>s. 0),
      fone = 1,
      fless = (\<lambda>a b. a < b),
      fsub = (\<lambda>a b. a - b),
      fdiv = (\<lambda>a b. a div b),
      fneg = (\<lambda>a. - a),
      logf = (\<lambda>a. a)\<rparr>"

text \<open>The matrix at address 10 has 50 rows, every other matrix 30; no matrix is in a cache yet.\<close>
definition toy_store :: "(nat, unit) store" where
  "toy_store = (\<lambda>a. \<lparr>fmat = (if a = 10 then 50 else 30), info = (),
                      num_row = (if a = 10 then 50 else 30), num_col = 10, cache_learner_ptr = 0\<rparr>)"

text \<open>The matrix at address 10 has \<open>2 ^ 31\<close> rows, every other matrix one row.\<close>
definition big_store :: "(nat, unit) store" where
  "big_store = (\<lambda>a. \<lparr>fmat = (if a = 10 then 2147483648 else 1), info = (),
                      num_row = (if a = 10 then 2147483648 else 1), num_col = 10, cache_learner_ptr = 0\<rparr>)"

text \<open>
  A later state of \<open>toy_store\<close>: both matrices belong to the learner at address 7, and the
  matrix at address 20 has grown to 31 rows.
\<close>
definition toy_store_later :: "(nat, unit) store" where
  "toy_store_later = (\<lambda>a. \<lparr>fmat = (if a = 10 then 50 else 31), info = (),
                            num_row = (if a = 10 then 50 else 31), num_col = 10,
                            cache_learner_ptr = (if a = 10 \<or> a = 20 then 7 else 0)\<rparr>)"

definition toy_cache :: "CacheEntry list" where
  "toy_cache = [\<lparr>mat = 10, buffer_offset = 0, num_row_c = 50\<rparr>,
                \<lparr>mat = 20, buffer_offset = 50, num_row_c = 30\<rparr>]"

definition toy_cache_rr :: "CacheEntry_rr list" where
  "toy_cache_rr = [\<lparr>mat_rr = 10, buffer_offset_rr = 0, num_row_rr = 50\<rparr>,
                   \<lparr>mat_rr = 20, buffer_offset_rr = 50, num_row_rr = 30\<rparr>]"

section \<open>The objective and the base score as the claims word them\<close>

text \<open>The objective's name that \<open>InitTrainer\<close> is to instantiate.\<close>
definition chosen_objective :: "cint \<Rightarrow> string \<Rightarrow> string" where
  "chosen_objective nclass name =
     (if nclass \<noteq> 0 \<and> name \<noteq> ''multi:softmax'' \<and> name \<noteq> ''multi:softprob''
      then ''multi:softmax'' else name)"

text \<open>The loss type after its default: \<open>- 1\<close> stands for 0 with "reg:linear" and for 1 otherwise.\<close>
definition effective_loss_type :: "string \<Rightarrow> cint \<Rightarrow> cint" where
  "effective_loss_type objname lt =
     (if lt = - 1 then (if objname = ''reg:linear'' then 0 else 1) else lt)"

text \<open>A legacy learner of three classes, configured through \<open>SetParam\<close>.\<close>
definition three_class_learner :: "(byte, unit, 32 word) RegRankBoostLearner" where
  "three_class_learner = SetParam_rr toy_env_rr (RegRankBoostLearner_init 0 0) ''num_class'' ''3''"

text \<open>
  The legacy plug-ins \<open>toy_env_rr\<close> with the reals for floats: the arithmetic is exact and
  \<^verbatim>\<open>logf\<close> is the natural logarithm.
\<close>
definition toy_env_real :: "(byte, unit, nat, unit, real) env_rr" where
  "toy_env_real =
     \<lparr>gbm_SetParam_rr = (\<lambda>g k v. g),
      gbm_InitTrainer_rr = (\<lambda>g. g),
      gbm_InitModel_rr = (\<lambda>g. g),
      gbm_LoadModel_rr = (\<lambda>g fi. case fi of [] \<Rightarrow> None | b # rest \<Rightarrow> Some (b, rest)),
      gbm_SaveModel_rr = (\<lambda>g. [g]),
      gbm_NumBoosters = (\<lambda>g. ucast g),
      gbm_NumBoosterGroup = (\<lambda>g. 1),
      gbm_DoBoost_rr = (\<lambda>g gr he d root grp bo. g + 1),
      gbm_Predict_rr = (\<lambda>g d j bo root grp. real (unat g)),
      gbm_InteractPredict = (\<lambda>g d j bo. real (unat g)),
      gbm_InteractRePredict = (\<lambda>g d j bo. g),
      gbm_ClearBuffer = (\<lambda>g bo. g),
      gbm_DelteBooster = (\<lambda>g. g - 1),
      CreateObjFunction_rr =
        (\<lambda>n. if n = ''reg:linear'' \<or> n = ''binary:logistic'' then Some () else None),
      obj_SetParam_rr = (\<lambda>ob k v. ob),
      obj_GetGradient_rr = (\<lambda>ob ps i n. (ps, ps)),
      obj_PredTransform_rr = (\<lambda>ob ps. ps),
      obj_EvalTransform_rr = (\<lambda>ob ps. ps),
      obj_DefaultEvalMetric_rr = (\<lambda>ob. ''rmse''),
      EvalSet_Create = (\<lambda>n. if n = ''rmse'' then Some (\<lambda>ps i. sum_list ps) else None),
      root_index = (\<lambda>i. []),
      GetRoot = (\<lambda>i j. 0),
      fadd = (\<lambda>a b. a + b),
      fzero = 0,
      atof_rr = (\<lambda>s. 0),
      fone = 1,
      fless = (\<lambda>a b. a < b),
      fsub = (\<lambda>a b. a - b),
      fdiv = (\<lambda>a b. a / b),
      fneg = (\<lambda>a. - a),
      logf = ln\<rparr>"

section \<open>The boosting step of the legacy learner as the specification words it\<close>

text \<open>Group \<open>g\<close> of a vector laid out by groups of \<open>rows\<close>: the indices \<open>[g * rows, (g + 1) * rows)\<close>.\<close>
definition group_slice :: "'a list \<Rightarrow> nat \<Rightarrow> nat \<Rightarrow> 'a list" where
  "group_slice xs rows g = take rows (drop (g * rows) xs)"

text \<open>
  One call of \<^verbatim>\<open>DoBoost\<close> for each group of \<open>gs\<close>, in that order, each with the group's slices
  of the gradient and of the hessian, the same feature data, root index and buffer offset.
\<close>
definition boost_groups ::
  "('g, 'o, 'd, 'i, 'f) env_rr \<Rightarrow> 'g \<Rightarrow> 'f list \<Rightarrow> 'f list \<Rightarrow> nat \<Rightarrow> 'd \<Rightarrow> unsigned list \<Rightarrow> cint
     \<Rightarrow> nat list \<Rightarrow> 'g" where
  "boost_groups E gb gr he rows d ri bo gs =
     foldl (\<lambda>gb g. gbm_DoBoost_rr E gb (group_slice gr rows g) (group_slice he rows g) d ri
              (of_nat g) bo) gb gs"

text \<open>The end of \<open>UpdateOneIter\<close>: the buffer is cleared every \<open>clear_period\<close> rounds.\<close>
definition clear_step ::
  "('g, 'o, 'd, 'i, 'f) env_rr \<Rightarrow> addr \<Rightarrow> ('d, 'i) store \<Rightarrow> cint \<Rightarrow> addr
     \<Rightarrow> ('g, 'o, 'f) RegRankBoostLearner \<Rightarrow> error + ('g, 'o, 'f) RegRankBoostLearner" where
  "clear_step E this S iter train L =
     (if clear_period (mparam_rr L) \<noteq> 0
         \<and> c_rem (sint (iter + 1)) (sint (clear_period (mparam_rr L))) = 0
      then ClearBuffer E this S L train else Inr L)"

text \<open>
  A booster that is the list of the \<^verbatim>\<open>DoBoost\<close> calls made on it (gradient, hessian, group),
  with two booster groups; the prediction for row \<open>j\<close> in group \<open>g\<close> is the number of the
  calls plus \<open>j + 10 * g\<close>; \<^verbatim>\<open>DelteBooster\<close> drops the last call.
\<close>
definition log_env_rr ::
  "((32 word list \<times> 32 word list \<times> cint) list, unit, nat, unit, 32 word) env_rr" where
  "log_env_rr =
     \<lparr>gbm_SetParam_rr = (\<lambda>g k v. g),
      gbm_InitTrainer_rr = (\<lambda>g. g),
      gbm_InitModel_rr = (\<lambda>g. g),
      gbm_LoadModel_rr = (\<lambda>g fi. None),
      gbm_SaveModel_rr = (\<lambda>g. []),
      gbm_NumBoosters = (\<lambda>g. of_nat (length g)),
      gbm_NumBoosterGroup = (\<lambda>g. 2),
      gbm_DoBoost_rr = (\<lambda>g gr he d root grp bo. g @ [(gr, he, grp)]),
      gbm_Predict_rr = (\<lambda>g d j bo rt grp. of_nat (length g) + j + 10 * grp),
      gbm_InteractPredict = (\<lambda>g d j bo. of_nat (length g)),
      gbm_InteractRePredict = (\<lambda>g d j bo. g),
      gbm_ClearBuffer = (\<lambda>g bo. g),
      gbm_DelteBooster = (\<lambda>g. butlast g),
      CreateObjFunction_rr = (\<lambda>n. Some ()),
      obj_SetParam_rr = (\<lambda>ob k v. ob),
      obj_GetGradient_rr = (\<lambda>ob ps i n. (ps, map (\<lambda>p. p + 1) ps)),
      obj_PredTransform_rr = (\<lambda>ob ps. ps),
      obj_EvalTransform_rr = (\<lambda>ob ps. ps),
      obj_DefaultEvalMetric_rr = (\<lambda>ob. ''merror''),
      EvalSet_Create = (\<lambda>n. None),
      root_index = (\<lambda>i. []),
      GetRoot = (\<lambda>i j. 0),
      fadd = (\<lambda>a b. a + b),
      fzero = 0,
      atof_rr = (\<lambda>s. 0),
      fone = 1,
      fless = (\<lambda>a b. a < b),
      fsub = (\<lambda>a b. a - b),
      fdiv = (\<lambda>a b. a div b),
      fneg = (\<lambda>a. - a),
      logf = (\<lambda>a. a)\<rparr>"

text \<open>Every matrix has two rows and is in no cache.\<close>
definition two_row_store :: "(nat, unit) store" where
  "two_row_store = (\<lambda>a. \<lparr>fmat = 2, info = (), num_row = 2, num_col = 3, cache_learner_ptr = 0\<rparr>)"

section \<open>The metric of an ad hoc evaluation\<close>

text \<open>The metric that \<open>Evaluate\<close> looks up: the objective's default for "auto".\<close>
definition metric_used :: "string \<Rightarrow> string \<Rightarrow> string" where
  "metric_used dflt metric = (if metric = ''auto'' then dflt else metric)"

section \<open>What the learners ask of their booster when a model is saved and loaded\<close>





text \<open>
  A trained learner of each generation: three boosters, the matrices at 10 and 20 in the
  cache; the legacy one has the base score 7.
\<close>
definition trained_learner :: "(byte, unit, 32 word, 32 word) BoostLearner" where
  "trained_learner = BoostLearner_init 0 0\<lparr>gbm := Obj 3, obj := Obj (), cache := toy_cache\<rparr>"

definition trained_learner_rr :: "(byte, unit, 32 word) RegRankBoostLearner" where
  "trained_learner_rr =
     RegRankBoostLearner_init 3 7\<lparr>obj_rr := Obj (), cache_rr := toy_cache_rr\<rparr>"

section \<open>Concrete runs of the interactive update and of the current boosting step\<close>

text \<open>The two-row matrix at address 10 is in the cache of the learner at address 7.\<close>
definition interact_store :: "(nat, unit) store" where
  "interact_store = (\<lambda>a. \<lparr>fmat = 2, info = (), num_row = 2, num_col = 3, cache_learner_ptr = 7\<rparr>)"

text \<open>A legacy learner after two boosting calls, with the matrix at address 10 in its cache.\<close>
definition interact_learner ::
  "((32 word list \<times> 32 word list \<times> cint) list, unit, 32 word) RegRankBoostLearner" where
  "interact_learner =
     RegRankBoostLearner_init [([1], [1], 0), ([2], [2], 0)] 0
       \<lparr>obj_rr := Obj (), cache_rr := [\<lparr>mat_rr = 10, buffer_offset_rr = 0, num_row_rr = 2\<rparr>]\<rparr>"

text \<open>
  Plug-ins of the current learner with a booster that is the list of the \<^verbatim>\<open>DoBoost\<close> calls
  made on it (gradient pairs, feature data). It predicts two classes for two rows, by
  classes; the objective's gradient pairs are the predictions.
\<close>
definition log_env :: "((32 word list \<times> nat) list, unit, nat, unit, 32 word, 32 word) env" where
  "log_env =
     \<lparr>CreateGradBooster = (\<lambda>n. Some []),
      gbm_SetParam = (\<lambda>g k v. g),
      gbm_InitModel = (\<lambda>g. g),
      gbm_LoadModel = (\<lambda>g fi. None),
      gbm_SaveModel = (\<lambda>g. []),
      gbm_DoBoost = (\<lambda>g gp d i. g @ [(gp, d)]),
      gbm_Predict = (\<lambda>g d bo i. [0, 1, 10, 11]),
      CreateObjFunction = (\<lambda>n. Some ()),
      obj_SetParam = (\<lambda>ob k v. ob),
      obj_GetGradient = (\<lambda>ob ps i it. ps),
      obj_PredTransform = (\<lambda>ob ps. ps),
      obj_EvalTransform = (\<lambda>ob ps. ps),
      obj_ProbToMargin = (\<lambda>ob x. x),
      obj_DefaultEvalMetric = (\<lambda>ob. ''merror''),
      CreateEvaluator = (\<lambda>n. None),
      atof = (\<lambda>s. 0)\<rparr>"

text \<open>A current learner of two classes whose booster has not boosted yet.\<close>
definition two_class_learner :: "((32 word list \<times> nat) list, unit, 32 word, 32 word) BoostLearner" where
  "two_class_learner =
     BoostLearner_init 0 0\<lparr>mparam := ModelParam_init 0\<lparr>num_class := 2\<rparr>, gbm := Obj [], obj := Obj ()\<rparr>"

section \<open>Properties of the prediction buffer cache\<close>

lemma dupilicate_iff: "dupilicate m xs d = (d \<or> m \<in> set xs)"
  by (induction xs arbitrary: d) auto

lemma registration_order_snoc:
  "registration_order (xs @ [x]) =
     (if x \<in> set xs then registration_order xs else registration_order xs @ [x])"
  by (auto simp: registration_order_def)

lemma registration_order_append:
  "registration_order (prev @ rest) = registration_order prev @ fresh_of prev rest"
proof (induction rest arbitrary: prev)
  case Nil
  then show ?case by simp
next
  case (Cons m rest)
  have "registration_order (prev @ m # rest) = registration_order ((prev @ [m]) @ rest)"
    by simp
  also have "\<dots> = registration_order (prev @ [m]) @ fresh_of (prev @ [m]) rest"
    by (rule Cons.IH)
  finally show ?case
    by (simp add: registration_order_snoc)
qed

lemma fresh_of_Nil: "fresh_of [] mats = registration_order mats"
  using registration_order_append [of "[]" mats] by (simp add: registration_order_def)

lemma SetCacheData_loop_cache:
  "fst (snd (SetCacheData_loop this prev rest (S, c, b, nf))) =
     c @ entries_from (\<lambda>m. num_row (S m)) b (fresh_of prev rest)"
proof (induction rest arbitrary: prev S c b nf)
  case Nil
  then show ?case by simp
next
  case (Cons m rest)
  show ?case
  proof (cases "m \<in> set prev")
    case True
    then show ?thesis using Cons.IH by (simp add: dupilicate_iff)
  next
    case False
    have r: "(\<lambda>x. num_row ((S(m := (S m)\<lparr>cache_learner_ptr := this\<rparr>)) x)) = (\<lambda>x. num_row (S x))"
      by (rule ext) simp
    show ?thesis
      using False Cons.IH [of "prev @ [m]" "S(m := (S m)\<lparr>cache_learner_ptr := this\<rparr>)"]
      by (simp add: dupilicate_iff r del: fun_upd_apply)
  qed
qed

lemma SetCacheData_loop_cache_rr:
  "fst (snd (SetCacheData_loop_rr this prev rest (S, c, b, nf))) =
     c @ entries_from_rr (\<lambda>m. num_row (S m)) b (fresh_of prev rest)"
proof (induction rest arbitrary: prev S c b nf)
  case Nil
  then show ?case by simp
next
  case (Cons m rest)
  show ?case
  proof (cases "m \<in> set prev")
    case True
    then show ?thesis using Cons.IH by (simp add: dupilicate_iff)
  next
    case False
    have r: "(\<lambda>x. num_row ((S(m := (S m)\<lparr>cache_learner_ptr := this\<rparr>)) x)) = (\<lambda>x. num_row (S x))"
      by (rule ext) simp
    show ?thesis
      using False Cons.IH [of "prev @ [m]" "S(m := (S m)\<lparr>cache_learner_ptr := this\<rparr>)"]
      by (simp add: dupilicate_iff r del: fun_upd_apply)
  qed
qed

lemma entries_from_mat: "map mat (entries_from r b ms) = ms"
  by (induction ms arbitrary: b) auto

lemma entries_from_rows: "map num_row_c (entries_from r b ms) = map r ms"
  by (induction ms arbitrary: b) auto

lemma entries_from_mat_rr: "map mat_rr (entries_from_rr r b ms) = ms"
  by (induction ms arbitrary: b) auto

lemma entries_from_rows_rr: "map num_row_rr (entries_from_rr r b ms) = map r ms"
  by (induction ms arbitrary: b) auto

lemma entries_from_partitions:
  "uint b + sum_list (map (\<lambda>m. uint (r m)) ms) < 2 ^ 64 \<Longrightarrow>
     partitions (uint b) (cache_ranges (entries_from r b ms))
       (uint b + sum_list (map (\<lambda>m. uint (r m)) ms))"
proof (induction ms arbitrary: b)
  case Nil
  then show ?case by (simp add: cache_ranges_def)
next
  case (Cons m ms)
  have nn: "0 \<le> sum_list (map (\<lambda>m. uint (r m)) ms)"
    by (rule sum_list_nonneg) auto
  have "uint b + uint (r m) < 2 ^ 64"
    using Cons.prems nn by simp
  then have eq: "uint (b + r m) = uint b + uint (r m)"
    by (simp add: uint_add_lem [THEN iffD1])
  show ?case
    using Cons.IH [of "b + r m"] Cons.prems by (simp add: eq add.assoc cache_ranges_def)
qed

lemma entries_from_partitions_rr:
  "uint b + sum_list (map (\<lambda>m. uint (r m)) ms) < 2 ^ 31 \<Longrightarrow>
     partitions (uint b) (cache_ranges_rr (entries_from_rr r b ms))
       (uint b + sum_list (map (\<lambda>m. uint (r m)) ms))"
proof (induction ms arbitrary: b)
  case Nil
  then show ?case by (simp add: cache_ranges_rr_def)
next
  case (Cons m ms)
  have nn: "0 \<le> sum_list (map (\<lambda>m. uint (r m)) ms)"
    by (rule sum_list_nonneg) auto
  have pos: "0 \<le> uint b" "0 \<le> uint (r m)"
    by simp_all
  have p: "uint b + (uint (r m) + sum_list (map (\<lambda>m. uint (r m)) ms)) < 2 ^ 31"
    using Cons.prems by simp
  have b31: "uint b < 2 ^ 31" and r31: "uint (r m) < 2 ^ 31" and s31: "uint b + uint (r m) < 2 ^ 31"
    using p nn pos by linarith+
  have "- (2 ^ 31) \<le> (0 :: int)"
    by simp
  then have "- (2 ^ 31) \<le> uint b"
    using pos(1) by (rule order_trans)
  then have "signed_take_bit 31 (uint b) = uint b"
    using b31 by (rule signed_take_bit_int_eq_self)
  then have sb: "sint b = uint b"
    by (simp add: sint_uint)
  have uc: "uint (ucast (r m) :: unsigned) = uint (r m)"
    using r31 by (simp add: unsigned_ucast_eq take_bit_int_eq_self)
  have "uint b + uint (ucast (r m) :: unsigned) < 2 ^ 32"
    using s31 uc by simp
  then have eq: "uint (b + ucast (r m)) = uint b + uint (r m)"
    using uc by (simp add: uint_add_lem [THEN iffD1])
  show ?case
    using Cons.IH [of "b + ucast (r m)"] Cons.prems by (simp add: eq sb add.assoc cache_ranges_rr_def)
qed


lemma SetCacheData_cache:
  assumes "SetCacheData E this S L mats = Inr (L', S')"
  shows "cache L' = entries_from (\<lambda>m. num_row (S m)) 0 (registration_order mats)"
proof -
  from assms have e: "cache L = []"
    by (auto simp: SetCacheData_def thenE_def Assert_def split: if_splits)
  obtain S1 c b nf where l: "SetCacheData_loop this [] mats (S, cache L, 0, 0) = (S1, c, b, nf)"
    by (cases "SetCacheData_loop this [] mats (S, cache L, 0, 0)") auto
  have c: "c = entries_from (\<lambda>m. num_row (S m)) 0 (registration_order mats)"
    using SetCacheData_loop_cache [of this "[]" mats S "cache L" 0 0] l e
    by (simp add: fresh_of_Nil)
  have "cache L' = c"
    using assms e l by (auto simp: SetCacheData_def thenE_def Assert_def SetParam_def Let_def)
  with c show ?thesis by simp
qed

lemma SetCacheData_cache_rr:
  assumes "SetCacheData_rr E this S L mats = Inr (L', S')"
  shows "cache_rr L' = entries_from_rr (\<lambda>m. num_row (S m)) 0 (registration_order mats)"
proof -
  from assms have e: "cache_rr L = []"
    by (auto simp: SetCacheData_rr_def thenE_def Assert_def split: if_splits)
  obtain S1 c b nf where l: "SetCacheData_loop_rr this [] mats (S, cache_rr L, 0, 0) = (S1, c, b, nf)"
    by (cases "SetCacheData_loop_rr this [] mats (S, cache_rr L, 0, 0)") auto
  have c: "c = entries_from_rr (\<lambda>m. num_row (S m)) 0 (registration_order mats)"
    using SetCacheData_loop_cache_rr [of this "[]" mats S "cache_rr L" 0 0] l e
    by (simp add: fresh_of_Nil)
  have "cache_rr L' = c"
    using assms e l by (auto simp: SetCacheData_rr_def thenE_def Assert_def Let_def)
  with c show ?thesis by simp
qed

lemma SetCacheData_total:
  "cache L = [] \<Longrightarrow> \<exists>L' S'. SetCacheData E this S L mats = Inr (L', S')"
  by (cases "SetCacheData_loop this [] mats (S, [], 0, 0)")
     (simp add: SetCacheData_def thenE_def Assert_def Let_def)

lemma SetCacheData_total_rr:
  "cache_rr L = [] \<Longrightarrow> \<exists>L' S'. SetCacheData_rr E this S L mats = Inr (L', S')"
  by (cases "SetCacheData_loop_rr this [] mats (S, [], 0, 0)")
     (simp add: SetCacheData_rr_def thenE_def Assert_def Let_def)

text \<open>
  C2, as amended. After \<open>SetCacheData\<close> the cache holds one entry for each distinct matrix,
  in the order of the first occurrences; an entry records the matrix's row count; and the
  ranges tile \<open>[0, total_rows)\<close> without gap or overlap, provided the total row count fits
  the type of the offsets: it is below \<open>2 ^ 64\<close> in the current learner (offsets are
  \<^verbatim>\<open>size_t\<close>) and below \<open>2 ^ 31\<close> in the legacy learner (offsets are \<^verbatim>\<open>int\<close>).
\<close>
theorem SetCacheData_partition:
  "(SetCacheData E this S L mats = Inr (L', S') \<and> total_rows S mats < 2 ^ 64 \<longrightarrow>
      map mat (cache L') = registration_order mats
      \<and> map num_row_c (cache L') = map (\<lambda>m. num_row (S m)) (registration_order mats)
      \<and> partitions 0 (cache_ranges (cache L')) (total_rows S mats))
   \<and> (SetCacheData_rr E_rr this S L_rr mats = Inr (L_rr', S_rr') \<and> total_rows S mats < 2 ^ 31 \<longrightarrow>
      map mat_rr (cache_rr L_rr') = registration_order mats
      \<and> map num_row_rr (cache_rr L_rr') = map (\<lambda>m. num_row (S m)) (registration_order mats)
      \<and> partitions 0 (cache_ranges_rr (cache_rr L_rr')) (total_rows S mats))"
proof (intro conjI impI)
  assume a: "SetCacheData E this S L mats = Inr (L', S') \<and> total_rows S mats < 2 ^ 64"
  then have c: "cache L' = entries_from (\<lambda>m. num_row (S m)) 0 (registration_order mats)"
    using SetCacheData_cache by blast
  show "map mat (cache L') = registration_order mats"
    by (simp add: c entries_from_mat)
  show "map num_row_c (cache L') = map (\<lambda>m. num_row (S m)) (registration_order mats)"
    by (simp add: c entries_from_rows)
  show "partitions 0 (cache_ranges (cache L')) (total_rows S mats)"
    using a entries_from_partitions [of 0 "\<lambda>m. num_row (S m)" "registration_order mats"]
    by (simp add: c total_rows_def)
next
  assume a: "SetCacheData_rr E_rr this S L_rr mats = Inr (L_rr', S_rr') \<and> total_rows S mats < 2 ^ 31"
  then have c: "cache_rr L_rr' = entries_from_rr (\<lambda>m. num_row (S m)) 0 (registration_order mats)"
    using SetCacheData_cache_rr by blast
  show "map mat_rr (cache_rr L_rr') = registration_order mats"
    by (simp add: c entries_from_mat_rr)
  show "map num_row_rr (cache_rr L_rr') = map (\<lambda>m. num_row (S m)) (registration_order mats)"
    by (simp add: c entries_from_rows_rr)
  show "partitions 0 (cache_ranges_rr (cache_rr L_rr')) (total_rows S mats)"
    using a entries_from_partitions_rr [of 0 "\<lambda>m. num_row (S m)" "registration_order mats"]
    by (simp add: c total_rows_def)
qed

lemma registration_order_toy: "registration_order [10, 20, 10 :: nat] = [10, 20]"
  by (simp add: registration_order_def)

lemma total_rows_toy: "total_rows toy_store [10, 20, 10] = 80"
  by (simp add: total_rows_def registration_order_toy toy_store_def)

text \<open>
  The scenario of the specification: matrices of 50 and 30 rows get \<open>[0, 50)\<close> and
  \<open>[50, 80)\<close>, and a further occurrence of the first adds no entry.
\<close>
theorem SetCacheData_partition_witness:
  "\<exists>L' S' L_rr' S_rr'.
     SetCacheData toy_env 7 toy_store (BoostLearner_init 0 0) [10, 20, 10] = Inr (L', S')
     \<and> SetCacheData_rr toy_env_rr 7 toy_store (RegRankBoostLearner_init 0 0) [10, 20, 10] = Inr (L_rr', S_rr')
     \<and> total_rows toy_store [10, 20, 10] = 80
     \<and> map mat (cache L') = [10, 20] \<and> map num_row_c (cache L') = [50, 30]
     \<and> partitions 0 (cache_ranges (cache L')) 80
     \<and> map mat_rr (cache_rr L_rr') = [10, 20] \<and> map num_row_rr (cache_rr L_rr') = [50, 30]
     \<and> partitions 0 (cache_ranges_rr (cache_rr L_rr')) 80"
proof -
  obtain L' S' where n: "SetCacheData toy_env 7 toy_store (BoostLearner_init 0 0) [10, 20, 10] = Inr (L', S')"
    using SetCacheData_total [of "BoostLearner_init 0 0" toy_env 7 toy_store "[10, 20, 10]"]
    by (auto simp: BoostLearner_init_def)
  obtain L_rr' S_rr' where
    o: "SetCacheData_rr toy_env_rr 7 toy_store (RegRankBoostLearner_init 0 0) [10, 20, 10] = Inr (L_rr', S_rr')"
    using SetCacheData_total_rr [of "RegRankBoostLearner_init 0 0" toy_env_rr 7 toy_store "[10, 20, 10]"]
    by (auto simp: RegRankBoostLearner_init_def)
  have r: "map (\<lambda>m. num_row (toy_store m)) [10, 20] = [50, 30]"
    by (simp add: toy_store_def)
  show ?thesis
    using n o total_rows_toy r
      SetCacheData_partition [of toy_env 7 toy_store "BoostLearner_init 0 0" "[10, 20, 10]" L' S'
        toy_env_rr "RegRankBoostLearner_init 0 0" L_rr' S_rr']
    by (simp add: registration_order_toy)
qed

text \<open>
  Without the bound the claim fails in the legacy learner: after a matrix of \<open>2 ^ 31\<close> rows
  the next offset, an \<^verbatim>\<open>int\<close>, is \<open>- 2 ^ 31\<close>.
\<close>
theorem SetCacheData_partition_counterexample:
  "\<exists>L' S'. SetCacheData_rr toy_env_rr 7 big_store (RegRankBoostLearner_init 0 0) [10, 20] = Inr (L', S')
     \<and> map (\<lambda>e. sint (buffer_offset_rr e)) (cache_rr L') = [0, - 2147483648]
     \<and> total_rows big_store [10, 20] = 2147483649
     \<and> \<not> partitions 0 (cache_ranges_rr (cache_rr L')) (total_rows big_store [10, 20])"
proof -
  obtain L' S' where
    o: "SetCacheData_rr toy_env_rr 7 big_store (RegRankBoostLearner_init 0 0) [10, 20] = Inr (L', S')"
    using SetCacheData_total_rr [of "RegRankBoostLearner_init 0 0" toy_env_rr 7 big_store "[10, 20]"]
    by (auto simp: RegRankBoostLearner_init_def)
  have ro: "registration_order [10, 20 :: nat] = [10, 20]"
    by (simp add: registration_order_def)
  have c: "cache_rr L' = entries_from_rr (\<lambda>m. num_row (big_store m)) 0 [10, 20]"
    using SetCacheData_cache_rr [OF o] by (simp add: ro)
  have t: "total_rows big_store [10, 20] = 2147483649"
    by (simp add: total_rows_def ro big_store_def)
  have off: "map (\<lambda>e. sint (buffer_offset_rr e)) (cache_rr L') = [0, - 2147483648]"
    by (simp add: c big_store_def)
  have np: "\<not> partitions 0 (cache_ranges_rr (cache_rr L')) 2147483649"
    by (simp add: c big_store_def cache_ranges_rr_def)
  show ?thesis
    using o off np t by auto
qed

section \<open>The lookup of a buffer offset\<close>

lemma FindBufferOffset_loop_unregistered:
  "\<forall>e\<in>set es. mat e = m \<longrightarrow> num_row_c e \<noteq> num_row (S m) \<Longrightarrow>
     FindBufferOffset_loop this S es m = - 1"
  by (induction es) auto

lemma FindBufferOffset_loop_found:
  "FindBufferOffset_loop this S es m \<noteq> - 1 \<Longrightarrow>
     \<exists>e\<in>set es. mat e = m \<and> cache_learner_ptr (S m) = this \<and> num_row_c e = num_row (S m)
       \<and> FindBufferOffset_loop this S es m = buffer_offset e"
  by (induction es) (auto split: if_splits)

lemma FindBufferOffset_loop_rr_unregistered:
  "\<forall>e\<in>set es. mat_rr e \<noteq> m \<Longrightarrow> FindBufferOffset_loop_rr this S es m err = (err, - 1)"
  by (induction es arbitrary: err) auto

lemma FindBufferOffset_loop_rr_stale:
  "\<forall>e\<in>set es. mat_rr e = m \<longrightarrow> num_row_rr e \<noteq> num_row (S m) \<Longrightarrow>
     snd (FindBufferOffset_loop_rr this S es m err) = - 1
     \<and> set (fst (FindBufferOffset_loop_rr this S es m err)) \<subseteq> set err \<union> {stale_warning}"
proof (induction es arbitrary: err)
  case Nil
  then show ?case by auto
next
  case (Cons e es)
  then have st: "\<forall>e\<in>set es. mat_rr e = m \<longrightarrow> num_row_rr e \<noteq> num_row (S m)"
    by simp
  show ?case
    using Cons.IH [of err, OF st] Cons.IH [of "err @ [stale_warning]", OF st] Cons.prems
    by auto
qed

lemma FindBufferOffset_loop_rr_grows:
  "length err \<le> length (fst (FindBufferOffset_loop_rr this S es m err))"
proof (induction es arbitrary: err)
  case Nil
  then show ?case by simp
next
  case (Cons e es)
  show ?case
    using Cons.IH [of err] Cons.IH [of "err @ [stale_warning]"] by auto
qed

lemma FindBufferOffset_loop_rr_warns:
  "\<forall>e\<in>set es. mat_rr e = m \<longrightarrow> num_row_rr e \<noteq> num_row (S m) \<Longrightarrow>
   \<exists>e\<in>set es. mat_rr e = m \<Longrightarrow> cache_learner_ptr (S m) = this \<Longrightarrow>
     length err < length (fst (FindBufferOffset_loop_rr this S es m err))"
proof (induction es arbitrary: err)
  case Nil
  then show ?case by simp
next
  case (Cons e es)
  show ?case
  proof (cases "mat_rr e = m")
    case True
    then have "num_row_rr e \<noteq> num_row (S m)"
      using Cons.prems(1) by simp
    then show ?thesis
      using True Cons.prems(3) FindBufferOffset_loop_rr_grows [of "err @ [stale_warning]" this S es m]
      by simp
  next
    case False
    then show ?thesis
      using Cons.IH [of err] Cons.prems by simp
  qed
qed

lemma FindBufferOffset_loop_rr_found:
  "snd (FindBufferOffset_loop_rr this S es m err) \<noteq> - 1 \<Longrightarrow>
     \<exists>e\<in>set es. mat_rr e = m \<and> cache_learner_ptr (S m) = this \<and> num_row_rr e = num_row (S m)
       \<and> snd (FindBufferOffset_loop_rr this S es m err) = buffer_offset_rr e"
  by (induction es arbitrary: err) (auto split: if_splits)

text \<open>
  C4. The lookup yields \<open>- 1\<close> (NotCached) for a matrix that has no entry, and for a matrix
  all of whose entries record a row count other than its current one; a value other than
  \<open>- 1\<close> is the offset of an entry of that matrix whose recorded row count is the current
  one. The lookup has no failing branch. The legacy lookup writes nothing for a matrix
  without an entry; for a stale matrix, what it writes are warnings only, at least one
  when the matrix still points back to the learner. The current lookup writes nothing.
\<close>
theorem FindBufferOffset_not_cached:
  "((\<forall>e\<in>set (cache L). mat e \<noteq> m) \<longrightarrow> FindBufferOffset this S L m = - 1)
   \<and> ((\<forall>e\<in>set (cache L). mat e = m \<longrightarrow> num_row_c e \<noteq> num_row (S m)) \<longrightarrow>
        FindBufferOffset this S L m = - 1)
   \<and> (FindBufferOffset this S L m \<noteq> - 1 \<longrightarrow>
        (\<exists>e\<in>set (cache L). mat e = m \<and> num_row_c e = num_row (S m)
           \<and> FindBufferOffset this S L m = buffer_offset e))
   \<and> ((\<forall>e\<in>set (cache_rr R). mat_rr e \<noteq> m) \<longrightarrow> FindBufferOffset_rr this S R m = ([], - 1))
   \<and> ((\<forall>e\<in>set (cache_rr R). mat_rr e = m \<longrightarrow> num_row_rr e \<noteq> num_row (S m)) \<longrightarrow>
        snd (FindBufferOffset_rr this S R m) = - 1
        \<and> set (fst (FindBufferOffset_rr this S R m)) \<subseteq> {stale_warning}
        \<and> ((\<exists>e\<in>set (cache_rr R). mat_rr e = m) \<and> cache_learner_ptr (S m) = this \<longrightarrow>
             fst (FindBufferOffset_rr this S R m) \<noteq> []))
   \<and> (snd (FindBufferOffset_rr this S R m) \<noteq> - 1 \<longrightarrow>
        (\<exists>e\<in>set (cache_rr R). mat_rr e = m \<and> num_row_rr e = num_row (S m)
           \<and> snd (FindBufferOffset_rr this S R m) = buffer_offset_rr e))"
proof (intro conjI impI)
  assume "\<forall>e\<in>set (cache L). mat e \<noteq> m"
  then show "FindBufferOffset this S L m = - 1"
    by (simp add: FindBufferOffset_def FindBufferOffset_loop_unregistered)
next
  assume "\<forall>e\<in>set (cache L). mat e = m \<longrightarrow> num_row_c e \<noteq> num_row (S m)"
  then show "FindBufferOffset this S L m = - 1"
    by (simp add: FindBufferOffset_def FindBufferOffset_loop_unregistered)
next
  assume "FindBufferOffset this S L m \<noteq> - 1"
  then show "\<exists>e\<in>set (cache L). mat e = m \<and> num_row_c e = num_row (S m)
               \<and> FindBufferOffset this S L m = buffer_offset e"
    using FindBufferOffset_loop_found [of this S "cache L" m]
    by (auto simp: FindBufferOffset_def)
next
  assume "\<forall>e\<in>set (cache_rr R). mat_rr e \<noteq> m"
  then show "FindBufferOffset_rr this S R m = ([], - 1)"
    by (simp add: FindBufferOffset_rr_def FindBufferOffset_loop_rr_unregistered)
next
  assume st: "\<forall>e\<in>set (cache_rr R). mat_rr e = m \<longrightarrow> num_row_rr e \<noteq> num_row (S m)"
  show "snd (FindBufferOffset_rr this S R m) = - 1"
    using st FindBufferOffset_loop_rr_stale [where es = "cache_rr R" and m = m and S = S
        and this = this and err = "[]"]
    by (simp add: FindBufferOffset_rr_def)
  show "set (fst (FindBufferOffset_rr this S R m)) \<subseteq> {stale_warning}"
    using st FindBufferOffset_loop_rr_stale [where es = "cache_rr R" and m = m and S = S
        and this = this and err = "[]"]
    by (simp add: FindBufferOffset_rr_def)
  assume "(\<exists>e\<in>set (cache_rr R). mat_rr e = m) \<and> cache_learner_ptr (S m) = this"
  then have "length ([] :: string list) < length (fst (FindBufferOffset_loop_rr this S (cache_rr R) m []))"
    using st FindBufferOffset_loop_rr_warns [where es = "cache_rr R" and m = m and S = S
        and this = this and err = "[]"] by blast
  then show "fst (FindBufferOffset_rr this S R m) \<noteq> []"
    by (auto simp: FindBufferOffset_rr_def)
next
  assume "snd (FindBufferOffset_rr this S R m) \<noteq> - 1"
  then show "\<exists>e\<in>set (cache_rr R). mat_rr e = m \<and> num_row_rr e = num_row (S m)
               \<and> snd (FindBufferOffset_rr this S R m) = buffer_offset_rr e"
    using FindBufferOffset_loop_rr_found [of this S "cache_rr R" m "[]"]
    by (auto simp: FindBufferOffset_rr_def)
qed

text \<open>
  A run: the matrix at 30 has no entry; the matrix at 20 was registered with 30 rows and
  now has 31; the matrix at 10 is unchanged and gets its offset.
\<close>
theorem FindBufferOffset_not_cached_witness:
  "FindBufferOffset 7 toy_store_later (BoostLearner_init 0 0\<lparr>cache := toy_cache\<rparr>) 30 = - 1
   \<and> FindBufferOffset 7 toy_store_later (BoostLearner_init 0 0\<lparr>cache := toy_cache\<rparr>) 20 = - 1
   \<and> FindBufferOffset 7 toy_store_later (BoostLearner_init 0 0\<lparr>cache := toy_cache\<rparr>) 10 = 0
   \<and> FindBufferOffset_rr 7 toy_store_later (RegRankBoostLearner_init 0 0\<lparr>cache_rr := toy_cache_rr\<rparr>) 30
       = ([], - 1)
   \<and> FindBufferOffset_rr 7 toy_store_later (RegRankBoostLearner_init 0 0\<lparr>cache_rr := toy_cache_rr\<rparr>) 20
       = ([stale_warning], - 1)
   \<and> FindBufferOffset_rr 7 toy_store_later (RegRankBoostLearner_init 0 0\<lparr>cache_rr := toy_cache_rr\<rparr>) 10
       = ([], 0)"
proof -
  let ?L = "BoostLearner_init 0 0\<lparr>cache := toy_cache\<rparr>"
  let ?R = "RegRankBoostLearner_init 0 0\<lparr>cache_rr := toy_cache_rr\<rparr>"
  have u: "\<forall>e\<in>set (cache ?L). mat e \<noteq> 30"
    by (simp add: toy_cache_def)
  have s: "\<forall>e\<in>set (cache ?L). mat e = 20 \<longrightarrow> num_row_c e \<noteq> num_row (toy_store_later 20)"
    by (simp add: toy_cache_def toy_store_later_def)
  have ur: "\<forall>e\<in>set (cache_rr ?R). mat_rr e \<noteq> 30"
    by (simp add: toy_cache_rr_def)
  have a: "FindBufferOffset 7 toy_store_later ?L 30 = - 1"
    using u FindBufferOffset_not_cached [of ?L 30 7 toy_store_later ?R] by blast
  have b: "FindBufferOffset 7 toy_store_later ?L 20 = - 1"
    using s FindBufferOffset_not_cached [of ?L 20 7 toy_store_later ?R] by blast
  have c: "FindBufferOffset_rr 7 toy_store_later ?R 30 = ([], - 1)"
    using ur FindBufferOffset_not_cached [of ?L 30 7 toy_store_later ?R] by blast
  have d: "FindBufferOffset 7 toy_store_later ?L 10 = 0"
    by (simp add: FindBufferOffset_def toy_cache_def toy_store_later_def)
  have e: "FindBufferOffset_rr 7 toy_store_later ?R 20 = ([stale_warning], - 1)"
    by (simp add: FindBufferOffset_rr_def toy_cache_rr_def toy_store_later_def)
  have f: "FindBufferOffset_rr 7 toy_store_later ?R 10 = ([], 0)"
    by (simp add: FindBufferOffset_rr_def toy_cache_rr_def toy_store_later_def)
  show ?thesis
    using a b c d e f by blast
qed

section \<open>Registering twice\<close>

text \<open>
  C6. \<open>SetCacheData\<close> on a learner whose cache already holds an entry fails with the fatal
  assertion "can only call cache data once"; the failed call yields no learner, so no
  entry is added.
\<close>
theorem SetCacheData_only_once:
  "(cache L \<noteq> [] \<longrightarrow>
      SetCacheData E this S L mats = Inl (AssertFailed ''can only call cache data once''))
   \<and> (cache_rr R \<noteq> [] \<longrightarrow>
      SetCacheData_rr E_rr this S R mats = Inl (AssertFailed ''can only call cache data once''))"
  by (simp add: SetCacheData_def SetCacheData_rr_def thenE_def Assert_def)

text \<open>A first call with two matrices, then a second call.\<close>
theorem SetCacheData_only_once_witness:
  "\<exists>L' S' R' S_rr'.
     SetCacheData toy_env 7 toy_store (BoostLearner_init 0 0) [10, 20] = Inr (L', S')
     \<and> SetCacheData toy_env 7 S' L' [30] = Inl (AssertFailed ''can only call cache data once'')
     \<and> SetCacheData_rr toy_env_rr 7 toy_store (RegRankBoostLearner_init 0 0) [10, 20] = Inr (R', S_rr')
     \<and> SetCacheData_rr toy_env_rr 7 S_rr' R' [30] = Inl (AssertFailed ''can only call cache data once'')"
proof -
  obtain L' S' where n: "SetCacheData toy_env 7 toy_store (BoostLearner_init 0 0) [10, 20] = Inr (L', S')"
    using SetCacheData_total [of "BoostLearner_init 0 0" toy_env 7 toy_store "[10, 20]"]
    by (auto simp: BoostLearner_init_def)
  obtain R' S_rr' where
    o: "SetCacheData_rr toy_env_rr 7 toy_store (RegRankBoostLearner_init 0 0) [10, 20] = Inr (R', S_rr')"
    using SetCacheData_total_rr [of "RegRankBoostLearner_init 0 0" toy_env_rr 7 toy_store "[10, 20]"]
    by (auto simp: RegRankBoostLearner_init_def)
  have ro: "registration_order [10, 20 :: nat] = [10, 20]"
    by (simp add: registration_order_def)
  have c: "cache L' \<noteq> []"
    using SetCacheData_cache [OF n] by (simp add: ro)
  have d: "cache_rr R' \<noteq> []"
    using SetCacheData_cache_rr [OF o] by (simp add: ro)
  have "SetCacheData toy_env 7 S' L' [30] = Inl (AssertFailed ''can only call cache data once'')"
    using c SetCacheData_only_once [of L' toy_env 7 S' "[30]" R' toy_env_rr] by blast
  moreover have "SetCacheData_rr toy_env_rr 7 S_rr' R' [30] = Inl (AssertFailed ''can only call cache data once'')"
    using d SetCacheData_only_once [of L' toy_env 7 S_rr' "[30]" R' toy_env_rr] by blast
  ultimately show ?thesis
    using n o by blast
qed

section \<open>The objective chosen by the legacy learner\<close>

text \<open>
  C9. In the legacy learner, when \<open>num_class\<close> is not zero and the configured objective is
  neither "multi:softmax" nor "multi:softprob", \<open>InitTrainer\<close> replaces the name by
  "multi:softmax", without an error, before it instantiates the objective; otherwise it
  keeps the configured name. The objective is made by the factory from that name and is
  given the recorded parameters in their order; \<open>InitTrainer\<close> fails only when the factory
  has no objective of that name.
\<close>
theorem InitTrainer_objective:
  "(CreateObjFunction_rr E (chosen_objective (num_class_rr (mparam_rr L)) (name_obj_rr L)) = Some o0 \<longrightarrow>
      (\<exists>L'. InitTrainer E L = Inr L'
         \<and> name_obj_rr L' = chosen_objective (num_class_rr (mparam_rr L)) (name_obj_rr L)
         \<and> obj_rr L' = Obj (foldl (\<lambda>ob (k, v). obj_SetParam_rr E ob k v) o0 (cfg_rr L))))
   \<and> (CreateObjFunction_rr E (chosen_objective (num_class_rr (mparam_rr L)) (name_obj_rr L)) = None \<longrightarrow>
      InitTrainer E L
        = Inl (PluginFailed (chosen_objective (num_class_rr (mparam_rr L)) (name_obj_rr L))))"
  by (simp add: InitTrainer_def chosen_objective_def Let_def)

lemma atoi_3: "atoi ''3'' = 3"
  by (simp add: atoi_def strtol_range_def isspace_def isdigit_def)

lemma three_class_learner_fields:
  "num_class_rr (mparam_rr three_class_learner) = 3"
  "name_obj_rr three_class_learner = ''reg:linear''"
  "cfg_rr three_class_learner = [(''num_class'', ''3'')]"
  by (simp_all add: three_class_learner_def SetParam_rr_def ModelParam_SetParam_rr_def
      RegRankBoostLearner_init_def ModelParam_init_rr_def atoi_3 Let_def)

text \<open>
  With three classes "reg:linear" gives way to "multi:softmax"; "multi:softprob" stays; and
  without classes "reg:linear" stays.
\<close>
theorem InitTrainer_objective_witness:
  "(\<exists>L'. InitTrainer toy_env_rr three_class_learner = Inr L' \<and> name_obj_rr L' = ''multi:softmax''
      \<and> obj_rr L' = Obj ())
   \<and> (\<exists>L'. InitTrainer toy_env_rr (three_class_learner\<lparr>name_obj_rr := ''multi:softprob''\<rparr>) = Inr L'
      \<and> name_obj_rr L' = ''multi:softprob'')
   \<and> (\<exists>L'. InitTrainer toy_env_rr (RegRankBoostLearner_init 0 0) = Inr L'
      \<and> name_obj_rr L' = ''reg:linear'')
   \<and> InitTrainer toy_env_rr (RegRankBoostLearner_init 0 0\<lparr>name_obj_rr := ''rank:pairwise''\<rparr>)
       = Inl (PluginFailed ''rank:pairwise'')"
proof -
  have a: "chosen_objective (num_class_rr (mparam_rr three_class_learner)) (name_obj_rr three_class_learner)
             = ''multi:softmax''"
    by (simp add: three_class_learner_fields chosen_objective_def)
  have a': "CreateObjFunction_rr toy_env_rr ''multi:softmax'' = Some ()"
    by (simp add: toy_env_rr_def)
  have b: "chosen_objective (num_class_rr (mparam_rr (three_class_learner\<lparr>name_obj_rr := ''multi:softprob''\<rparr>)))
             (name_obj_rr (three_class_learner\<lparr>name_obj_rr := ''multi:softprob''\<rparr>)) = ''multi:softprob''"
    by (simp add: chosen_objective_def)
  have b': "CreateObjFunction_rr toy_env_rr ''multi:softprob'' = Some ()"
    by (simp add: toy_env_rr_def)
  have c: "chosen_objective (num_class_rr (mparam_rr (RegRankBoostLearner_init 0 0)))
             (name_obj_rr (RegRankBoostLearner_init 0 0)) = ''reg:linear''"
    by (simp add: chosen_objective_def RegRankBoostLearner_init_def ModelParam_init_rr_def)
  have c': "CreateObjFunction_rr toy_env_rr ''reg:linear'' = Some ()"
    by (simp add: toy_env_rr_def)
  have d: "chosen_objective (num_class_rr (mparam_rr (RegRankBoostLearner_init 0 0\<lparr>name_obj_rr := ''rank:pairwise''\<rparr>)))
             (name_obj_rr (RegRankBoostLearner_init 0 0\<lparr>name_obj_rr := ''rank:pairwise''\<rparr>)) = ''rank:pairwise''"
    by (simp add: chosen_objective_def RegRankBoostLearner_init_def ModelParam_init_rr_def)
  have d': "CreateObjFunction_rr toy_env_rr ''rank:pairwise'' = None"
    by (simp add: toy_env_rr_def)
  have 1: "\<exists>L'. InitTrainer toy_env_rr three_class_learner = Inr L' \<and> name_obj_rr L' = ''multi:softmax''
      \<and> obj_rr L' = Obj ()"
    using InitTrainer_objective [of toy_env_rr three_class_learner "()"] a a'
    by auto
  have 2: "\<exists>L'. InitTrainer toy_env_rr (three_class_learner\<lparr>name_obj_rr := ''multi:softprob''\<rparr>) = Inr L'
      \<and> name_obj_rr L' = ''multi:softprob''"
    using InitTrainer_objective [of toy_env_rr "three_class_learner\<lparr>name_obj_rr := ''multi:softprob''\<rparr>" "()"]
      b b' by auto
  have 3: "\<exists>L'. InitTrainer toy_env_rr (RegRankBoostLearner_init 0 0) = Inr L'
      \<and> name_obj_rr L' = ''reg:linear''"
    using InitTrainer_objective [of toy_env_rr "RegRankBoostLearner_init 0 0" "()"] c c'
    by auto
  have 4: "InitTrainer toy_env_rr (RegRankBoostLearner_init 0 0\<lparr>name_obj_rr := ''rank:pairwise''\<rparr>)
       = Inl (PluginFailed ''rank:pairwise'')"
    using InitTrainer_objective [of toy_env_rr "RegRankBoostLearner_init 0 0\<lparr>name_obj_rr := ''rank:pairwise''\<rparr>" "()"]
      d d' by auto
  show ?thesis
    using 1 2 3 4 by blast
qed

section \<open>The base score of the legacy learner\<close>

lemma AdjustBase_sigmoid:
  assumes "effective_loss_type objname (loss_type p) \<in> {1, 2, 3}"
    and "fless E (fzero E) (base_score_rr p)" and "fless E (base_score_rr p) (fone E)"
  shows "AdjustBase E objname p
           = Inr (p\<lparr>loss_type := effective_loss_type objname (loss_type p),
                    base_score_rr :=
                      fneg E (logf E (fsub E (fdiv E (fone E) (base_score_rr p)) (fone E)))\<rparr>)"
  using assms
  by (auto simp: AdjustBase_def effective_loss_type_def Let_def thenE_def Assert_def split: if_splits)

lemma AdjustBase_range:
  assumes "effective_loss_type objname (loss_type p) \<in> {1, 2, 3}"
    and "\<not> (fless E (fzero E) (base_score_rr p) \<and> fless E (base_score_rr p) (fone E))"
  shows "AdjustBase E objname p = Inl (AssertFailed ''sigmoid range constrain'')"
  using assms
  by (auto simp: AdjustBase_def effective_loss_type_def Let_def thenE_def Assert_def split: if_splits)

lemma AdjustBase_linear:
  assumes "effective_loss_type objname (loss_type p) = 0"
  shows "AdjustBase E objname p = Inr (p\<lparr>loss_type := 0\<rparr>)"
  using assms
  by (auto simp: AdjustBase_def effective_loss_type_def Let_def thenE_def Assert_def split: if_splits)

text \<open>
  C10. In the legacy learner's \<open>InitModel\<close>, when the loss type after its default is 1, 2 or
  3: with a base score strictly between \<^verbatim>\<open>0.0f\<close> and \<^verbatim>\<open>1.0f\<close> the assertion "sigmoid range
  constrain" does not fire and the base score becomes \<^verbatim>\<open>-logf(1.0f / base_score - 1.0f)\<close>, computed
  in the learner's single precision; with any other base score the assertion fires. When
  the loss type after its default is 0, the base score is left as it is.
\<close>
theorem InitModel_base_score:
  "(effective_loss_type (name_obj_rr L) (loss_type (mparam_rr L)) \<in> {1, 2, 3}
      \<and> fless E (fzero E) (base_score_rr (mparam_rr L))
      \<and> fless E (base_score_rr (mparam_rr L)) (fone E) \<longrightarrow>
      InitModel_rr E L
        = Inr (L\<lparr>base_gbm := gbm_InitModel_rr E (base_gbm L),
                 mparam_rr := (mparam_rr L)
                   \<lparr>loss_type := effective_loss_type (name_obj_rr L) (loss_type (mparam_rr L)),
                    base_score_rr :=
                      fneg E (logf E (fsub E (fdiv E (fone E) (base_score_rr (mparam_rr L)))
                                        (fone E)))\<rparr>\<rparr>))
   \<and> (effective_loss_type (name_obj_rr L) (loss_type (mparam_rr L)) \<in> {1, 2, 3}
      \<and> \<not> (fless E (fzero E) (base_score_rr (mparam_rr L))
             \<and> fless E (base_score_rr (mparam_rr L)) (fone E)) \<longrightarrow>
      InitModel_rr E L = Inl (AssertFailed ''sigmoid range constrain''))
   \<and> (effective_loss_type (name_obj_rr L) (loss_type (mparam_rr L)) = 0 \<longrightarrow>
      InitModel_rr E L
        = Inr (L\<lparr>base_gbm := gbm_InitModel_rr E (base_gbm L),
                 mparam_rr := (mparam_rr L)\<lparr>loss_type := 0\<rparr>\<rparr>))"
proof (intro conjI impI)
  let ?p = "mparam_rr L"
  let ?L1 = "L\<lparr>base_gbm := gbm_InitModel_rr E (base_gbm L)\<rparr>"
  have i: "InitModel_rr E L
      = thenE (AdjustBase E (name_obj_rr L) ?p) (\<lambda>p. Inr (?L1\<lparr>mparam_rr := p\<rparr>))"
    by (simp add: InitModel_rr_def Let_def)
  {
    assume "effective_loss_type (name_obj_rr L) (loss_type ?p) \<in> {1, 2, 3}
      \<and> fless E (fzero E) (base_score_rr ?p) \<and> fless E (base_score_rr ?p) (fone E)"
    then have "AdjustBase E (name_obj_rr L) ?p
        = Inr (?p\<lparr>loss_type := effective_loss_type (name_obj_rr L) (loss_type ?p),
                   base_score_rr :=
                     fneg E (logf E (fsub E (fdiv E (fone E) (base_score_rr ?p)) (fone E)))\<rparr>)"
      using AdjustBase_sigmoid [of "name_obj_rr L" ?p E] by blast
    then show "InitModel_rr E L
        = Inr (L\<lparr>base_gbm := gbm_InitModel_rr E (base_gbm L),
                 mparam_rr := ?p
                   \<lparr>loss_type := effective_loss_type (name_obj_rr L) (loss_type ?p),
                    base_score_rr :=
                      fneg E (logf E (fsub E (fdiv E (fone E) (base_score_rr ?p)) (fone E)))\<rparr>\<rparr>)"
      by (simp add: i thenE_def)
  }
  {
    assume "effective_loss_type (name_obj_rr L) (loss_type ?p) \<in> {1, 2, 3}
      \<and> \<not> (fless E (fzero E) (base_score_rr ?p) \<and> fless E (base_score_rr ?p) (fone E))"
    then have "AdjustBase E (name_obj_rr L) ?p = Inl (AssertFailed ''sigmoid range constrain'')"
      using AdjustBase_range [of "name_obj_rr L" ?p E] by blast
    then show "InitModel_rr E L = Inl (AssertFailed ''sigmoid range constrain'')"
      by (simp add: i thenE_def)
  }
  {
    assume "effective_loss_type (name_obj_rr L) (loss_type ?p) = 0"
    then have "AdjustBase E (name_obj_rr L) ?p = Inr (?p\<lparr>loss_type := 0\<rparr>)"
      by (rule AdjustBase_linear)
    then show "InitModel_rr E L
        = Inr (L\<lparr>base_gbm := gbm_InitModel_rr E (base_gbm L), mparam_rr := ?p\<lparr>loss_type := 0\<rparr>\<rparr>)"
      by (simp add: i thenE_def)
  }
qed

lemma toy_env_real_arith:
  "fzero toy_env_real = 0" "fone toy_env_real = 1" "fless toy_env_real = (\<lambda>a b. a < b)"
  "fsub toy_env_real = (\<lambda>a b. a - b)" "fdiv toy_env_real = (\<lambda>a b. a / b)"
  "fneg toy_env_real = (\<lambda>a. - a)" "logf toy_env_real = ln"
  by (simp_all add: toy_env_real_def)

text \<open>
  With exact arithmetic, the default base score \<open>1 / 2\<close>: a logistic objective turns it into
  0, "reg:linear" leaves it, and a base score of 1 under a logistic objective stops the
  program.
\<close>
theorem InitModel_base_score_witness:
  "(\<exists>L'. InitModel_rr toy_env_real (RegRankBoostLearner_init 0 (1 / 2)\<lparr>name_obj_rr := ''binary:logistic''\<rparr>) = Inr L'
      \<and> base_score_rr (mparam_rr L') = 0 \<and> loss_type (mparam_rr L') = 1)
   \<and> (\<exists>L'. InitModel_rr toy_env_real (RegRankBoostLearner_init 0 (1 / 2)) = Inr L'
      \<and> base_score_rr (mparam_rr L') = 1 / 2 \<and> loss_type (mparam_rr L') = 0)
   \<and> InitModel_rr toy_env_real (RegRankBoostLearner_init 0 1\<lparr>name_obj_rr := ''binary:logistic''\<rparr>)
       = Inl (AssertFailed ''sigmoid range constrain'')"
proof -
  let ?A = "RegRankBoostLearner_init 0 (1 / 2)\<lparr>name_obj_rr := ''binary:logistic''\<rparr>
              :: (byte, unit, real) RegRankBoostLearner"
  let ?B = "RegRankBoostLearner_init 0 (1 / 2) :: (byte, unit, real) RegRankBoostLearner"
  let ?C = "RegRankBoostLearner_init 0 1\<lparr>name_obj_rr := ''binary:logistic''\<rparr>
              :: (byte, unit, real) RegRankBoostLearner"
  have a: "effective_loss_type (name_obj_rr ?A) (loss_type (mparam_rr ?A)) \<in> {1, 2, 3}
      \<and> fless toy_env_real (fzero toy_env_real) (base_score_rr (mparam_rr ?A))
      \<and> fless toy_env_real (base_score_rr (mparam_rr ?A)) (fone toy_env_real)"
    by (simp add: effective_loss_type_def RegRankBoostLearner_init_def ModelParam_init_rr_def
        toy_env_real_arith)
  have b: "effective_loss_type (name_obj_rr ?B) (loss_type (mparam_rr ?B)) = 0"
    by (simp add: effective_loss_type_def RegRankBoostLearner_init_def ModelParam_init_rr_def)
  have c: "effective_loss_type (name_obj_rr ?C) (loss_type (mparam_rr ?C)) \<in> {1, 2, 3}
      \<and> \<not> (fless toy_env_real (fzero toy_env_real) (base_score_rr (mparam_rr ?C))
             \<and> fless toy_env_real (base_score_rr (mparam_rr ?C)) (fone toy_env_real))"
    by (simp add: effective_loss_type_def RegRankBoostLearner_init_def ModelParam_init_rr_def
        toy_env_real_arith)
  have 1: "\<exists>L'. InitModel_rr toy_env_real ?A = Inr L'
      \<and> base_score_rr (mparam_rr L') = 0 \<and> loss_type (mparam_rr L') = 1"
    using a InitModel_base_score [of ?A toy_env_real]
    by (simp add: effective_loss_type_def RegRankBoostLearner_init_def ModelParam_init_rr_def
        toy_env_real_arith)
  have 2: "\<exists>L'. InitModel_rr toy_env_real ?B = Inr L'
      \<and> base_score_rr (mparam_rr L') = 1 / 2 \<and> loss_type (mparam_rr L') = 0"
    using b InitModel_base_score [of ?B toy_env_real]
    by (simp add: effective_loss_type_def RegRankBoostLearner_init_def ModelParam_init_rr_def)
  have 3: "InitModel_rr toy_env_real ?C = Inl (AssertFailed ''sigmoid range constrain'')"
    using c InitModel_base_score [of ?C toy_env_real] by blast
  show ?thesis
    using 1 2 3 by blast
qed

section \<open>Boosting by groups in the legacy learner\<close>

lemma FindBufferOffset_rr_cong:
  "cache_rr L' = cache_rr L \<Longrightarrow> FindBufferOffset_rr this S L' m = FindBufferOffset_rr this S L m"
  by (simp add: FindBufferOffset_rr_def)

lemma scast_group: "k < 2 ^ 31 \<Longrightarrow> (scast (of_nat k :: cint) :: size_t) = of_nat k"
proof -
  assume k: "k < 2 ^ 31"
  have "- (2 ^ 31) \<le> (0 :: int)" by simp
  then have lo: "- (2 ^ 31) \<le> int k" by (rule order_trans) simp
  have hi: "int k < 2 ^ 31" using k by simp
  have "sint (of_nat k :: cint) = signed_take_bit 31 (int k)"
    by (simp add: signed_of_nat)
  also have "\<dots> = int k"
    using lo hi by (rule signed_take_bit_int_eq_self)
  finally have "sint (of_nat k :: cint) = int k" .
  then show ?thesis
    by (simp add: scast_eq)
qed

lemma unat_group_offset:
  "k * unat (n :: size_t) < 2 ^ 64 \<Longrightarrow> unat (of_nat k * n) = k * unat n"
proof -
  assume b: "k * unat n < 2 ^ 64"
  have "unat (of_nat k * n) = (k mod 2 ^ 64 * unat n) mod 2 ^ 64"
    by (simp add: unat_word_ariths unat_of_nat)
  also have "\<dots> = (k * unat n) mod 2 ^ 64"
    by (simp add: mod_mult_left_eq)
  also have "\<dots> = k * unat n"
    using b by simp
  finally show ?thesis .
qed

lemma UpdateOneIter_loop_groups:
  assumes "\<forall>g\<in>set gs. g < 2 ^ 31 \<and> (g + 1) * unat n \<le> length (grad L) \<and> (g + 1) * unat n \<le> length (hess L)"
    and "length (grad L) < 2 ^ 64"
  shows "UpdateOneIter_loop E this S train n (map of_nat gs) L
           = Inr (L\<lparr>base_gbm := boost_groups E (base_gbm L) (grad L) (hess L) (unat n) (fmat (S train))
                                 (root_index E (info (S train)))
                                 (snd (FindBufferOffset_rr this S L train)) gs\<rparr>)"
  using assms
proof (induction gs arbitrary: L)
  case Nil
  then show ?case by (simp add: boost_groups_def)
next
  case (Cons g gs)
  have g31: "g < 2 ^ 31" and gg: "(g + 1) * unat n \<le> length (grad L)"
    and gh: "(g + 1) * unat n \<le> length (hess L)"
    using Cons.prems(1) by simp_all
  have "g * unat n \<le> (g + 1) * unat n" by simp
  then have "g * unat n < 2 ^ 64"
    using gg Cons.prems(2) by linarith
  then have off: "unat (scast (of_nat g :: cint) * n) = g * unat n"
    using g31 by (simp add: scast_group unat_group_offset)
  have sg: "slice (grad L) (g * unat n) (unat n) = Inr (group_slice (grad L) (unat n) g)"
    using gg by (simp add: slice_def group_slice_def)
  have sh: "slice (hess L) (g * unat n) (unat n) = Inr (group_slice (hess L) (unat n) g)"
    using gh by (simp add: slice_def group_slice_def)
  let ?L1 = "L\<lparr>base_gbm := gbm_DoBoost_rr E (base_gbm L) (group_slice (grad L) (unat n) g)
                 (group_slice (hess L) (unat n) g) (fmat (S train)) (root_index E (info (S train)))
                 (of_nat g) (snd (FindBufferOffset_rr this S L train))\<rparr>"
  have p1: "\<forall>g\<in>set gs. g < 2 ^ 31 \<and> (g + 1) * unat n \<le> length (grad ?L1)
              \<and> (g + 1) * unat n \<le> length (hess ?L1)"
    using Cons.prems(1) by simp
  have p2: "length (grad ?L1) < 2 ^ 64"
    using Cons.prems(2) by simp
  note ih = Cons.IH [of ?L1, OF p1 p2]
  have fb: "FindBufferOffset_rr this S ?L1 train = FindBufferOffset_rr this S L train"
    by (rule FindBufferOffset_rr_cong) simp
  show ?case
    using ih by (simp add: off sg sh thenE_def fb boost_groups_def)
qed

lemma of_nat_eq_size_t:
  "k < 2 ^ 64 \<Longrightarrow> ((of_nat k :: size_t) = n) = (k = unat n)"
proof -
  assume k: "k < 2 ^ 64"
  have "unat (of_nat k :: size_t) = k"
    using k by (simp add: unat_of_nat)
  then show ?thesis by auto
qed

text \<open>
  The boosting step of the legacy learner, with \<open>gr\<close> and \<open>he\<close> the gradient and the hessian
  the objective returns and \<open>K\<close> the booster's number of groups: one \<^verbatim>\<open>DoBoost\<close> call for group
  0 when \<open>gr\<close> has as many entries as the matrix has rows, one call for each group on the
  group's entries when it has \<open>rows * K\<close>.
\<close>
lemma UpdateOneIter_rr_groups:
  assumes "PredictRaw_rr E this S L (preds_rr L) train (- 1) = Inr ps"
    and "obj_rr L = Obj ob"
    and "obj_GetGradient_rr E ob ps (info (S train)) (gbm_NumBoosters E (base_gbm L)) = (gr, he)"
    and "length gr < 2 ^ 64"
  shows
    "(length gr = unat (num_row (S train)) \<longrightarrow>
        UpdateOneIter_rr E this S L iter train
          = clear_step E this S iter train
              (L\<lparr>preds_rr := ps, grad := gr, hess := he,
                 base_gbm := gbm_DoBoost_rr E (base_gbm L) gr he (fmat (S train))
                               (root_index E (info (S train))) 0
                               (snd (FindBufferOffset_rr this S L train))\<rparr>))
     \<and> (0 < unat (num_row (S train)) \<and> 0 \<le> sint (gbm_NumBoosterGroup E (base_gbm L))
        \<and> length gr = unat (num_row (S train)) * nat (sint (gbm_NumBoosterGroup E (base_gbm L)))
        \<and> length he = length gr \<longrightarrow>
        UpdateOneIter_rr E this S L iter train
          = clear_step E this S iter train
              (L\<lparr>preds_rr := ps, grad := gr, hess := he,
                 base_gbm := boost_groups E (base_gbm L) gr he (unat (num_row (S train)))
                               (fmat (S train)) (root_index E (info (S train)))
                               (snd (FindBufferOffset_rr this S L train))
                               [0..<nat (sint (gbm_NumBoosterGroup E (base_gbm L)))]\<rparr>))"
proof (intro conjI impI)
  let ?n = "num_row (S train)"
  let ?K = "gbm_NumBoosterGroup E (base_gbm L)"
  let ?L1 = "L\<lparr>preds_rr := ps, grad := gr, hess := he\<rparr>"
  let ?bo = "snd (FindBufferOffset_rr this S L train)"
  have fb: "FindBufferOffset_rr this S ?L1 train = FindBufferOffset_rr this S L train"
    by (rule FindBufferOffset_rr_cong) simp
  have step: "UpdateOneIter_rr E this S L iter train
      = thenE (if (of_nat (length gr) :: size_t) = ?n
               then Inr (?L1\<lparr>base_gbm := gbm_DoBoost_rr E (base_gbm L) gr he (fmat (S train))
                                (root_index E (info (S train))) 0 ?bo\<rparr>)
               else thenE (Assert ((of_nat (length gr) :: size_t) = ?n * scast ?K)
                             ''BUG: UpdateOneIter: mclass'')
                      (\<lambda>_. UpdateOneIter_loop E this S train ?n (groups_of ?K) ?L1))
          (clear_step E this S iter train)"
    using assms(1-3) fb
    by (simp add: UpdateOneIter_rr_def thenE_def deref_def Let_def clear_step_def [abs_def])
  {
    assume eq: "length gr = unat ?n"
    then have "(of_nat (length gr) :: size_t) = ?n"
      by simp
    then show "UpdateOneIter_rr E this S L iter train
          = clear_step E this S iter train
              (L\<lparr>preds_rr := ps, grad := gr, hess := he,
                 base_gbm := gbm_DoBoost_rr E (base_gbm L) gr he (fmat (S train))
                               (root_index E (info (S train))) 0 ?bo\<rparr>)"
      by (simp add: step thenE_def)
  }
  {
    let ?k = "nat (sint ?K)"
    assume h: "0 < unat ?n \<and> 0 \<le> sint ?K \<and> length gr = unat ?n * ?k \<and> length he = length gr"
    show "UpdateOneIter_rr E this S L iter train
          = clear_step E this S iter train
              (L\<lparr>preds_rr := ps, grad := gr, hess := he,
                 base_gbm := boost_groups E (base_gbm L) gr he (unat ?n) (fmat (S train))
                               (root_index E (info (S train))) ?bo [0..<?k]\<rparr>)"
    proof (cases "length gr = unat ?n")
      case True
      then have one: "?k = 1"
        using h by simp
      have "group_slice gr (unat ?n) 0 = gr" "group_slice he (unat ?n) 0 = he"
        using True h by (simp_all add: group_slice_def)
      then have "boost_groups E (base_gbm L) gr he (unat ?n) (fmat (S train))
                   (root_index E (info (S train))) ?bo [0..<?k]
                 = gbm_DoBoost_rr E (base_gbm L) gr he (fmat (S train))
                     (root_index E (info (S train))) 0 ?bo"
        by (simp add: boost_groups_def one)
      moreover have "(of_nat (length gr) :: size_t) = ?n"
        using True by simp
      ultimately show ?thesis
        by (simp add: step thenE_def)
    next
      case False
      then have ne: "(of_nat (length gr) :: size_t) \<noteq> ?n"
        using assms(4) by (simp add: of_nat_eq_size_t)
      have k31: "?k < 2 ^ 31"
        using sint_less [of ?K] h by simp
      have sc: "(scast ?K :: size_t) = of_nat ?k"
      proof -
        have "(of_nat ?k :: cint) = of_int (sint ?K)"
          using h by (simp add: of_nat_nat)
        then have "(of_nat ?k :: cint) = ?K"
          by simp
        then show ?thesis
          using scast_group [OF k31] by simp
      qed
      have lg: "length gr = unat ?n * ?k"
        using h by blast
      have un: "(of_nat (unat ?n) :: size_t) = ?n"
        by simp
      have "(of_nat (length gr) :: size_t) = of_nat (unat ?n) * of_nat ?k"
        by (simp only: lg of_nat_mult)
      then have as: "(of_nat (length gr) :: size_t) = ?n * scast ?K"
        by (simp only: un sc)
      have gs: "groups_of ?K = map of_nat [0..<?k]"
        by (simp add: groups_of_def)
      have bound: "\<forall>g\<in>set [0..<?k]. g < 2 ^ 31 \<and> (g + 1) * unat ?n \<le> length (grad ?L1)
                     \<and> (g + 1) * unat ?n \<le> length (hess ?L1)"
      proof
        fix g assume "g \<in> set [0..<?k]"
        then have g: "g + 1 \<le> ?k" by simp
        then have "(g + 1) * unat ?n \<le> ?k * unat ?n"
          by (rule mult_le_mono1)
        then show "g < 2 ^ 31 \<and> (g + 1) * unat ?n \<le> length (grad ?L1)
                     \<and> (g + 1) * unat ?n \<le> length (hess ?L1)"
          using g k31 h by (simp add: mult.commute)
      qed
      have loop: "UpdateOneIter_loop E this S train ?n (map of_nat [0..<?k]) ?L1
           = Inr (?L1\<lparr>base_gbm := boost_groups E (base_gbm ?L1) (grad ?L1) (hess ?L1) (unat ?n)
                                 (fmat (S train)) (root_index E (info (S train)))
                                 (snd (FindBufferOffset_rr this S ?L1 train)) [0..<?k]\<rparr>)"
        using bound assms(4) by (intro UpdateOneIter_loop_groups) simp_all
      show ?thesis
        using ne as by (simp add: step thenE_def Assert_def gs loop fb)
    qed
  }
qed


lemma UpdateOneIter_once:
  assumes "gbm B = Obj gb" and "obj B = Obj ob"
  shows "UpdateOneIter E this S B iter train
           = Inr (B\<lparr>preds := gbm_Predict E gb (fmat (S train)) (FindBufferOffset this S B train)
                               (info (S train)),
                    gpair := obj_GetGradient E ob
                               (gbm_Predict E gb (fmat (S train)) (FindBufferOffset this S B train)
                                  (info (S train)))
                               (info (S train)) iter,
                    gbm := Obj (gbm_DoBoost E gb
                                  (obj_GetGradient E ob
                                     (gbm_Predict E gb (fmat (S train))
                                        (FindBufferOffset this S B train) (info (S train)))
                                     (info (S train)) iter)
                                  (fmat (S train)) (info (S train)))\<rparr>)"
  using assms by (simp add: UpdateOneIter_def PredictRaw_def thenE_def deref_def Let_def)

text \<open>
  C3. In \<open>UpdateOneIter\<close> of the legacy learner, let \<open>gr\<close> and \<open>he\<close> be the gradient and the
  hessian the objective returns, and \<open>K\<close> the booster's number of groups (the booster is
  given \<open>num_class\<close> as its \<open>num_booster_group\<close>).
  \<^item> When \<open>gr\<close> has as many entries as the matrix has rows, \<^verbatim>\<open>DoBoost\<close> is called once, for
    group 0, with all of \<open>gr\<close> and \<open>he\<close>.
  \<^item> When \<open>gr\<close> has \<open>rows * K\<close> entries (and the matrix has a row), \<^verbatim>\<open>DoBoost\<close> is called once
    for each group \<open>0, ..., K - 1\<close>, in that order, with the entries \<open>[g * rows, (g + 1) * rows)\<close>
    of \<open>gr\<close> and \<open>he\<close>, each time with the same feature data, root index and buffer offset of
    the matrix.
  After that comes the periodic clearing of the buffer.

  In \<open>UpdateOneIter\<close> of the current learner, \<^verbatim>\<open>DoBoost\<close> is called once, with all the gradient
  pairs the objective returns, however many they are: the learner does not split them.
\<close>
theorem UpdateOneIter_groups:
  "(PredictRaw_rr E this S L (preds_rr L) train (- 1) = Inr ps
      \<and> obj_rr L = Obj ob
      \<and> obj_GetGradient_rr E ob ps (info (S train)) (gbm_NumBoosters E (base_gbm L)) = (gr, he)
      \<and> length gr < 2 ^ 64 \<longrightarrow>
      (length gr = unat (num_row (S train)) \<longrightarrow>
         UpdateOneIter_rr E this S L iter train
           = clear_step E this S iter train
               (L\<lparr>preds_rr := ps, grad := gr, hess := he,
                  base_gbm := gbm_DoBoost_rr E (base_gbm L) gr he (fmat (S train))
                                (root_index E (info (S train))) 0
                                (snd (FindBufferOffset_rr this S L train))\<rparr>))
      \<and> (0 < unat (num_row (S train)) \<and> 0 \<le> sint (gbm_NumBoosterGroup E (base_gbm L))
         \<and> length gr = unat (num_row (S train)) * nat (sint (gbm_NumBoosterGroup E (base_gbm L)))
         \<and> length he = length gr \<longrightarrow>
         UpdateOneIter_rr E this S L iter train
           = clear_step E this S iter train
               (L\<lparr>preds_rr := ps, grad := gr, hess := he,
                  base_gbm := boost_groups E (base_gbm L) gr he (unat (num_row (S train)))
                                (fmat (S train)) (root_index E (info (S train)))
                                (snd (FindBufferOffset_rr this S L train))
                                [0..<nat (sint (gbm_NumBoosterGroup E (base_gbm L)))]\<rparr>)))
   \<and> (gbm B = Obj gb \<and> obj B = Obj ob' \<longrightarrow>
      UpdateOneIter E' this' S' B iter' train'
        = Inr (B\<lparr>preds := gbm_Predict E' gb (fmat (S' train')) (FindBufferOffset this' S' B train')
                            (info (S' train')),
                 gpair := obj_GetGradient E' ob'
                            (gbm_Predict E' gb (fmat (S' train')) (FindBufferOffset this' S' B train')
                               (info (S' train')))
                            (info (S' train')) iter',
                 gbm := Obj (gbm_DoBoost E' gb
                               (obj_GetGradient E' ob'
                                  (gbm_Predict E' gb (fmat (S' train'))
                                     (FindBufferOffset this' S' B train') (info (S' train')))
                                  (info (S' train')) iter')
                               (fmat (S' train')) (info (S' train')))\<rparr>))"
proof (intro conjI)
  show "PredictRaw_rr E this S L (preds_rr L) train (- 1) = Inr ps
      \<and> obj_rr L = Obj ob
      \<and> obj_GetGradient_rr E ob ps (info (S train)) (gbm_NumBoosters E (base_gbm L)) = (gr, he)
      \<and> length gr < 2 ^ 64 \<longrightarrow>
      (length gr = unat (num_row (S train)) \<longrightarrow>
         UpdateOneIter_rr E this S L iter train
           = clear_step E this S iter train
               (L\<lparr>preds_rr := ps, grad := gr, hess := he,
                  base_gbm := gbm_DoBoost_rr E (base_gbm L) gr he (fmat (S train))
                                (root_index E (info (S train))) 0
                                (snd (FindBufferOffset_rr this S L train))\<rparr>))
      \<and> (0 < unat (num_row (S train)) \<and> 0 \<le> sint (gbm_NumBoosterGroup E (base_gbm L))
         \<and> length gr = unat (num_row (S train)) * nat (sint (gbm_NumBoosterGroup E (base_gbm L)))
         \<and> length he = length gr \<longrightarrow>
         UpdateOneIter_rr E this S L iter train
           = clear_step E this S iter train
               (L\<lparr>preds_rr := ps, grad := gr, hess := he,
                  base_gbm := boost_groups E (base_gbm L) gr he (unat (num_row (S train)))
                                (fmat (S train)) (root_index E (info (S train)))
                                (snd (FindBufferOffset_rr this S L train))
                                [0..<nat (sint (gbm_NumBoosterGroup E (base_gbm L)))]\<rparr>))"
  proof
    assume a: "PredictRaw_rr E this S L (preds_rr L) train (- 1) = Inr ps
      \<and> obj_rr L = Obj ob
      \<and> obj_GetGradient_rr E ob ps (info (S train)) (gbm_NumBoosters E (base_gbm L)) = (gr, he)
      \<and> length gr < 2 ^ 64"
    show "(length gr = unat (num_row (S train)) \<longrightarrow>
         UpdateOneIter_rr E this S L iter train
           = clear_step E this S iter train
               (L\<lparr>preds_rr := ps, grad := gr, hess := he,
                  base_gbm := gbm_DoBoost_rr E (base_gbm L) gr he (fmat (S train))
                                (root_index E (info (S train))) 0
                                (snd (FindBufferOffset_rr this S L train))\<rparr>))
      \<and> (0 < unat (num_row (S train)) \<and> 0 \<le> sint (gbm_NumBoosterGroup E (base_gbm L))
         \<and> length gr = unat (num_row (S train)) * nat (sint (gbm_NumBoosterGroup E (base_gbm L)))
         \<and> length he = length gr \<longrightarrow>
         UpdateOneIter_rr E this S L iter train
           = clear_step E this S iter train
               (L\<lparr>preds_rr := ps, grad := gr, hess := he,
                  base_gbm := boost_groups E (base_gbm L) gr he (unat (num_row (S train)))
                                (fmat (S train)) (root_index E (info (S train)))
                                (snd (FindBufferOffset_rr this S L train))
                                [0..<nat (sint (gbm_NumBoosterGroup E (base_gbm L)))]\<rparr>))"
      using a by (intro UpdateOneIter_rr_groups) blast+
  qed
next
  show "gbm B = Obj gb \<and> obj B = Obj ob' \<longrightarrow>
      UpdateOneIter E' this' S' B iter' train'
        = Inr (B\<lparr>preds := gbm_Predict E' gb (fmat (S' train')) (FindBufferOffset this' S' B train')
                            (info (S' train')),
                 gpair := obj_GetGradient E' ob'
                            (gbm_Predict E' gb (fmat (S' train')) (FindBufferOffset this' S' B train')
                               (info (S' train')))
                            (info (S' train')) iter',
                 gbm := Obj (gbm_DoBoost E' gb
                               (obj_GetGradient E' ob'
                                  (gbm_Predict E' gb (fmat (S' train'))
                                     (FindBufferOffset this' S' B train') (info (S' train')))
                                  (info (S' train')) iter')
                               (fmat (S' train')) (info (S' train')))\<rparr>)"
    using UpdateOneIter_once [of B gb ob' E' this' S' iter' train'] by blast
qed


lemma rows_of_2: "rows_of 2 = [0, 1]"
  by (simp add: rows_of_def upt_rec)

lemma groups_of_2: "groups_of 2 = [0, 1]"
  by (simp add: groups_of_def upt_rec)

lemma groups_of_1: "groups_of 1 = [0]"
  by (simp add: groups_of_def)

lemma upt_2: "[0..<2] = [0, 1]"
  by (simp add: upt_rec)

lemma PredictRaw_log:
  "PredictRaw_rr log_env_rr 7 two_row_store (RegRankBoostLearner_init [] 0\<lparr>obj_rr := Obj ()\<rparr>) [] 10 (- 1)
     = Inr [0, 1, 10, 11]"
  by (simp add: PredictRaw_rr_def FindBufferOffset_rr_def RegRankBoostLearner_init_def
      ModelParam_init_rr_def log_env_rr_def two_row_store_def groups_of_2 rows_of_2 resize_def
      write_at_def thenE_def PredictBuffer_def Let_def)

lemma PredictRaw_toy:
  "PredictRaw_rr toy_env_rr 7 two_row_store (RegRankBoostLearner_init 5 0\<lparr>obj_rr := Obj ()\<rparr>) [] 10 (- 1)
     = Inr [5, 5]"
  by (simp add: PredictRaw_rr_def FindBufferOffset_rr_def RegRankBoostLearner_init_def
      ModelParam_init_rr_def toy_env_rr_def two_row_store_def groups_of_1 rows_of_2 resize_def
      write_at_def thenE_def PredictBuffer_def Let_def)

text \<open>
  Legacy learner. Two rows and two groups: the four gradients are boosted as \<open>[0, 1]\<close> for
  group 0 and then \<open>[10, 11]\<close> for group 1. Two rows and one group: one call, for group 0.
  Current learner, two rows: one call.
\<close>
theorem UpdateOneIter_groups_witness:
  "UpdateOneIter_rr log_env_rr 7 two_row_store (RegRankBoostLearner_init [] 0\<lparr>obj_rr := Obj ()\<rparr>) 0 10
     = Inr (RegRankBoostLearner_init [] 0
             \<lparr>obj_rr := Obj (), preds_rr := [0, 1, 10, 11], grad := [0, 1, 10, 11],
              hess := [1, 2, 11, 12],
              base_gbm := [([0, 1], [1, 2], 0), ([10, 11], [11, 12], 1)]\<rparr>)
   \<and> UpdateOneIter_rr toy_env_rr 7 two_row_store (RegRankBoostLearner_init 5 0\<lparr>obj_rr := Obj ()\<rparr>) 0 10
     = Inr (RegRankBoostLearner_init 5 0
             \<lparr>obj_rr := Obj (), preds_rr := [5, 5], grad := [5, 5], hess := [5, 5], base_gbm := 6\<rparr>)
   \<and> UpdateOneIter toy_env 7 two_row_store (BoostLearner_init 0 0\<lparr>obj := Obj (), gbm := Obj 5\<rparr>) 0 10
     = Inr (BoostLearner_init 0 0\<lparr>obj := Obj (), preds := [5, 5], gpair := [5, 5], gbm := Obj 6\<rparr>)"
proof -
  let ?L = "RegRankBoostLearner_init [] 0\<lparr>obj_rr := Obj ()\<rparr>
              :: ((32 word list \<times> 32 word list \<times> cint) list, unit, 32 word) RegRankBoostLearner"
  let ?T = "RegRankBoostLearner_init 5 0\<lparr>obj_rr := Obj ()\<rparr> :: (byte, unit, 32 word) RegRankBoostLearner"
  have p: "PredictRaw_rr log_env_rr 7 two_row_store ?L (preds_rr ?L) 10 (- 1) = Inr [0, 1, 10, 11]"
    using PredictRaw_log by (simp add: RegRankBoostLearner_init_def)
  have o: "obj_rr ?L = Obj ()"
    by simp
  have g: "obj_GetGradient_rr log_env_rr () [0, 1, 10, 11] (info (two_row_store 10))
             (gbm_NumBoosters log_env_rr (base_gbm ?L)) = ([0, 1, 10, 11], [1, 2, 11, 12])"
    by (simp add: log_env_rr_def)
  have l: "length [0, 1, 10, 11 :: 32 word] < 2 ^ 64"
    by simp
  have h: "0 < unat (num_row (two_row_store 10)) \<and> 0 \<le> sint (gbm_NumBoosterGroup log_env_rr (base_gbm ?L))
        \<and> length [0, 1, 10, 11 :: 32 word]
            = unat (num_row (two_row_store 10)) * nat (sint (gbm_NumBoosterGroup log_env_rr (base_gbm ?L)))
        \<and> length [1, 2, 11, 12 :: 32 word] = length [0, 1, 10, 11 :: 32 word]"
    by (simp add: two_row_store_def log_env_rr_def)
  have 1: "UpdateOneIter_rr log_env_rr 7 two_row_store ?L 0 10
     = Inr (RegRankBoostLearner_init [] 0
             \<lparr>obj_rr := Obj (), preds_rr := [0, 1, 10, 11], grad := [0, 1, 10, 11],
              hess := [1, 2, 11, 12],
              base_gbm := [([0, 1], [1, 2], 0), ([10, 11], [11, 12], 1)]\<rparr>)"
    using UpdateOneIter_groups [where iter = 0, THEN conjunct1, THEN mp,
        OF conjI [OF p conjI [OF o conjI [OF g l]]], THEN conjunct2] h
    by (simp add: clear_step_def boost_groups_def group_slice_def two_row_store_def log_env_rr_def
        upt_2 FindBufferOffset_rr_def RegRankBoostLearner_init_def ModelParam_init_rr_def)
  have p': "PredictRaw_rr toy_env_rr 7 two_row_store ?T (preds_rr ?T) 10 (- 1) = Inr [5, 5]"
    using PredictRaw_toy by (simp add: RegRankBoostLearner_init_def)
  have o': "obj_rr ?T = Obj ()"
    by simp
  have g': "obj_GetGradient_rr toy_env_rr () [5, 5] (info (two_row_store 10))
             (gbm_NumBoosters toy_env_rr (base_gbm ?T)) = ([5, 5], [5, 5])"
    by (simp add: toy_env_rr_def)
  have l': "length [5, 5 :: 32 word] < 2 ^ 64"
    by simp
  have h': "length [5, 5 :: 32 word] = unat (num_row (two_row_store 10))"
    by (simp add: two_row_store_def)
  have 2: "UpdateOneIter_rr toy_env_rr 7 two_row_store ?T 0 10
     = Inr (RegRankBoostLearner_init 5 0
             \<lparr>obj_rr := Obj (), preds_rr := [5, 5], grad := [5, 5], hess := [5, 5], base_gbm := 6\<rparr>)"
    using UpdateOneIter_groups [where iter = 0, THEN conjunct1, THEN mp,
        OF conjI [OF p' conjI [OF o' conjI [OF g' l']]], THEN conjunct1] h'
    by (simp add: clear_step_def two_row_store_def toy_env_rr_def
        FindBufferOffset_rr_def RegRankBoostLearner_init_def ModelParam_init_rr_def)
  let ?B = "BoostLearner_init 0 0\<lparr>obj := Obj (), gbm := Obj 5\<rparr>
              :: (byte, unit, 32 word, 32 word) BoostLearner"
  have r: "replicate 2 (5 :: 32 word) = [5, 5]"
    by (simp add: eval_nat_numeral)
  have 3: "UpdateOneIter toy_env 7 two_row_store ?B 0 10
     = Inr (BoostLearner_init 0 0\<lparr>obj := Obj (), preds := [5, 5], gpair := [5, 5], gbm := Obj 6\<rparr>)"
    using UpdateOneIter_groups [where B = ?B and gb = 5 and ob' = "()" and E' = toy_env
          and this' = 7 and S' = two_row_store and iter' = 0 and train' = 10,
        THEN conjunct2, THEN mp]
    by (simp add: toy_env_def two_row_store_def BoostLearner_init_def r)
  show ?thesis
    using 1 2 3 by blast
qed

text \<open>
  The current learner does not split: with two rows and two classes, the four gradient
  pairs go to the booster in one call, not as \<open>[0, 1]\<close> and then \<open>[10, 11]\<close>.
\<close>
theorem UpdateOneIter_groups_counterexample:
  "num_class (mparam two_class_learner) = 2 \<and> num_row (two_row_store 10) = 2
   \<and> UpdateOneIter log_env 7 two_row_store two_class_learner 0 10
       = Inr (two_class_learner\<lparr>preds := [0, 1, 10, 11], gpair := [0, 1, 10, 11],
                                gbm := Obj [([0, 1, 10, 11], 2)]\<rparr>)
   \<and> UpdateOneIter log_env 7 two_row_store two_class_learner 0 10
       \<noteq> Inr (two_class_learner\<lparr>preds := [0, 1, 10, 11], gpair := [0, 1, 10, 11],
                                gbm := Obj [([0, 1], 2), ([10, 11], 2)]\<rparr>)"
  by (simp add: UpdateOneIter_def PredictRaw_def thenE_def deref_def Let_def log_env_def
      two_class_learner_def two_row_store_def BoostLearner_init_def)

section \<open>Ad hoc evaluation\<close>

lemma Evaluate_rr_unknown:
  assumes "obj_rr R = Obj ob"
    and "EvalSet_Create E (metric_used (obj_DefaultEvalMetric_rr E ob) metric) = None"
  shows "Evaluate_rr E this S R data metric = Inr ([], fzero E)"
  using assms
  by (cases "metric = ''auto''") (simp_all add: Evaluate_rr_def metric_used_def thenE_def deref_def)

lemma Evaluate_rr_known:
  assumes "obj_rr R = Obj ob"
    and "EvalSet_Create E (metric_used (obj_DefaultEvalMetric_rr E ob) metric) = Some eval"
    and "Predict_rr E this S R [] data (- 1) = Inr ps"
  shows "Evaluate_rr E this S R data metric
           = Inr (metric_used (obj_DefaultEvalMetric_rr E ob) metric, eval ps (info (S data)))"
  using assms
  by (cases "metric = ''auto''") (simp_all add: Evaluate_rr_def metric_used_def thenE_def deref_def)

lemma Evaluate_known:
  assumes "obj L = Obj ob" and "gbm L = Obj gb"
    and "CreateEvaluator E (metric_used (obj_DefaultEvalMetric E ob) metric) = Some eval"
  shows "Evaluate E this S L data metric
           = Inr ((metric_used (obj_DefaultEvalMetric E ob) metric,
                   eval (obj_EvalTransform E ob
                           (gbm_Predict E gb (fmat (S data)) (FindBufferOffset this S L data) (info (S data))))
                     (info (S data))),
                  L\<lparr>preds := obj_EvalTransform E ob
                     (gbm_Predict E gb (fmat (S data)) (FindBufferOffset this S L data) (info (S data)))\<rparr>)"
  using assms
  by (cases "metric = ''auto''")
     (simp_all add: Evaluate_def metric_used_def thenE_def deref_def PredictRaw_def Let_def)

lemma Evaluate_unknown:
  assumes "obj L = Obj ob" and "gbm L = Obj gb"
    and "CreateEvaluator E (metric_used (obj_DefaultEvalMetric E ob) metric) = None"
  shows "Evaluate E this S L data metric = Inl NullPointer"
  using assms
  by (cases "metric = ''auto''")
     (simp_all add: Evaluate_def metric_used_def thenE_def deref_def PredictRaw_def Let_def)

text \<open>
  C8, as amended. Both learners replace the metric "auto" by the objective's default
  metric. In the legacy learner, a metric that \<^verbatim>\<open>EvalSet::Create\<close> does not know gives the pair
  of the empty name and \<^verbatim>\<open>0.0f\<close>, without a failure, and a metric it knows gives the metric's
  name with the score of the predictions. In the current learner a metric that
  \<^verbatim>\<open>CreateEvaluator\<close> knows gives the metric's name with the score of the predictions, but
  there is no fallback: without an evaluator of that name the call fails.
\<close>
theorem Evaluate_metric:
  "(obj_rr R = Obj ob_rr
      \<and> EvalSet_Create E_rr (metric_used (obj_DefaultEvalMetric_rr E_rr ob_rr) metric) = None \<longrightarrow>
      Evaluate_rr E_rr this S R data metric = Inr ([], fzero E_rr))
   \<and> (obj_rr R = Obj ob_rr
      \<and> EvalSet_Create E_rr (metric_used (obj_DefaultEvalMetric_rr E_rr ob_rr) metric) = Some eval_rr
      \<and> Predict_rr E_rr this S R [] data (- 1) = Inr ps \<longrightarrow>
      Evaluate_rr E_rr this S R data metric
        = Inr (metric_used (obj_DefaultEvalMetric_rr E_rr ob_rr) metric, eval_rr ps (info (S data))))
   \<and> (obj L = Obj ob \<and> gbm L = Obj gb
      \<and> CreateEvaluator E (metric_used (obj_DefaultEvalMetric E ob) metric) = Some eval \<longrightarrow>
      (\<exists>L'. Evaluate E this S L data metric
         = Inr ((metric_used (obj_DefaultEvalMetric E ob) metric,
                 eval (obj_EvalTransform E ob
                         (gbm_Predict E gb (fmat (S data)) (FindBufferOffset this S L data) (info (S data))))
                   (info (S data))), L')))
   \<and> (obj L = Obj ob \<and> gbm L = Obj gb
      \<and> CreateEvaluator E (metric_used (obj_DefaultEvalMetric E ob) metric) = None \<longrightarrow>
      Evaluate E this S L data metric = Inl NullPointer)"
  using Evaluate_rr_unknown [of R ob_rr E_rr metric this S data]
    Evaluate_rr_known [of R ob_rr E_rr metric eval_rr this S data ps]
    Evaluate_known [of L ob gb E metric eval this S data]
    Evaluate_unknown [of L ob gb E metric this S data]
  by blast

lemma Predict_toy:
  "Predict_rr toy_env_rr 7 two_row_store (RegRankBoostLearner_init 5 0\<lparr>obj_rr := Obj ()\<rparr>) [] 10 (- 1)
     = Inr [5, 5]"
proof -
  have t: "obj_PredTransform_rr toy_env_rr () [5, 5] = [5, 5]"
    by (simp add: toy_env_rr_def)
  show ?thesis
    by (simp add: Predict_rr_def PredictRaw_toy thenE_def deref_def t)
qed

text \<open>
  The legacy learner on an unknown metric and on "auto"; the current learner on "auto".
\<close>
theorem Evaluate_metric_witness:
  "Evaluate_rr toy_env_rr 7 two_row_store (RegRankBoostLearner_init 5 0\<lparr>obj_rr := Obj ()\<rparr>) 10 ''bogus''
     = Inr ([], 0)
   \<and> Evaluate_rr toy_env_rr 7 two_row_store (RegRankBoostLearner_init 5 0\<lparr>obj_rr := Obj ()\<rparr>) 10 ''auto''
     = Inr (''rmse'', 10)
   \<and> (\<exists>L'. Evaluate toy_env 7 two_row_store (BoostLearner_init 0 0\<lparr>obj := Obj (), gbm := Obj 5\<rparr>) 10 ''auto''
     = Inr ((''rmse'', 10), L'))"
proof -
  let ?R = "RegRankBoostLearner_init 5 0\<lparr>obj_rr := Obj ()\<rparr> :: (byte, unit, 32 word) RegRankBoostLearner"
  let ?L = "BoostLearner_init 0 0\<lparr>obj := Obj (), gbm := Obj 5\<rparr> :: (byte, unit, 32 word, 32 word) BoostLearner"
  have o: "obj_rr ?R = Obj ()" "obj ?L = Obj ()" "gbm ?L = Obj 5"
    by simp_all
  have m1: "metric_used (obj_DefaultEvalMetric_rr toy_env_rr ()) ''bogus'' = ''bogus''"
    and m2: "metric_used (obj_DefaultEvalMetric_rr toy_env_rr ()) ''auto'' = ''rmse''"
    and m3: "metric_used (obj_DefaultEvalMetric toy_env ()) ''auto'' = ''rmse''"
    by (simp_all add: metric_used_def toy_env_rr_def toy_env_def)
  have c1: "EvalSet_Create toy_env_rr ''bogus'' = None"
    and c2: "EvalSet_Create toy_env_rr ''rmse'' = Some (\<lambda>ps i. sum_list ps)"
    and c3: "CreateEvaluator toy_env ''rmse'' = Some (\<lambda>ps i. sum_list ps)"
    by (simp_all add: toy_env_rr_def toy_env_def)
  have 1: "Evaluate_rr toy_env_rr 7 two_row_store ?R 10 ''bogus'' = Inr ([], 0)"
    using Evaluate_metric [of ?R "()" toy_env_rr "''bogus''" 7 two_row_store 10 "\<lambda>ps i. sum_list ps"
        "[5, 5]" ?L "()" 5 toy_env "\<lambda>ps i. sum_list ps"] o m1 c1
    by (simp add: toy_env_rr_def)
  have 2: "Evaluate_rr toy_env_rr 7 two_row_store ?R 10 ''auto'' = Inr (''rmse'', 10)"
    using Evaluate_metric [of ?R "()" toy_env_rr "''auto''" 7 two_row_store 10 "\<lambda>ps i. sum_list ps"
        "[5, 5]" ?L "()" 5 toy_env "\<lambda>ps i. sum_list ps"] o m2 c2 Predict_toy
    by simp
  have r2: "replicate 2 (5 :: 32 word) = [5, 5]"
    by (simp add: eval_nat_numeral)
  have c3': "CreateEvaluator toy_env (metric_used (obj_DefaultEvalMetric toy_env ()) ''auto'')
               = Some (\<lambda>ps i. sum_list ps)"
    by (simp add: m3 c3)
  obtain L' where e: "Evaluate toy_env 7 two_row_store ?L 10 ''auto''
      = Inr ((metric_used (obj_DefaultEvalMetric toy_env ()) ''auto'',
              sum_list (obj_EvalTransform toy_env ()
                 (gbm_Predict toy_env 5 (fmat (two_row_store 10)) (FindBufferOffset 7 two_row_store ?L 10)
                    (info (two_row_store 10))))), L')"
    using Evaluate_metric [of ?R "()" toy_env_rr "''auto''" 7 two_row_store 10 "\<lambda>ps i. sum_list ps"
        "[5, 5]" ?L "()" 5 toy_env "\<lambda>ps i. sum_list ps"] o c3'
    by blast
  have v: "sum_list (obj_EvalTransform toy_env ()
                 (gbm_Predict toy_env 5 (fmat (two_row_store 10)) (FindBufferOffset 7 two_row_store ?L 10)
                    (info (two_row_store 10)))) = 10"
    by (simp add: toy_env_def two_row_store_def r2)
  have 3: "\<exists>L'. Evaluate toy_env 7 two_row_store ?L 10 ''auto'' = Inr ((''rmse'', 10), L')"
    using e unfolding m3 v by blast
  show ?thesis
    using 1 2 3 by blast
qed

text \<open>
  The claim's fallback is not there in the current learner: on a metric the factory does
  not know, \<open>Evaluate\<close> fails and returns no pair.
\<close>
theorem Evaluate_metric_counterexample:
  "CreateEvaluator toy_env ''bogus'' = None
   \<and> Evaluate toy_env 7 two_row_store (BoostLearner_init 0 0\<lparr>obj := Obj (), gbm := Obj 5\<rparr>) 10 ''bogus''
       = Inl NullPointer
   \<and> (\<forall>L'. Evaluate toy_env 7 two_row_store (BoostLearner_init 0 0\<lparr>obj := Obj (), gbm := Obj 5\<rparr>) 10 ''bogus''
       \<noteq> Inr (([], 0), L'))"
  by (simp add: Evaluate_def toy_env_def thenE_def deref_def PredictRaw_def BoostLearner_init_def)

section \<open>The binary layout\<close>

lemma length_le_bytes: "length (le_bytes k v) = k"
  by (induction k arbitrary: v) auto

lemma le_nat_le_bytes: "le_nat (le_bytes k v) = v mod 256 ^ k"
proof (induction k arbitrary: v)
  case 0
  then show ?case by simp
next
  case (Suc k)
  have "unat (of_nat v :: byte) = v mod 256"
    by (simp add: unat_of_nat)
  then show ?case
    using Suc.IH [of "v div 256"] by (simp add: mod_mult2_eq)
qed

lemma le_nat_bound: "le_nat bs < 256 ^ length bs"
proof (induction bs)
  case Nil
  then show ?case by simp
next
  case (Cons b bs)
  have "unat b < 256" using unsigned_less [of b, where ?'a = nat] by simp
  moreover have "le_nat bs + 1 \<le> 256 ^ length bs" using Cons.IH by simp
  then have "256 * (le_nat bs + 1) \<le> 256 * 256 ^ length bs" by (rule mult_le_mono2)
  ultimately show ?case by simp
qed

lemma le_bytes_le_nat: "le_bytes (length bs) (le_nat bs) = bs"
proof (induction bs)
  case Nil
  then show ?case by simp
next
  case (Cons b bs)
  have b: "unat b < 256" using unsigned_less [of b, where ?'a = nat] by simp
  have "(of_nat (unat b + 256 * le_nat bs) :: byte) = of_nat (unat b)"
    unfolding word_of_nat_eq_iff by (simp add: take_bit_eq_mod)
  then have "(of_nat (unat b + 256 * le_nat bs) :: byte) = b"
    by simp
  moreover have "(unat b + 256 * le_nat bs) div 256 = le_nat bs"
    using b by simp
  ultimately show ?case using Cons.IH by simp
qed

lemma le_bytes_mod: "le_bytes k (v mod 256 ^ k) = le_bytes k v"
proof (induction k arbitrary: v)
  case 0
  then show ?case by simp
next
  case (Suc k)
  have a: "(of_nat (v mod (256 * 256 ^ k)) :: byte) = of_nat v"
    apply (simp add: word_of_nat_eq_iff take_bit_eq_mod)
    by (metis mod_mult_self2_is_0 mod_mod_cancel dvd_triv_left)
  have b: "v mod (256 * 256 ^ k) div 256 = (v div 256) mod 256 ^ k"
    by (simp add: div_mult2_eq mod_mult2_eq)
  show ?case using Suc.IH [of "v div 256"] by (simp add: a b)
qed

lemma bytes_word_word_bytes32: "bytes_word (word_bytes (w :: 32 word)) = w"
proof -
  have "unat w < 2 ^ 32" using unsigned_less [of w, where ?'a = nat] by simp
  then show ?thesis
    by (simp add: bytes_word_def word_bytes_def le_nat_le_bytes)
qed

lemma bytes_word_word_bytes64: "bytes_word (word_bytes (w :: 64 word)) = w"
proof -
  have "unat w < 2 ^ 64" using unsigned_less [of w, where ?'a = nat] by simp
  then show ?thesis
    by (simp add: bytes_word_def word_bytes_def le_nat_le_bytes)
qed

lemma word_bytes_bytes_word32: "length bs = 4 \<Longrightarrow> word_bytes (bytes_word bs :: 32 word) = bs"
proof -
  assume l: "length bs = 4"
  have "word_bytes (bytes_word bs :: 32 word) = le_bytes 4 (le_nat bs mod 256 ^ 4)"
    by (simp add: bytes_word_def word_bytes_def unat_of_nat)
  also have "\<dots> = le_bytes 4 (le_nat bs)" by (rule le_bytes_mod)
  also have "\<dots> = bs" using le_bytes_le_nat [of bs] l by simp
  finally show ?thesis .
qed

lemma length_word_bytes32: "length (word_bytes (w :: 32 word)) = 4"
  by (simp add: word_bytes_def length_le_bytes)

lemma length_word_bytes64: "length (word_bytes (w :: 64 word)) = 8"
  by (simp add: word_bytes_def length_le_bytes)

lemma char_of_byte_byte_of_char: "char_of_byte (byte_of_char c) = c"
  by (simp add: char_of_byte_def byte_of_char_def unat_of_nat)

lemma map_char_of_byte: "map (char_of_byte \<circ> byte_of_char) s = s"
  by (induction s) (simp_all add: char_of_byte_byte_of_char)

lemma Read_string_Write_string:
  assumes "length s < 2 ^ 64"
  shows "Read_string (Write_string s @ rest) = Some (s, rest)"
proof -
  have r: "stream_Read 8 (Write_string s @ rest)
             = Some (word_bytes (of_nat (length s) :: 64 word), map byte_of_char s @ rest)"
    by (simp add: stream_Read_def Write_string_def length_word_bytes64)
  have n: "unat (of_nat (length s) :: 64 word) = length s"
    using assms by (simp add: unat_of_nat)
  have t: "stream_Read (length s) (map byte_of_char s @ rest) = Some (map byte_of_char s, rest)"
    by (simp add: stream_Read_def)
  show ?thesis
    by (simp add: Read_string_def r bytes_word_word_bytes64 n t map_char_of_byte)
qed


lemma chunks_concat:
  "concat (map (\<lambda>k. take 4 (drop (off + 4 * k) bs)) [0..<m]) = take (4 * m) (drop off bs)"
proof (induction m)
  case 0
  then show ?case by simp
next
  case (Suc m)
  have "take (4 * m + 4) (drop off bs) = take (4 * m) (drop off bs) @ take 4 (drop (4 * m) (drop off bs))"
    by (rule take_add)
  then show ?case
    using Suc.IH by (simp add: add.commute)
qed

lemma word_bytes_chunks:
  assumes "off + 4 * m \<le> length bs"
  shows "concat (map (word_bytes :: 32 word \<Rightarrow> byte list)
           (map (\<lambda>k. bytes_word (take 4 (drop (off + 4 * k) bs))) [0..<m]))
         = take (4 * m) (drop off bs)"
proof -
  have "\<And>k. k \<in> set [0..<m] \<Longrightarrow>
          word_bytes (bytes_word (take 4 (drop (off + 4 * k) bs)) :: 32 word)
            = take 4 (drop (off + 4 * k) bs)"
  proof -
    fix k assume "k \<in> set [0..<m]"
    then have "off + 4 * k + 4 \<le> length bs"
      using assms by simp
    then have "length (take 4 (drop (off + 4 * k) bs)) = 4"
      by simp
    then show "word_bytes (bytes_word (take 4 (drop (off + 4 * k) bs)) :: 32 word)
                 = take 4 (drop (off + 4 * k) bs)"
      by (rule word_bytes_bytes_word32)
  qed
  then have "map (word_bytes :: 32 word \<Rightarrow> byte list)
               (map (\<lambda>k. bytes_word (take 4 (drop (off + 4 * k) bs))) [0..<m])
             = map (\<lambda>k. take 4 (drop (off + 4 * k) bs)) [0..<m]"
    by simp
  then show ?thesis
    by (simp only: chunks_concat)
qed

lemma field_bytes:
  assumes "off + 4 \<le> length bs"
  shows "word_bytes (bytes_word (take 4 (drop off bs)) :: 32 word) = take 4 (drop off bs)"
proof -
  have "length (take 4 (drop off bs)) = 4"
    using assms by simp
  then show ?thesis
    by (rule word_bytes_bytes_word32)
qed

lemma ModelParam_bytes_of_bytes:
  assumes "length bs = sizeof_ModelParam"
  shows "ModelParam_bytes (ModelParam_of_bytes bs) = bs"
proof -
  have l: "length bs = 140"
    using assms by (simp add: sizeof_ModelParam_def)
  have f0: "word_bytes (bytes_word (take 4 bs) :: 32 word) = take 4 bs"
    using field_bytes [of 0 bs] l by simp
  have f1: "word_bytes (bytes_word (take 4 (drop 4 bs)) :: 32 word) = take 4 (drop 4 bs)"
    using field_bytes [of 4 bs] l by simp
  have f2: "word_bytes (bytes_word (take 4 (drop 8 bs)) :: 32 word) = take 4 (drop 8 bs)"
    using field_bytes [of 8 bs] l by simp
  have r: "concat (map (word_bytes :: 32 word \<Rightarrow> byte list)
             (map (\<lambda>k. bytes_word (take 4 (drop (12 + 4 * k) bs))) [0..<32]))
           = take 128 (drop 12 bs)"
    using word_bytes_chunks [of 12 32 bs] l by simp
  have "ModelParam_bytes (ModelParam_of_bytes bs)
          = take 4 bs @ take 4 (drop 4 bs) @ take 4 (drop 8 bs) @ take 128 (drop 12 bs)"
    unfolding ModelParam_bytes_def ModelParam_of_bytes_def by (simp only: ModelParam.simps f0 f1 f2 r)
  also have "\<dots> = take 4 bs @ take 4 (drop 4 bs) @ take 132 (drop 8 bs)"
    using take_add [of 4 128 "drop 8 bs"] by simp
  also have "\<dots> = take 4 bs @ take 136 (drop 4 bs)"
    using take_add [of 4 132 "drop 4 bs"] by simp
  also have "\<dots> = take 140 bs"
    using take_add [of 4 136 bs] by simp
  also have "\<dots> = bs"
    using l by simp
  finally show ?thesis .
qed

lemma ModelParam_bytes_of_bytes_rr:
  assumes "length bs = sizeof_ModelParam_rr"
  shows "ModelParam_bytes_rr (ModelParam_of_bytes_rr bs) = bs"
proof -
  have l: "length bs = 76"
    using assms by (simp add: sizeof_ModelParam_rr_def)
  have f0: "word_bytes (bytes_word (take 4 bs) :: 32 word) = take 4 bs"
    using field_bytes [of 0 bs] l by simp
  have f1: "word_bytes (bytes_word (take 4 (drop 4 bs)) :: 32 word) = take 4 (drop 4 bs)"
    using field_bytes [of 4 bs] l by simp
  have f2: "word_bytes (bytes_word (take 4 (drop 8 bs)) :: 32 word) = take 4 (drop 8 bs)"
    using field_bytes [of 8 bs] l by simp
  have f3: "word_bytes (bytes_word (take 4 (drop 12 bs)) :: 32 word) = take 4 (drop 12 bs)"
    using field_bytes [of 12 bs] l by simp
  have f4: "word_bytes (bytes_word (take 4 (drop 16 bs)) :: 32 word) = take 4 (drop 16 bs)"
    using field_bytes [of 16 bs] l by simp
  have r: "concat (map (word_bytes :: 32 word \<Rightarrow> byte list)
             (map (\<lambda>k. bytes_word (take 4 (drop (20 + 4 * k) bs))) [0..<14]))
           = take 56 (drop 20 bs)"
    using word_bytes_chunks [of 20 14 bs] l by simp
  have "ModelParam_bytes_rr (ModelParam_of_bytes_rr bs)
          = take 4 bs @ take 4 (drop 4 bs) @ take 4 (drop 8 bs) @ take 4 (drop 12 bs)
              @ take 4 (drop 16 bs) @ take 56 (drop 20 bs)"
    unfolding ModelParam_bytes_rr_def ModelParam_of_bytes_rr_def
    by (simp only: ModelParam_rr.simps f0 f1 f2 f3 f4 r)
  also have "\<dots> = take 4 bs @ take 4 (drop 4 bs) @ take 4 (drop 8 bs) @ take 4 (drop 12 bs)
              @ take 60 (drop 16 bs)"
    using take_add [of 4 56 "drop 16 bs"] by simp
  also have "\<dots> = take 4 bs @ take 4 (drop 4 bs) @ take 4 (drop 8 bs) @ take 64 (drop 12 bs)"
    using take_add [of 4 60 "drop 12 bs"] by simp
  also have "\<dots> = take 4 bs @ take 4 (drop 4 bs) @ take 68 (drop 8 bs)"
    using take_add [of 4 64 "drop 8 bs"] by simp
  also have "\<dots> = take 4 bs @ take 72 (drop 4 bs)"
    using take_add [of 4 68 "drop 4 bs"] by simp
  also have "\<dots> = take 76 bs"
    using take_add [of 4 72 bs] by simp
  also have "\<dots> = bs"
    using l by simp
  finally show ?thesis .
qed

lemma length_concat_word_bytes:
  "length (concat (map (word_bytes :: 32 word \<Rightarrow> byte list) ws)) = 4 * length ws"
  by (induction ws) (simp_all add: length_word_bytes32)

lemma length_ModelParam_bytes:
  "length (reserved p) = 32 \<Longrightarrow> length (ModelParam_bytes p) = sizeof_ModelParam"
  by (simp add: ModelParam_bytes_def sizeof_ModelParam_def length_word_bytes32 length_concat_word_bytes)

lemma length_ModelParam_bytes_rr:
  "length (reserved_rr p) = 14 \<Longrightarrow> length (ModelParam_bytes_rr p) = sizeof_ModelParam_rr"
  by (simp add: ModelParam_bytes_rr_def sizeof_ModelParam_rr_def length_word_bytes32
      length_concat_word_bytes)

lemma base_score_of_bytes_rr:
  "base_score_rr (ModelParam_of_bytes_rr (ModelParam_bytes_rr p)) = base_score_rr p"
  by (simp add: ModelParam_of_bytes_rr_def ModelParam_bytes_rr_def length_word_bytes32
      bytes_word_word_bytes32)

section \<open>Saving and loading a model\<close>

lemma stream_Read_append:
  "length bs = n \<Longrightarrow> stream_Read n (bs @ rest) = Some (bs, rest)"
  by (simp add: stream_Read_def)

lemma InitObjGBM_fresh:
  assumes "obj L = NULL" and "gbm L = NULL"
    and "CreateObjFunction E (name_obj L) = Some o0"
    and "CreateGradBooster E (name_gbm L) = Some g0"
  shows "InitObjGBM E L
           = Inr (L\<lparr>obj := Obj (foldl (\<lambda>ob (k, v). obj_SetParam E ob k v) o0 (cfg L)),
                    gbm := Obj (foldl (\<lambda>gb (k, v). gbm_SetParam E gb k v) g0 (cfg L)),
                    evaluator := evaluator L
                      @ [obj_DefaultEvalMetric E (foldl (\<lambda>ob (k, v). obj_SetParam E ob k v) o0 (cfg L))]\<rparr>)"
  using assms by (simp add: InitObjGBM_def thenE_def Assert_def Let_def)

lemma InitObjGBM_keeps:
  assumes "InitObjGBM E L = Inr L2"
  shows "mparam L2 = mparam L \<and> cache L2 = cache L \<and> name_obj L2 = name_obj L
           \<and> name_gbm L2 = name_gbm L"
  using assms
  by (auto simp: InitObjGBM_def thenE_def Assert_def Let_def split: if_splits option.splits)

lemma SaveModel_bytes:
  "gbm L = Obj g \<Longrightarrow>
     SaveModel E L fo
       = Inr (fo @ ModelParam_bytes (mparam L) @ Write_string (name_obj L) @ Write_string (name_gbm L)
                @ gbm_SaveModel E g)"
  by (simp add: SaveModel_def thenE_def deref_def)

text \<open>What \<open>LoadModel\<close> does with a stream that \<open>SaveModel\<close> wrote, on a fresh learner.\<close>
lemma LoadModel_SaveModel:
  assumes "obj L0 = NULL" and "gbm L0 = NULL"
    and "CreateObjFunction E (name_obj L) = Some o0"
    and "CreateGradBooster E (name_gbm L) = Some g0"
    and "length (name_obj L) < 2 ^ 64" and "length (name_gbm L) < 2 ^ 64"
    and "length (reserved (mparam L)) = 32"
    and "gbm_LoadModel E (foldl (\<lambda>gb (k, v). gbm_SetParam E gb k v) g0 (cfg L0)) (sg @ rest)
           = Some (g', rest)"
  shows "\<exists>L'. LoadModel E L0
                 (ModelParam_bytes (mparam L) @ Write_string (name_obj L) @ Write_string (name_gbm L)
                    @ sg @ rest) = Inr (L', rest)
           \<and> gbm L' = Obj g' \<and> cache L' = cache L0"
proof -
  let ?L1 = "L0\<lparr>mparam := ModelParam_of_bytes (ModelParam_bytes (mparam L)), name_obj := name_obj L,
                 name_gbm := name_gbm L, obj := delete_if_set (obj L0), gbm := delete_if_set (gbm L0)\<rparr>"
  have r1: "stream_Read sizeof_ModelParam
              (ModelParam_bytes (mparam L) @ Write_string (name_obj L) @ Write_string (name_gbm L)
                 @ sg @ rest)
            = Some (ModelParam_bytes (mparam L),
                    Write_string (name_obj L) @ Write_string (name_gbm L) @ sg @ rest)"
    using assms(7) by (intro stream_Read_append length_ModelParam_bytes)
  have r2: "Read_string (Write_string (name_obj L) @ Write_string (name_gbm L) @ sg @ rest)
            = Some (name_obj L, Write_string (name_gbm L) @ sg @ rest)"
    using assms(5) by (rule Read_string_Write_string)
  have r3: "Read_string (Write_string (name_gbm L) @ sg @ rest) = Some (name_gbm L, sg @ rest)"
    using assms(6) by (rule Read_string_Write_string)
  have i: "InitObjGBM E ?L1
           = Inr (?L1\<lparr>obj := Obj (foldl (\<lambda>ob (k, v). obj_SetParam E ob k v) o0 (cfg ?L1)),
                    gbm := Obj (foldl (\<lambda>gb (k, v). gbm_SetParam E gb k v) g0 (cfg ?L1)),
                    evaluator := evaluator ?L1
                      @ [obj_DefaultEvalMetric E (foldl (\<lambda>ob (k, v). obj_SetParam E ob k v) o0 (cfg ?L1))]\<rparr>)"
    using assms(1-4) by (intro InitObjGBM_fresh) (simp_all add: delete_if_set_def)
  show ?thesis
    using assms(8)
    by (simp add: LoadModel_def r1 r2 r3 i thenE_def deref_def Let_def)
qed

lemma LoadModel_mparam:
  assumes "LoadModel E L fi = Inr (L', fi')"
  shows "mparam L' = ModelParam_of_bytes (take sizeof_ModelParam fi)
           \<and> sizeof_ModelParam \<le> length fi \<and> (\<exists>g. gbm L' = Obj g)"
proof -
  from assms obtain bs fi1 where r: "stream_Read sizeof_ModelParam fi = Some (bs, fi1)"
    by (auto simp: LoadModel_def split: option.splits)
  then have b: "bs = take sizeof_ModelParam fi" and l: "sizeof_ModelParam \<le> length fi"
    by (auto simp: stream_Read_def split: if_splits)
  from assms r obtain nobj fi2 where r2: "Read_string fi1 = Some (nobj, fi2)"
    by (auto simp: LoadModel_def split: option.splits)
  from assms r r2 obtain ngbm fi3 where r3: "Read_string fi2 = Some (ngbm, fi3)"
    by (auto simp: LoadModel_def split: option.splits)
  let ?L1 = "L\<lparr>mparam := ModelParam_of_bytes bs, name_obj := nobj, name_gbm := ngbm,
                obj := delete_if_set (obj L), gbm := delete_if_set (gbm L)\<rparr>"
  from assms r r2 r3 obtain L2 where i: "InitObjGBM E ?L1 = Inr L2"
    by (cases "InitObjGBM E ?L1") (auto simp: LoadModel_def thenE_def Let_def)
  have m: "mparam L2 = ModelParam_of_bytes bs"
    using InitObjGBM_keeps [OF i] by simp
  from assms r r2 r3 i obtain gb where d: "deref (gbm L2) = Inr gb"
    by (cases "deref (gbm L2)") (auto simp: LoadModel_def thenE_def Let_def)
  from assms r r2 r3 i d obtain gb' where "L' = L2\<lparr>gbm := Obj gb'\<rparr>"
    by (auto simp: LoadModel_def thenE_def Let_def split: option.splits)
  then show ?thesis
    using m b l by simp
qed

lemma LoadModel_rr_mparam:
  assumes "LoadModel_rr E R fi = Inr (R', fi')"
  shows "\<exists>gb fi1. gbm_LoadModel_rr E (base_gbm R) fi = Some (gb, fi1)
           \<and> base_gbm R' = gb
           \<and> mparam_rr R' = ModelParam_of_bytes_rr (take sizeof_ModelParam_rr fi1)
           \<and> sizeof_ModelParam_rr \<le> length fi1"
proof -
  from assms obtain gb fi1 where g: "gbm_LoadModel_rr E (base_gbm R) fi = Some (gb, fi1)"
    by (auto simp: LoadModel_rr_def split: option.splits)
  from assms g obtain bs fi2 where r: "stream_Read sizeof_ModelParam_rr fi1 = Some (bs, fi2)"
    by (auto simp: LoadModel_rr_def split: option.splits)
  then have b: "bs = take sizeof_ModelParam_rr fi1" and l: "sizeof_ModelParam_rr \<le> length fi1"
    by (auto simp: stream_Read_def split: if_splits)
  have "base_gbm R' = gb \<and> mparam_rr R' = ModelParam_of_bytes_rr bs"
    using assms g r
    by (auto simp: LoadModel_rr_def Let_def split: option.splits if_splits)
  then show ?thesis
    using g b l by simp
qed

lemma InitModel_base_score_new:
  assumes "InitModel E L = Inr L1"
  shows "\<exists>ob. obj L1 = Obj ob \<and> base_score (mparam L1) = obj_ProbToMargin E ob (base_score (mparam L))"
proof -
  from assms obtain L2 where i: "InitObjGBM E L = Inr L2"
    by (cases "InitObjGBM E L") (auto simp: InitModel_def thenE_def)
  from assms i obtain ob where o: "deref (obj L2) = Inr ob"
    by (cases "deref (obj L2)") (auto simp: InitModel_def thenE_def)
  then have oo: "obj L2 = Obj ob"
    by (cases "obj L2") (auto simp: deref_def)
  have m: "mparam L2 = mparam L"
    using InitObjGBM_keeps [OF i] by simp
  from assms i o obtain gb where "deref (gbm L2) = Inr gb"
    by (cases "deref (gbm L2)") (auto simp: InitModel_def thenE_def Let_def)
  then have "L1 = L2\<lparr>mparam := (mparam L2)\<lparr>base_score := obj_ProbToMargin E ob (base_score (mparam L2))\<rparr>,
                      gbm := Obj (gbm_InitModel E gb)\<rparr>"
    using assms i o by (auto simp: InitModel_def thenE_def Let_def)
  then show ?thesis
    using oo m by simp
qed

text \<open>
  C5. \<open>LoadModel\<close> stores the parameter block of the stream as it is: the probability to
  margin conversion of the base score is applied by \<open>InitModel\<close> (current learner:
  \<open>ProbToMargin\<close> of the objective) and not by \<open>LoadModel\<close>. So a model that was loaded and is
  saved at once is written with the very parameter block that was read, the reserved
  entries included. In the current learner's stream the block comes first; in the legacy
  learner's stream it follows the booster's state.
\<close>
theorem LoadModel_keeps_block:
  "(LoadModel E L fi = Inr (L', fi') \<longrightarrow>
      mparam L' = ModelParam_of_bytes (take sizeof_ModelParam fi)
      \<and> (\<exists>out. SaveModel E L' [] = Inr out
             \<and> take sizeof_ModelParam out = take sizeof_ModelParam fi))
   \<and> (LoadModel_rr E_rr R fj = Inr (R', fj') \<longrightarrow>
      (\<exists>gb fj1. gbm_LoadModel_rr E_rr (base_gbm R) fj = Some (gb, fj1)
         \<and> mparam_rr R' = ModelParam_of_bytes_rr (take sizeof_ModelParam_rr fj1)
         \<and> SaveModel_rr E_rr R' []
             = gbm_SaveModel_rr E_rr gb @ take sizeof_ModelParam_rr fj1
                 @ word_bytes (of_nat (length (name_obj_rr R')) :: size_t)
                 @ map byte_of_char (name_obj_rr R')))
   \<and> (InitModel E L = Inr L1 \<longrightarrow>
      (\<exists>ob. obj L1 = Obj ob
         \<and> base_score (mparam L1) = obj_ProbToMargin E ob (base_score (mparam L))))"
proof (intro conjI impI)
  assume a: "LoadModel E L fi = Inr (L', fi')"
  note m = LoadModel_mparam [OF a]
  from m show "mparam L' = ModelParam_of_bytes (take sizeof_ModelParam fi)"
    by simp
  from m obtain g where g: "gbm L' = Obj g"
    by blast
  have "length (take sizeof_ModelParam fi) = sizeof_ModelParam"
    using m by simp
  then have b: "ModelParam_bytes (mparam L') = take sizeof_ModelParam fi"
    using m by (simp add: ModelParam_bytes_of_bytes)
  have l: "length (take sizeof_ModelParam fi) = sizeof_ModelParam"
    using m by simp
  show "\<exists>out. SaveModel E L' [] = Inr out \<and> take sizeof_ModelParam out = take sizeof_ModelParam fi"
    using l by (simp add: SaveModel_bytes [OF g] b)
next
  assume a: "LoadModel_rr E_rr R fj = Inr (R', fj')"
  from LoadModel_rr_mparam [OF a] obtain gb fj1 where
    g: "gbm_LoadModel_rr E_rr (base_gbm R) fj = Some (gb, fj1)" and bg: "base_gbm R' = gb"
    and m: "mparam_rr R' = ModelParam_of_bytes_rr (take sizeof_ModelParam_rr fj1)"
    and l: "sizeof_ModelParam_rr \<le> length fj1"
    by blast
  have "length (take sizeof_ModelParam_rr fj1) = sizeof_ModelParam_rr"
    using l by simp
  then have b: "ModelParam_bytes_rr (mparam_rr R') = take sizeof_ModelParam_rr fj1"
    using m by (simp add: ModelParam_bytes_of_bytes_rr)
  show "\<exists>gb fj1. gbm_LoadModel_rr E_rr (base_gbm R) fj = Some (gb, fj1)
         \<and> mparam_rr R' = ModelParam_of_bytes_rr (take sizeof_ModelParam_rr fj1)
         \<and> SaveModel_rr E_rr R' []
             = gbm_SaveModel_rr E_rr gb @ take sizeof_ModelParam_rr fj1
                 @ word_bytes (of_nat (length (name_obj_rr R')) :: size_t)
                 @ map byte_of_char (name_obj_rr R')"
  proof -
    have s: "SaveModel_rr E_rr R' []
             = gbm_SaveModel_rr E_rr gb @ take sizeof_ModelParam_rr fj1
                 @ word_bytes (of_nat (length (name_obj_rr R')) :: size_t)
                 @ map byte_of_char (name_obj_rr R')"
      by (simp add: SaveModel_rr_def bg b)
    show ?thesis
      using g m s by blast
  qed
next
  assume "InitModel E L = Inr L1"
  then show "\<exists>ob. obj L1 = Obj ob
         \<and> base_score (mparam L1) = obj_ProbToMargin E ob (base_score (mparam L))"
    by (rule InitModel_base_score_new)
qed


lemma SaveModel_rr_bytes:
  "SaveModel_rr E R [] =
     gbm_SaveModel_rr E (base_gbm R) @ ModelParam_bytes_rr (mparam_rr R)
       @ word_bytes (of_nat (length (name_obj_rr R)) :: size_t) @ map byte_of_char (name_obj_rr R)"
  by (simp add: SaveModel_rr_def)

text \<open>What the legacy \<open>LoadModel\<close> does with a stream that the legacy \<open>SaveModel\<close> wrote.\<close>
lemma LoadModel_SaveModel_rr:
  assumes "length (name_obj_rr R) < 2 ^ 64"
    and "length (reserved_rr (mparam_rr R)) = 14"
    and "gbm_LoadModel_rr E (base_gbm R0)
           (gbm_SaveModel_rr E (base_gbm R)
              @ (ModelParam_bytes_rr (mparam_rr R)
                   @ word_bytes (of_nat (length (name_obj_rr R)) :: size_t)
                   @ map byte_of_char (name_obj_rr R)))
         = Some (g', ModelParam_bytes_rr (mparam_rr R)
                   @ word_bytes (of_nat (length (name_obj_rr R)) :: size_t)
                   @ map byte_of_char (name_obj_rr R))"
  shows "\<exists>R'. LoadModel_rr E R0 (SaveModel_rr E R []) = Inr (R', [])
           \<and> base_gbm R' = g' \<and> base_score_rr (mparam_rr R') = base_score_rr (mparam_rr R)
           \<and> cache_rr R' = cache_rr R0 \<and> name_obj_rr R' = name_obj_rr R"
proof -
  let ?mp = "ModelParam_bytes_rr (mparam_rr R)"
  let ?lb = "word_bytes (of_nat (length (name_obj_rr R)) :: size_t)"
  let ?cs = "map byte_of_char (name_obj_rr R)"
  have g: "gbm_LoadModel_rr E (base_gbm R0) (SaveModel_rr E R []) = Some (g', ?mp @ ?lb @ ?cs)"
    using assms(3) by (simp add: SaveModel_rr_bytes)
  have r1: "stream_Read sizeof_ModelParam_rr (?mp @ ?lb @ ?cs) = Some (?mp, ?lb @ ?cs)"
    using assms(2) by (intro stream_Read_append length_ModelParam_bytes_rr)
  have r2: "stream_Read 8 (?lb @ ?cs) = Some (?lb, ?cs)"
    by (intro stream_Read_append length_word_bytes64)
  have n: "unat (bytes_word ?lb :: size_t) = length (name_obj_rr R)"
    using assms(1) by (simp add: bytes_word_word_bytes64 unat_of_nat)
  have n2: "unat (of_nat (length (name_obj_rr R)) :: size_t) = length (name_obj_rr R)"
    using assms(1) by (simp add: unat_of_nat)
  have r3: "stream_Read (length (name_obj_rr R)) ?cs = Some (?cs, [])"
    using stream_Read_append [of ?cs "length (name_obj_rr R)" "[]"] by simp
  have c: "map char_of_byte ?cs = name_obj_rr R"
    by (simp add: map_char_of_byte)
  show ?thesis
    by (simp add: LoadModel_rr_def g r1 r2 n r3 c Let_def resize_def base_score_of_bytes_rr
        map_char_of_byte bytes_word_word_bytes64 n2)
qed






lemma trained_learner_fields:
  "gbm trained_learner = Obj 3" "name_obj trained_learner = ''reg:linear''"
  "name_gbm trained_learner = ''gbtree''" "length (reserved (mparam trained_learner)) = 32"
  "cache trained_learner = toy_cache"
  by (simp_all add: trained_learner_def BoostLearner_init_def ModelParam_init_def)

lemma trained_learner_rr_fields:
  "base_gbm trained_learner_rr = 3" "name_obj_rr trained_learner_rr = ''reg:linear''"
  "length (reserved_rr (mparam_rr trained_learner_rr)) = 14"
  "cache_rr trained_learner_rr = toy_cache_rr"
  by (simp_all add: trained_learner_rr_def RegRankBoostLearner_init_def ModelParam_init_rr_def)


text \<open>
  A saved model is loaded into a fresh learner and saved again: the parameter block
  written is the one read (in the legacy stream it comes after the booster's one byte).
\<close>
theorem LoadModel_keeps_block_witness:
  "(\<exists>out L' out'. SaveModel toy_env trained_learner [] = Inr out
      \<and> LoadModel toy_env (BoostLearner_init 0 0) out = Inr (L', [])
      \<and> SaveModel toy_env L' [] = Inr out'
      \<and> take sizeof_ModelParam out' = take sizeof_ModelParam out)
   \<and> (\<exists>R'. LoadModel_rr toy_env_rr (RegRankBoostLearner_init 0 0)
               (SaveModel_rr toy_env_rr trained_learner_rr []) = Inr (R', [])
      \<and> take sizeof_ModelParam_rr (drop 1 (SaveModel_rr toy_env_rr R' []))
           = take sizeof_ModelParam_rr (drop 1 (SaveModel_rr toy_env_rr trained_learner_rr [])))
   \<and> (\<exists>L1. InitModel toy_env (BoostLearner_init 0 0) = Inr L1 \<and> base_score (mparam L1) = 1)"
proof -
  let ?L0 = "BoostLearner_init 0 0 :: (byte, unit, 32 word, 32 word) BoostLearner"
  let ?R0 = "RegRankBoostLearner_init 0 0 :: (byte, unit, 32 word) RegRankBoostLearner"
  let ?fj = "SaveModel_rr toy_env_rr trained_learner_rr []"
  have s: "SaveModel toy_env trained_learner []
             = Inr (ModelParam_bytes (mparam trained_learner) @ Write_string (name_obj trained_learner)
                    @ Write_string (name_gbm trained_learner) @ [3] @ [])"
    by (simp add: SaveModel_bytes [of trained_learner 3] trained_learner_fields toy_env_def)
  obtain L' where l: "LoadModel toy_env ?L0
                 (ModelParam_bytes (mparam trained_learner) @ Write_string (name_obj trained_learner)
                    @ Write_string (name_gbm trained_learner) @ [3] @ []) = Inr (L', [])"
  proof -
    have "\<exists>L''. LoadModel toy_env ?L0
                 (ModelParam_bytes (mparam trained_learner) @ Write_string (name_obj trained_learner)
                    @ Write_string (name_gbm trained_learner) @ [3] @ []) = Inr (L'', [])
           \<and> gbm L'' = Obj 3 \<and> cache L'' = cache ?L0"
      by (intro LoadModel_SaveModel [where ?o0.0 = "()" and ?g0.0 = 0])
         (simp_all add: trained_learner_fields BoostLearner_init_def toy_env_def)
    then show ?thesis
      using that by blast
  qed
  have g: "gbm_LoadModel_rr toy_env_rr (base_gbm ?R0)
           (gbm_SaveModel_rr toy_env_rr (base_gbm trained_learner_rr)
              @ (ModelParam_bytes_rr (mparam_rr trained_learner_rr)
                   @ word_bytes (of_nat (length (name_obj_rr trained_learner_rr)) :: size_t)
                   @ map byte_of_char (name_obj_rr trained_learner_rr)))
         = Some (3, ModelParam_bytes_rr (mparam_rr trained_learner_rr)
                   @ word_bytes (of_nat (length (name_obj_rr trained_learner_rr)) :: size_t)
                   @ map byte_of_char (name_obj_rr trained_learner_rr))"
    by (simp add: toy_env_rr_def trained_learner_rr_fields)
  obtain R' where lr: "LoadModel_rr toy_env_rr ?R0 ?fj = Inr (R', [])"
    using LoadModel_SaveModel_rr [of trained_learner_rr toy_env_rr ?R0 3, OF _ _ g]
    by (auto simp: trained_learner_rr_fields)
  obtain L1 where i: "InitModel toy_env ?L0 = Inr L1"
    by (simp add: InitModel_def InitObjGBM_def BoostLearner_init_def toy_env_def thenE_def
        Assert_def deref_def Let_def)
  note t = LoadModel_keeps_block [of toy_env ?L0
      "ModelParam_bytes (mparam trained_learner) @ Write_string (name_obj trained_learner)
         @ Write_string (name_gbm trained_learner) @ [3] @ []" L' "[]" toy_env_rr ?R0 ?fj R' "[]" L1]
  from t l obtain out' where s': "SaveModel toy_env L' [] = Inr out'"
    and b: "take sizeof_ModelParam out'
        = take sizeof_ModelParam (ModelParam_bytes (mparam trained_learner)
            @ Write_string (name_obj trained_learner) @ Write_string (name_gbm trained_learner) @ [3] @ [])"
    by blast
  from t lr obtain gb fj1 where
    gl: "gbm_LoadModel_rr toy_env_rr (base_gbm ?R0) ?fj = Some (gb, fj1)"
    and sr: "SaveModel_rr toy_env_rr R' []
             = gbm_SaveModel_rr toy_env_rr gb @ take sizeof_ModelParam_rr fj1
                 @ word_bytes (of_nat (length (name_obj_rr R')) :: size_t)
                 @ map byte_of_char (name_obj_rr R')"
    by blast
  have fj1: "fj1 = drop 1 ?fj"
    using gl by (cases ?fj) (simp_all add: toy_env_rr_def)
  have "sizeof_ModelParam_rr \<le> length fj1"
    using LoadModel_rr_mparam [OF lr] gl by auto
  then have lt: "length (take sizeof_ModelParam_rr fj1) = sizeof_ModelParam_rr"
    by simp
  have "drop 1 (SaveModel_rr toy_env_rr R' [])
          = take sizeof_ModelParam_rr fj1
              @ word_bytes (of_nat (length (name_obj_rr R')) :: size_t)
              @ map byte_of_char (name_obj_rr R')"
  proof -
    have sg: "gbm_SaveModel_rr toy_env_rr gb = [gb]"
      by (simp add: toy_env_rr_def)
    show ?thesis
      by (simp add: sr sg)
  qed
  then have r: "take sizeof_ModelParam_rr (drop 1 (SaveModel_rr toy_env_rr R' []))
          = take sizeof_ModelParam_rr (drop 1 ?fj)"
    using lt by (simp add: fj1)
  from t i have m: "base_score (mparam L1) = 1"
    by (auto simp: toy_env_def BoostLearner_init_def ModelParam_init_def)
  show ?thesis
    using s l s' b lr r i m by auto
qed

section \<open>Removing a booster in the interactive mode\<close>

lemma InteractPredict_loop_preds:
  "InteractPredict_loop E this S es L = Inr L1 \<Longrightarrow> \<exists>ps. L1 = L\<lparr>preds_rr := ps\<rparr>"
proof (induction es arbitrary: L)
  case Nil
  then have "L1 = L\<lparr>preds_rr := preds_rr L\<rparr>"
    by simp
  then show ?case by blast
next
  case (Cons e es)
  from Cons.prems obtain ps where
    "InteractPredict_loop E this S es (L\<lparr>preds_rr := ps\<rparr>) = Inr L1"
    by (cases "InteractPredict E this S L (preds_rr L) (mat_rr e)") (auto simp: thenE_def)
  then obtain ps' where "L1 = L\<lparr>preds_rr := ps\<rparr>\<lparr>preds_rr := ps'\<rparr>"
    using Cons.IH by blast
  then have "L1 = L\<lparr>preds_rr := ps'\<rparr>"
    by simp
  then show ?case by blast
qed

text \<open>
  With the action "remove", once every cached matrix has been predicted with
  \<^verbatim>\<open>InteractPredict\<close>, the learner calls \<^verbatim>\<open>DelteBooster\<close> and returns: no gradient is computed,
  \<^verbatim>\<open>DoBoost\<close> and \<^verbatim>\<open>InteractRePredict\<close> are not called.
\<close>
lemma UpdateInteract_remove:
  assumes "InteractPredict_loop E this S (cache_rr L) L = Inr L1"
  shows "UpdateInteract E this S L ''remove'' train
           = Inr (L1\<lparr>base_gbm := gbm_DelteBooster E (base_gbm L)\<rparr>)"
proof -
  obtain ps where "L1 = L\<lparr>preds_rr := ps\<rparr>"
    using InteractPredict_loop_preds [OF assms] by blast
  then show ?thesis
    using assms by (simp add: UpdateInteract_def thenE_def)
qed

lemma UpdateInteract_remove_fails:
  assumes "InteractPredict_loop E this S (cache_rr L) L = Inl e"
  shows "UpdateInteract E this S L ''remove'' train = Inl e"
  using assms by (simp add: UpdateInteract_def thenE_def)

lemma interact_lookup: "FindBufferOffset_rr 7 interact_store interact_learner 10 = ([], 0)"
  by (simp add: FindBufferOffset_rr_def interact_learner_def interact_store_def
      RegRankBoostLearner_init_def)

lemma interact_loop:
  "InteractPredict_loop log_env_rr 7 interact_store (cache_rr interact_learner) interact_learner
     = Inr (interact_learner\<lparr>preds_rr := [2, 2]\<rparr>)"
proof -
  have c: "cache_rr interact_learner = [\<lparr>mat_rr = 10, buffer_offset_rr = 0, num_row_rr = 2\<rparr>]"
    by (simp add: interact_learner_def)
  have f: "base_gbm interact_learner = [([1], [1], 0), ([2], [2], 0)]" "obj_rr interact_learner = Obj ()"
    "preds_rr interact_learner = []" "base_score_rr (mparam_rr interact_learner) = 0"
    by (simp_all add: interact_learner_def RegRankBoostLearner_init_def ModelParam_init_rr_def)
  have n: "num_row (interact_store 10) = 2" "fmat (interact_store 10) = 2"
    by (simp_all add: interact_store_def)
  have e: "fadd log_env_rr = (\<lambda>a b. a + b)" "fzero log_env_rr = 0"
    "gbm_InteractPredict log_env_rr = (\<lambda>g d j bo. of_nat (length g))"
    "obj_PredTransform_rr log_env_rr = (\<lambda>ob ps. ps)"
    by (simp_all add: log_env_rr_def)
  have i: "InteractPredict log_env_rr 7 interact_store interact_learner [] 10 = Inr [2, 2]"
    by (simp add: InteractPredict_def interact_lookup Assert_def thenE_def n rows_of_2 f e
        resize_def write_at_def deref_def)
  show ?thesis
    by (simp add: c f i thenE_def)
qed

lemma UpdateInteract_remove_run:
  "UpdateInteract log_env_rr 7 interact_store interact_learner ''remove'' 10
     = Inr (interact_learner\<lparr>preds_rr := [2, 2], base_gbm := [([1], [1], 0)]\<rparr>)"
proof -
  have d: "gbm_DelteBooster log_env_rr (base_gbm interact_learner) = [([1], [1], 0)]"
    by (simp add: log_env_rr_def interact_learner_def RegRankBoostLearner_init_def)
  show ?thesis
    using UpdateInteract_remove [OF interact_loop, of 10] by (simp add: d)
qed

end
